theory Spec2Isabelle
  imports Complex_Main
begin

section \<open>IKRig encoding and decoding (\<^verbatim>\<open>src/python/ikrig.py\<close>)\<close>

text \<open>
  The plug-in computes on Maya's \<^verbatim>\<open>MVector\<close>, \<^verbatim>\<open>MMatrix\<close>, \<^verbatim>\<open>MQuaternion\<close> and
  \<^verbatim>\<open>MDoubleArray\<close> values. Those classes belong to the host library, not to the
  repository, so their operations are modelled from the data model of the specification
  (section 3). Floating-point numbers are idealised as real numbers throughout.

  Outcomes that the data model leaves undefined (the inverse of a singular matrix, the
  normalisation of a zero vector, a division by zero, an index out of range) are values of
  the type \<open>failure\<close>. An operation cannot be applied to such an outcome, so a
  computation whose next step needs the value stops there; a function that only hands
  the outcome on returns it as a part of its result.
\<close>

subsection \<open>Failures\<close>

datatype failure = SingularMatrix | UndefinedNormal | ZeroDivision | IndexError

definition bindE :: "failure + 'a \<Rightarrow> ('a \<Rightarrow> failure + 'b) \<Rightarrow> failure + 'b" where
  "bindE r f = (case r of Inl e \<Rightarrow> Inl e | Inr x \<Rightarrow> f x)"

subsection \<open>Vectors\<close>

text \<open>
  Modelled from the spec: \<^verbatim>\<open>MVector\<close> is the three-component vector of the data
  model, with addition, subtraction, multiplication by a scalar, dot product, cross
  product and magnitude.
\<close>

datatype MVector = MVector (vx: real) (vy: real) (vz: real)

definition vadd :: "MVector \<Rightarrow> MVector \<Rightarrow> MVector" where
  "vadd a b = MVector (vx a + vx b) (vy a + vy b) (vz a + vz b)"

definition vsub :: "MVector \<Rightarrow> MVector \<Rightarrow> MVector" where
  "vsub a b = MVector (vx a - vx b) (vy a - vy b) (vz a - vz b)"

definition vscale :: "MVector \<Rightarrow> real \<Rightarrow> MVector" where
  "vscale a k = MVector (vx a * k) (vy a * k) (vz a * k)"

definition vdot :: "MVector \<Rightarrow> MVector \<Rightarrow> real" where
  "vdot a b = vx a * vx b + vy a * vy b + vz a * vz b"

text \<open>The operator \<^verbatim>\<open>^\<close> of \<^verbatim>\<open>MVector\<close>: the cross product.\<close>

definition cross :: "MVector \<Rightarrow> MVector \<Rightarrow> MVector" where
  "cross a b = MVector (vy a * vz b - vz a * vy b)
                       (vz a * vx b - vx a * vz b)
                       (vx a * vy b - vy a * vx b)"

definition vlength :: "MVector \<Rightarrow> real" where
  "vlength a = sqrt (vdot a a)"

text \<open>
  Modelled from the spec: \<^verbatim>\<open>MVector.normal()\<close> is the unit-length copy of a vector; at
  magnitude zero the data model calls the result undefined, which the model records as
  the outcome \<open>UndefinedNormal\<close> instead of choosing a value.
\<close>

definition normal :: "MVector \<Rightarrow> failure + MVector" where
  "normal a = (if vlength a = 0 then Inl UndefinedNormal
               else Inr (MVector (vx a / vlength a) (vy a / vlength a) (vz a / vlength a)))"

text \<open>
  Modelled from the spec: \<^verbatim>\<open>MVector /= scalar\<close>; the divisor zero is outside the data
  model (chain lengths are positive) and recorded as \<open>ZeroDivision\<close>.
\<close>

definition vdiv :: "MVector \<Rightarrow> real \<Rightarrow> failure + MVector" where
  "vdiv a k = (if k = 0 then Inl ZeroDivision
               else Inr (MVector (vx a / k) (vy a / k) (vz a / k)))"

subsection \<open>Matrices\<close>

text \<open>
  Modelled from the spec: \<^verbatim>\<open>MMatrix\<close> is the 4x4 matrix of the data model,
  row-major: \<open>mRC\<close> is the element of row \<open>R\<close> and column \<open>C\<close>, and the
  flat index of the source (\<^verbatim>\<open>mat[12]\<close>) is \<open>4 * R + C\<close>. The translation is row 3.
\<close>

datatype MMatrix = MMatrix
  (m00: real) (m01: real) (m02: real) (m03: real)
  (m10: real) (m11: real) (m12: real) (m13: real)
  (m20: real) (m21: real) (m22: real) (m23: real)
  (m30: real) (m31: real) (m32: real) (m33: real)

definition mat_identity :: MMatrix where
  "mat_identity = MMatrix 1 0 0 0  0 1 0 0  0 0 1 0  0 0 0 1"

text \<open>
  \<^verbatim>\<open>mat[i]\<close> for a flat index below 16; the source only reads the literal indices
  12, 13, 14.
\<close>

definition mat_get :: "MMatrix \<Rightarrow> nat \<Rightarrow> real" where
  "mat_get m i =
    (if i = 0 then m00 m else if i = 1 then m01 m else if i = 2 then m02 m
     else if i = 3 then m03 m else if i = 4 then m10 m else if i = 5 then m11 m
     else if i = 6 then m12 m else if i = 7 then m13 m else if i = 8 then m20 m
     else if i = 9 then m21 m else if i = 10 then m22 m else if i = 11 then m23 m
     else if i = 12 then m30 m else if i = 13 then m31 m else if i = 14 then m32 m
     else m33 m)"

text \<open>
  \<^verbatim>\<open>mat[i] = v\<close> for a flat index below 16; the source only writes the literal
  indices 12, 13, 14.
\<close>

definition mat_set :: "MMatrix \<Rightarrow> nat \<Rightarrow> real \<Rightarrow> MMatrix" where
  "mat_set m i v =
    (if i = 0 then MMatrix v (m01 m) (m02 m) (m03 m) (m10 m) (m11 m) (m12 m) (m13 m)
         (m20 m) (m21 m) (m22 m) (m23 m) (m30 m) (m31 m) (m32 m) (m33 m)
     else if i = 1 then MMatrix (m00 m) v (m02 m) (m03 m) (m10 m) (m11 m) (m12 m) (m13 m)
         (m20 m) (m21 m) (m22 m) (m23 m) (m30 m) (m31 m) (m32 m) (m33 m)
     else if i = 2 then MMatrix (m00 m) (m01 m) v (m03 m) (m10 m) (m11 m) (m12 m) (m13 m)
         (m20 m) (m21 m) (m22 m) (m23 m) (m30 m) (m31 m) (m32 m) (m33 m)
     else if i = 3 then MMatrix (m00 m) (m01 m) (m02 m) v (m10 m) (m11 m) (m12 m) (m13 m)
         (m20 m) (m21 m) (m22 m) (m23 m) (m30 m) (m31 m) (m32 m) (m33 m)
     else if i = 4 then MMatrix (m00 m) (m01 m) (m02 m) (m03 m) v (m11 m) (m12 m) (m13 m)
         (m20 m) (m21 m) (m22 m) (m23 m) (m30 m) (m31 m) (m32 m) (m33 m)
     else if i = 5 then MMatrix (m00 m) (m01 m) (m02 m) (m03 m) (m10 m) v (m12 m) (m13 m)
         (m20 m) (m21 m) (m22 m) (m23 m) (m30 m) (m31 m) (m32 m) (m33 m)
     else if i = 6 then MMatrix (m00 m) (m01 m) (m02 m) (m03 m) (m10 m) (m11 m) v (m13 m)
         (m20 m) (m21 m) (m22 m) (m23 m) (m30 m) (m31 m) (m32 m) (m33 m)
     else if i = 7 then MMatrix (m00 m) (m01 m) (m02 m) (m03 m) (m10 m) (m11 m) (m12 m) v
         (m20 m) (m21 m) (m22 m) (m23 m) (m30 m) (m31 m) (m32 m) (m33 m)
     else if i = 8 then MMatrix (m00 m) (m01 m) (m02 m) (m03 m) (m10 m) (m11 m) (m12 m) (m13 m)
         v (m21 m) (m22 m) (m23 m) (m30 m) (m31 m) (m32 m) (m33 m)
     else if i = 9 then MMatrix (m00 m) (m01 m) (m02 m) (m03 m) (m10 m) (m11 m) (m12 m) (m13 m)
         (m20 m) v (m22 m) (m23 m) (m30 m) (m31 m) (m32 m) (m33 m)
     else if i = 10 then MMatrix (m00 m) (m01 m) (m02 m) (m03 m) (m10 m) (m11 m) (m12 m) (m13 m)
         (m20 m) (m21 m) v (m23 m) (m30 m) (m31 m) (m32 m) (m33 m)
     else if i = 11 then MMatrix (m00 m) (m01 m) (m02 m) (m03 m) (m10 m) (m11 m) (m12 m) (m13 m)
         (m20 m) (m21 m) (m22 m) v (m30 m) (m31 m) (m32 m) (m33 m)
     else if i = 12 then MMatrix (m00 m) (m01 m) (m02 m) (m03 m) (m10 m) (m11 m) (m12 m) (m13 m)
         (m20 m) (m21 m) (m22 m) (m23 m) v (m31 m) (m32 m) (m33 m)
     else if i = 13 then MMatrix (m00 m) (m01 m) (m02 m) (m03 m) (m10 m) (m11 m) (m12 m) (m13 m)
         (m20 m) (m21 m) (m22 m) (m23 m) (m30 m) v (m32 m) (m33 m)
     else if i = 14 then MMatrix (m00 m) (m01 m) (m02 m) (m03 m) (m10 m) (m11 m) (m12 m) (m13 m)
         (m20 m) (m21 m) (m22 m) (m23 m) (m30 m) (m31 m) v (m33 m)
     else if i = 15 then MMatrix (m00 m) (m01 m) (m02 m) (m03 m) (m10 m) (m11 m) (m12 m) (m13 m)
         (m20 m) (m21 m) (m22 m) (m23 m) (m30 m) (m31 m) (m32 m) v
     else m)"

text \<open>The product \<^verbatim>\<open>A * B\<close> of two matrices (rows of \<open>A\<close> against columns of \<open>B\<close>).\<close>

definition mat_mul :: "MMatrix \<Rightarrow> MMatrix \<Rightarrow> MMatrix" where
  "mat_mul a b = MMatrix
    (m00 a * m00 b + m01 a * m10 b + m02 a * m20 b + m03 a * m30 b)
    (m00 a * m01 b + m01 a * m11 b + m02 a * m21 b + m03 a * m31 b)
    (m00 a * m02 b + m01 a * m12 b + m02 a * m22 b + m03 a * m32 b)
    (m00 a * m03 b + m01 a * m13 b + m02 a * m23 b + m03 a * m33 b)
    (m10 a * m00 b + m11 a * m10 b + m12 a * m20 b + m13 a * m30 b)
    (m10 a * m01 b + m11 a * m11 b + m12 a * m21 b + m13 a * m31 b)
    (m10 a * m02 b + m11 a * m12 b + m12 a * m22 b + m13 a * m32 b)
    (m10 a * m03 b + m11 a * m13 b + m12 a * m23 b + m13 a * m33 b)
    (m20 a * m00 b + m21 a * m10 b + m22 a * m20 b + m23 a * m30 b)
    (m20 a * m01 b + m21 a * m11 b + m22 a * m21 b + m23 a * m31 b)
    (m20 a * m02 b + m21 a * m12 b + m22 a * m22 b + m23 a * m32 b)
    (m20 a * m03 b + m21 a * m13 b + m22 a * m23 b + m23 a * m33 b)
    (m30 a * m00 b + m31 a * m10 b + m32 a * m20 b + m33 a * m30 b)
    (m30 a * m01 b + m31 a * m11 b + m32 a * m21 b + m33 a * m31 b)
    (m30 a * m02 b + m31 a * m12 b + m32 a * m22 b + m33 a * m32 b)
    (m30 a * m03 b + m31 a * m13 b + m32 a * m23 b + m33 a * m33 b)"

text \<open>
  Modelled from the spec: \<^verbatim>\<open>MVector * MMatrix\<close> rotates (and scales) the vector by the
  upper-left 3x3 block; the translation row does not act on a direction vector.
\<close>

definition vec_mat :: "MVector \<Rightarrow> MMatrix \<Rightarrow> MVector" where
  "vec_mat v m = MVector
    (vx v * m00 m + vy v * m10 m + vz v * m20 m)
    (vx v * m01 m + vy v * m11 m + vz v * m21 m)
    (vx v * m02 m + vy v * m12 m + vz v * m22 m)"

text \<open>The determinant, by the 2x2 minors of the upper and of the lower two rows.\<close>

definition mat_det :: "MMatrix \<Rightarrow> real" where
  "mat_det a =
    (m00 a * m11 a - m10 a * m01 a) * (m22 a * m33 a - m32 a * m23 a)
  - (m00 a * m12 a - m10 a * m02 a) * (m21 a * m33 a - m31 a * m23 a)
  + (m00 a * m13 a - m10 a * m03 a) * (m21 a * m32 a - m31 a * m22 a)
  + (m01 a * m12 a - m11 a * m02 a) * (m20 a * m33 a - m30 a * m23 a)
  - (m01 a * m13 a - m11 a * m03 a) * (m20 a * m32 a - m30 a * m22 a)
  + (m02 a * m13 a - m12 a * m03 a) * (m20 a * m31 a - m30 a * m21 a)"

text \<open>The adjugate: the transposed matrix of cofactors.\<close>

definition mat_adj :: "MMatrix \<Rightarrow> MMatrix" where
  "mat_adj a =
    (let s0 = m00 a * m11 a - m10 a * m01 a; s1 = m00 a * m12 a - m10 a * m02 a;
         s2 = m00 a * m13 a - m10 a * m03 a; s3 = m01 a * m12 a - m11 a * m02 a;
         s4 = m01 a * m13 a - m11 a * m03 a; s5 = m02 a * m13 a - m12 a * m03 a;
         c5 = m22 a * m33 a - m32 a * m23 a; c4 = m21 a * m33 a - m31 a * m23 a;
         c3 = m21 a * m32 a - m31 a * m22 a; c2 = m20 a * m33 a - m30 a * m23 a;
         c1 = m20 a * m32 a - m30 a * m22 a; c0 = m20 a * m31 a - m30 a * m21 a
     in MMatrix
       (m11 a * c5 - m12 a * c4 + m13 a * c3)
       (- m01 a * c5 + m02 a * c4 - m03 a * c3)
       (m31 a * s5 - m32 a * s4 + m33 a * s3)
       (- m21 a * s5 + m22 a * s4 - m23 a * s3)
       (- m10 a * c5 + m12 a * c2 - m13 a * c1)
       (m00 a * c5 - m02 a * c2 + m03 a * c1)
       (- m30 a * s5 + m32 a * s2 - m33 a * s1)
       (m20 a * s5 - m22 a * s2 + m23 a * s1)
       (m10 a * c4 - m11 a * c2 + m13 a * c0)
       (- m00 a * c4 + m01 a * c2 - m03 a * c0)
       (m30 a * s4 - m31 a * s2 + m33 a * s0)
       (- m20 a * s4 + m21 a * s2 - m23 a * s0)
       (- m10 a * c3 + m11 a * c1 - m12 a * c0)
       (m00 a * c3 - m01 a * c1 + m02 a * c0)
       (- m30 a * s3 + m31 a * s1 - m32 a * s0)
       (m20 a * s3 - m21 a * s1 + m22 a * s0))"

definition mat_scale :: "MMatrix \<Rightarrow> real \<Rightarrow> MMatrix" where
  "mat_scale a k = MMatrix
    (m00 a * k) (m01 a * k) (m02 a * k) (m03 a * k)
    (m10 a * k) (m11 a * k) (m12 a * k) (m13 a * k)
    (m20 a * k) (m21 a * k) (m22 a * k) (m23 a * k)
    (m30 a * k) (m31 a * k) (m32 a * k) (m33 a * k)"

text \<open>
  Modelled from the spec: \<^verbatim>\<open>MMatrix.inverse()\<close> is the matrix inverse and fails with
  \<open>SingularMatrix\<close> when the matrix is not invertible.
\<close>

definition mat_inverse :: "MMatrix \<Rightarrow> failure + MMatrix" where
  "mat_inverse a = (if mat_det a = 0 then Inl SingularMatrix
                    else Inr (mat_scale (mat_adj a) (1 / mat_det a)))"

text \<open>The three rows of the upper-left 3x3 block, as vectors.\<close>

definition row0 :: "MMatrix \<Rightarrow> MVector" where
  "row0 m = MVector (m00 m) (m01 m) (m02 m)"

definition row1 :: "MMatrix \<Rightarrow> MVector" where
  "row1 m = MVector (m10 m) (m11 m) (m12 m)"

definition row2 :: "MMatrix \<Rightarrow> MVector" where
  "row2 m = MVector (m20 m) (m21 m) (m22 m)"

text \<open>
  Modelled from the spec: \<^verbatim>\<open>MMatrix.homogenize()\<close> orthonormalises the 3x3 rotation
  part and leaves the translation untouched. The model orthonormalises the rows in
  order (Gram-Schmidt); a row that collapses to zero length has no normalised form.
\<close>

definition homogenize :: "MMatrix \<Rightarrow> failure + MMatrix" where
  "homogenize m =
    bindE (normal (row0 m)) (\<lambda>n0.
    bindE (normal (vsub (row1 m) (vscale n0 (vdot (row1 m) n0)))) (\<lambda>n1.
    bindE (normal (vsub (vsub (row2 m) (vscale n0 (vdot (row2 m) n0)))
                        (vscale n1 (vdot (row2 m) n1)))) (\<lambda>n2.
    Inr (MMatrix (vx n0) (vy n0) (vz n0) (m03 m)
                 (vx n1) (vy n1) (vz n1) (m13 m)
                 (vx n2) (vy n2) (vz n2) (m23 m)
                 (m30 m) (m31 m) (m32 m) (m33 m)))))"

subsection \<open>Quaternions and Euler angles\<close>

text \<open>
  Modelled from the spec: \<^verbatim>\<open>MQuaternion\<close> has the four components x, y, z, w, and
  \<^verbatim>\<open>MEulerRotation\<close> the three angles x, y, z.
\<close>

datatype MQuaternion = MQuaternion (qx: real) (qy: real) (qz: real) (qw: real)

datatype MEulerRotation = MEulerRotation (rot_x: real) (rot_y: real) (rot_z: real)

text \<open>
  Modelled from the spec: \<^verbatim>\<open>MQuaternion.setValue(matrix)\<close> builds the quaternion of a
  homogenized rotation matrix. The model is the usual conversion for row vectors, which
  divides by the largest of the four candidate components.
\<close>

definition setValue :: "MMatrix \<Rightarrow> MQuaternion" where
  "setValue m =
    (let tr = m00 m + m11 m + m22 m in
     if 0 < tr then
       (let s = 2 * sqrt (tr + 1) in
        MQuaternion ((m12 m - m21 m) / s) ((m20 m - m02 m) / s) ((m01 m - m10 m) / s) (s / 4))
     else if m11 m < m00 m \<and> m22 m < m00 m then
       (let s = 2 * sqrt (1 + m00 m - m11 m - m22 m) in
        MQuaternion (s / 4) ((m01 m + m10 m) / s) ((m02 m + m20 m) / s) ((m12 m - m21 m) / s))
     else if m22 m < m11 m then
       (let s = 2 * sqrt (1 + m11 m - m00 m - m22 m) in
        MQuaternion ((m01 m + m10 m) / s) (s / 4) ((m12 m + m21 m) / s) ((m20 m - m02 m) / s))
     else
       (let s = 2 * sqrt (1 + m22 m - m00 m - m11 m) in
        MQuaternion ((m02 m + m20 m) / s) ((m12 m + m21 m) / s) (s / 4) ((m01 m - m10 m) / s)))"

text \<open>
  Modelled from the spec: \<^verbatim>\<open>MQuaternion.asMatrix()\<close>, the rotation matrix of a
  quaternion, for row vectors.
\<close>

definition asMatrix :: "MQuaternion \<Rightarrow> MMatrix" where
  "asMatrix q =
    (let x = qx q; y = qy q; z = qz q; w = qw q in
     MMatrix (1 - 2 * (y * y + z * z)) (2 * (x * y + w * z)) (2 * (x * z - w * y)) 0
             (2 * (x * y - w * z)) (1 - 2 * (x * x + z * z)) (2 * (y * z + w * x)) 0
             (2 * (x * z + w * y)) (2 * (y * z - w * x)) (1 - 2 * (x * x + y * y)) 0
             0 0 0 1)"

definition atan2 :: "real \<Rightarrow> real \<Rightarrow> real" where
  "atan2 y x =
    (if 0 < x then arctan (y / x)
     else if x < 0 \<and> 0 \<le> y then arctan (y / x) + pi
     else if x < 0 then arctan (y / x) - pi
     else if 0 < y then pi / 2
     else if y < 0 then - (pi / 2)
     else 0)"

text \<open>
  Modelled from the spec: \<^verbatim>\<open>MQuaternion.asEulerRotation()\<close>, the Euler-angle triple of
  a quaternion, in the rotation order XYZ.
\<close>

definition asEulerRotation :: "MQuaternion \<Rightarrow> MEulerRotation" where
  "asEulerRotation q =
    (let x = qx q; y = qy q; z = qz q; w = qw q in
     MEulerRotation (atan2 (2 * (w * x + y * z)) (1 - 2 * (x * x + y * y)))
                    (arcsin (max (-1) (min 1 (2 * (w * y - z * x)))))
                    (atan2 (2 * (w * z + x * y)) (1 - 2 * (y * y + z * z))))"

subsection \<open>Double arrays\<close>

text \<open>
  Modelled from the spec: an \<^verbatim>\<open>MDoubleArray\<close> is a sequence of reals, with the
  indexing and slicing of a Python sequence. Reading an index beyond the end raises
  \<^verbatim>\<open>IndexError\<close>; a slice \<^verbatim>\<open>a[i:j]\<close> never raises and is cut at the end of the array.
  The source uses literal, non-negative indices only.
\<close>

definition getitem :: "real list \<Rightarrow> nat \<Rightarrow> failure + real" where
  "getitem a i = (if i < length a then Inr (a ! i) else Inl IndexError)"

definition slice :: "real list \<Rightarrow> nat \<Rightarrow> nat \<Rightarrow> real list" where
  "slice a i j = drop i (take j a)"

subsection \<open>The functions of the module\<close>

text \<open>\<^verbatim>\<open>MMat2Trans\<close> (line 75): the translation of a matrix.\<close>

definition MMat2Trans :: "MMatrix \<Rightarrow> MVector" where
  "MMat2Trans mat = MVector (mat_get mat 12) (mat_get mat 13) (mat_get mat 14)"

text \<open>\<^verbatim>\<open>encoded2IK\<close> (lines 105 to 120): the chain decoder.\<close>

definition encoded2IK ::
  "real list \<Rightarrow> real \<Rightarrow> real \<Rightarrow> failure + (MVector \<times> MVector \<times> MVector \<times> MEulerRotation)" where
  "encoded2IK encoded_pose_array char_scale chain_scale =
    bindE (getitem encoded_pose_array 0) (\<lambda>a0.
    bindE (getitem encoded_pose_array 1) (\<lambda>a1.
    bindE (getitem encoded_pose_array 2) (\<lambda>a2.
    let ik_chain_root = MVector (a0 * char_scale) (a1 * char_scale) (a2 * char_scale) in
    bindE (getitem encoded_pose_array 3) (\<lambda>a3.
    bindE (getitem encoded_pose_array 4) (\<lambda>a4.
    bindE (getitem encoded_pose_array 5) (\<lambda>a5.
    let ik_chain_eff = MVector (a3 * chain_scale) (a4 * chain_scale) (a5 * chain_scale) in
    bindE (getitem encoded_pose_array 6) (\<lambda>a6.
    bindE (getitem encoded_pose_array 7) (\<lambda>a7.
    bindE (getitem encoded_pose_array 8) (\<lambda>a8.
    let ik_chain_upv = MVector a6 a7 a8 in
    bindE (getitem encoded_pose_array 9) (\<lambda>a9.
    bindE (getitem encoded_pose_array 10) (\<lambda>a10.
    bindE (getitem encoded_pose_array 11) (\<lambda>a11.
    bindE (getitem encoded_pose_array 12) (\<lambda>a12.
    let quat = MQuaternion a9 a10 a11 a12;
        ik_chain_eff_rot = asEulerRotation quat
    in Inr (ik_chain_root, ik_chain_eff, ik_chain_upv, ik_chain_eff_rot))))))))))))))"

subsection \<open>The decode node\<close>

text \<open>The scalar inputs shared by both nodes (\<^verbatim>\<open>float_attrs\<close>, lines 25 to 31).\<close>

record float_attrs =
  height_hips :: real
  length_spine :: real
  length_neck :: real
  length_leg_L :: real
  length_leg_R :: real
  length_arm_L :: real
  length_arm_R :: real

record decode_inputs = float_attrs +
  encoded_pose :: "real list"
  offset_mat :: MMatrix

text \<open>
  The output plugs of the decode node: the global matrix and the 24 attributes of
  \<^verbatim>\<open>out_float3_attrs\<close> (lines 50 to 73). The \<open>dir\<close> attributes receive the pole vectors.
\<close>

record decode_outputs =
  global_mat :: MMatrix
  ik_Spine_root :: MVector
  ik_Spine_dir :: MVector
  ik_Spine_eff :: MVector
  ik_Neck_root :: MVector
  ik_Neck_dir :: MVector
  ik_Neck_eff :: MVector
  ik_Leg_root_L :: MVector
  ik_Leg_dir_L :: MVector
  ik_Leg_eff_L :: MVector
  ik_Arm_root_L :: MVector
  ik_Arm_dir_L :: MVector
  ik_Arm_eff_L :: MVector
  ik_Leg_root_R :: MVector
  ik_Leg_dir_R :: MVector
  ik_Leg_eff_R :: MVector
  ik_Arm_root_R :: MVector
  ik_Arm_dir_R :: MVector
  ik_Arm_eff_R :: MVector
  ik_Spine_eff_rot :: MEulerRotation
  ik_Neck_eff_rot :: MEulerRotation
  ik_Leg_eff_rot_L :: MEulerRotation
  ik_Leg_eff_rot_R :: MEulerRotation
  ik_Arm_eff_rot_L :: MEulerRotation
  ik_Arm_eff_rot_R :: MEulerRotation

text \<open>The global character transform (lines 293 to 304).\<close>

definition decode_global_mat :: "decode_inputs \<Rightarrow> failure + MMatrix" where
  "decode_global_mat inp =
    (let encoded_pose_array = encoded_pose inp in
     bindE (getitem encoded_pose_array 0) (\<lambda>g_tr_x.
     let g_tr_y = 0 in
     bindE (getitem encoded_pose_array 1) (\<lambda>g_tr_z.
     bindE (getitem encoded_pose_array 2) (\<lambda>a2.
     bindE (getitem encoded_pose_array 3) (\<lambda>a3.
     bindE (getitem encoded_pose_array 4) (\<lambda>a4.
     bindE (getitem encoded_pose_array 5) (\<lambda>a5.
     let g_ori = MQuaternion a2 a3 a4 a5;
         g_mat = asMatrix g_ori;
         g_mat = mat_set g_mat 12 g_tr_x;
         g_mat = mat_set g_mat 13 g_tr_y;
         g_mat = mat_set g_mat 14 g_tr_z;
         g_mat = mat_mul g_mat (offset_mat inp)
     in Inr g_mat)))))))"

text \<open>
  The six calls of the chain decoder on the slices of the pose (lines 307 to 325). The
  spine's root is changed after its call: \<^verbatim>\<open>ik_spine_root.y += height_hips\<close>.
\<close>

type_synonym ik_chain = "MVector \<times> MVector \<times> MVector \<times> MEulerRotation"

definition decode_chains ::
  "decode_inputs \<Rightarrow> failure + (ik_chain \<times> ik_chain \<times> ik_chain \<times> ik_chain \<times> ik_chain \<times> ik_chain)" where
  "decode_chains inp =
    (let encoded_pose_array = encoded_pose inp in
     bindE (encoded2IK (slice encoded_pose_array 6 19) (height_hips inp) (length_spine inp))
       (\<lambda>(ik_spine_root, ik_spine_eff, ik_spine_upv, ik_spine_eff_rot).
     let ik_spine_root = MVector (vx ik_spine_root) (vy ik_spine_root + height_hips inp)
                                 (vz ik_spine_root) in
     bindE (encoded2IK (slice encoded_pose_array 19 32) (height_hips inp) (length_neck inp))
       (\<lambda>neck.
     bindE (encoded2IK (slice encoded_pose_array 32 45) (height_hips inp) (length_leg_L inp))
       (\<lambda>leg_L.
     bindE (encoded2IK (slice encoded_pose_array 45 58) (height_hips inp) (length_leg_R inp))
       (\<lambda>leg_R.
     bindE (encoded2IK (slice encoded_pose_array 58 71) (height_hips inp) (length_arm_L inp))
       (\<lambda>arm_L.
     bindE (encoded2IK (slice encoded_pose_array 71 84) (height_hips inp) (length_arm_R inp))
       (\<lambda>arm_R.
     Inr ((ik_spine_root, ik_spine_eff, ik_spine_upv, ik_spine_eff_rot),
          neck, leg_L, leg_R, arm_L, arm_R))))))))"

text \<open>
  \<^verbatim>\<open>ikrig_decode.compute\<close> (lines 276 to 350) on the output plugs \<open>db\<close>. The global
  matrix is written as soon as it is known (line 305); the chain attributes are written
  together at the end (lines 327 to 350). The result is the exception raised, if any,
  and the plugs as the call leaves them.
\<close>

definition ikrig_decode_compute ::
  "decode_inputs \<Rightarrow> decode_outputs \<Rightarrow> failure option \<times> decode_outputs" where
  "ikrig_decode_compute inp db =
    (case decode_global_mat inp of
       Inl e \<Rightarrow> (Some e, db)
     | Inr g_mat \<Rightarrow>
       (let db = db\<lparr>global_mat := g_mat\<rparr> in
        case decode_chains inp of
          Inl e \<Rightarrow> (Some e, db)
        | Inr ((ik_spine_root, ik_spine_eff, ik_spine_upv, ik_spine_eff_rot),
               (ik_neck_root, ik_neck_eff, ik_neck_upv, ik_neck_eff_rot),
               (ik_leg_root_L, ik_leg_eff_L, ik_leg_upv_L, ik_leg_eff_rot_L),
               (ik_leg_root_R, ik_leg_eff_R, ik_leg_upv_R, ik_leg_eff_rot_R),
               (ik_arm_root_L, ik_arm_eff_L, ik_arm_upv_L, ik_arm_eff_rot_L),
               (ik_arm_root_R, ik_arm_eff_R, ik_arm_upv_R, ik_arm_eff_rot_R)) \<Rightarrow>
          (None, db\<lparr>
        ik_Spine_root := MVector (vx ik_spine_root) (vy ik_spine_root) (vz ik_spine_root),
        ik_Spine_eff := MVector (vx ik_spine_eff) (vy ik_spine_eff) (vz ik_spine_eff),
        ik_Spine_dir := MVector (vx ik_spine_upv) (vy ik_spine_upv) (vz ik_spine_upv),
        ik_Spine_eff_rot := MEulerRotation (rot_x ik_spine_eff_rot) (rot_y ik_spine_eff_rot) (rot_z ik_spine_eff_rot),
        ik_Neck_root := MVector (vx ik_neck_root) (vy ik_neck_root) (vz ik_neck_root),
        ik_Neck_eff := MVector (vx ik_neck_eff) (vy ik_neck_eff) (vz ik_neck_eff),
        ik_Neck_dir := MVector (vx ik_neck_upv) (vy ik_neck_upv) (vz ik_neck_upv),
        ik_Neck_eff_rot := MEulerRotation (rot_x ik_neck_eff_rot) (rot_y ik_neck_eff_rot) (rot_z ik_neck_eff_rot),
        ik_Leg_root_L := MVector (vx ik_leg_root_L) (vy ik_leg_root_L) (vz ik_leg_root_L),
        ik_Leg_eff_L := MVector (vx ik_leg_eff_L) (vy ik_leg_eff_L) (vz ik_leg_eff_L),
        ik_Leg_dir_L := MVector (vx ik_leg_upv_L) (vy ik_leg_upv_L) (vz ik_leg_upv_L),
        ik_Leg_eff_rot_L := MEulerRotation (rot_x ik_leg_eff_rot_L) (rot_y ik_leg_eff_rot_L) (rot_z ik_leg_eff_rot_L),
        ik_Leg_root_R := MVector (vx ik_leg_root_R) (vy ik_leg_root_R) (vz ik_leg_root_R),
        ik_Leg_eff_R := MVector (vx ik_leg_eff_R) (vy ik_leg_eff_R) (vz ik_leg_eff_R),
        ik_Leg_dir_R := MVector (vx ik_leg_upv_R) (vy ik_leg_upv_R) (vz ik_leg_upv_R),
        ik_Leg_eff_rot_R := MEulerRotation (rot_x ik_leg_eff_rot_R) (rot_y ik_leg_eff_rot_R) (rot_z ik_leg_eff_rot_R),
        ik_Arm_root_L := MVector (vx ik_arm_root_L) (vy ik_arm_root_L) (vz ik_arm_root_L),
        ik_Arm_eff_L := MVector (vx ik_arm_eff_L) (vy ik_arm_eff_L) (vz ik_arm_eff_L),
        ik_Arm_dir_L := MVector (vx ik_arm_upv_L) (vy ik_arm_upv_L) (vz ik_arm_upv_L),
        ik_Arm_eff_rot_L := MEulerRotation (rot_x ik_arm_eff_rot_L) (rot_y ik_arm_eff_rot_L) (rot_z ik_arm_eff_rot_L),
        ik_Arm_root_R := MVector (vx ik_arm_root_R) (vy ik_arm_root_R) (vz ik_arm_root_R),
        ik_Arm_eff_R := MVector (vx ik_arm_eff_R) (vy ik_arm_eff_R) (vz ik_arm_eff_R),
        ik_Arm_dir_R := MVector (vx ik_arm_upv_R) (vy ik_arm_upv_R) (vz ik_arm_upv_R),
        ik_Arm_eff_rot_R := MEulerRotation (rot_x ik_arm_eff_rot_R) (rot_y ik_arm_eff_rot_R) (rot_z ik_arm_eff_rot_R)\<rparr>)))"

subsection \<open>The encode node\<close>

text \<open>
  \<^verbatim>\<open>FK2encoded\<close> (lines 78 to 103): the chain encoder. Line 96 is the last operation
  on \<^verbatim>\<open>ik_upv\<close>: the function hands on what \<^verbatim>\<open>normal()\<close> yields and returns its four
  results (line 103) whether or not the normalised pole vector has a value. No line
  tests the vector that is normalised, raises, or puts another vector in its place.
\<close>

type_synonym fk_chain = "MVector \<times> MVector \<times> MVector \<times> MQuaternion"

type_synonym fk_encoded = "MVector \<times> MVector \<times> (failure + MVector) \<times> MQuaternion"

definition FK2encoded ::
  "MMatrix \<Rightarrow> MMatrix \<Rightarrow> MMatrix \<Rightarrow> MMatrix \<Rightarrow> real \<Rightarrow> failure + fk_encoded" where
  "FK2encoded g_mat root_jnt dir_jnt eff_jnt chain_length =
    bindE (mat_inverse g_mat) (\<lambda>g_inv.
    let l_root_jnt = mat_mul root_jnt g_inv;
        ik_root = MMat2Trans l_root_jnt;
        vec_root = MMat2Trans root_jnt;
        vec_eff = MMat2Trans eff_jnt;
        l_vec_eff = vsub vec_eff vec_root in
    bindE (homogenize g_mat) (\<lambda>g_hom.
    bindE (mat_inverse g_hom) (\<lambda>g_hom_inv.
    let ik_eff = vec_mat l_vec_eff g_hom_inv in
    bindE (vdiv ik_eff chain_length) (\<lambda>ik_eff.
    let vec_dir = MMat2Trans dir_jnt;
        l_vec_dir = vsub vec_root vec_dir;
        ik_upv = cross (cross l_vec_dir l_vec_eff) l_vec_eff in
    bindE (mat_inverse g_mat) (\<lambda>g_inv.
    let ik_upv = vec_mat ik_upv g_inv;
        ik_upv = normal ik_upv in
    bindE (mat_inverse g_mat) (\<lambda>g_inv.
    let mat = mat_mul eff_jnt g_inv in
    bindE (homogenize mat) (\<lambda>mat_hom.
    let ik_eff_rot = setValue mat_hom in
    Inr (ik_root, ik_eff, ik_upv, ik_eff_rot))))))))"

text \<open>
  The items of a returned chain as numbers: they exist when the pole vector has a value.
\<close>

definition chain_values :: "fk_encoded \<Rightarrow> failure + fk_chain" where
  "chain_values c =
    (case c of (ik_root, ik_eff, ik_upv, ik_eff_rot) \<Rightarrow>
       bindE ik_upv (\<lambda>ik_upv. Inr (ik_root, ik_eff, ik_upv, ik_eff_rot)))"

record encode_inputs = float_attrs +
  mat_hips_rest :: MMatrix
  mat_hips :: MMatrix
  mat_spine :: MMatrix
  mat_neck :: MMatrix
  mat_neck_mid :: MMatrix
  mat_head :: MMatrix
  mat_leg_L :: MMatrix
  mat_shin_L :: MMatrix
  mat_foot_L :: MMatrix
  mat_shoulder_L :: MMatrix
  mat_elbow_L :: MMatrix
  mat_hand_L :: MMatrix
  mat_leg_R :: MMatrix
  mat_shin_R :: MMatrix
  mat_foot_R :: MMatrix
  mat_shoulder_R :: MMatrix
  mat_elbow_R :: MMatrix
  mat_hand_R :: MMatrix

text \<open>
  The global transform of \<^verbatim>\<open>ikrig_encode.compute\<close> (lines 136 to 160), which the
  specification calls the Frame Builder. It yields \<open>g_tr_x\<close>, \<open>g_tr_z\<close>, \<open>g_mat\<close> and
  \<open>g_ori\<close>. In line 146 the method call binds tighter than the operator:
  \<^verbatim>\<open>yaxis^zaxis.normal()\<close> is \<^verbatim>\<open>yaxis ^ (zaxis.normal())\<close>.
\<close>

definition frame_builder ::
  "MMatrix \<Rightarrow> MMatrix \<Rightarrow> real \<Rightarrow> failure + (real \<times> real \<times> MMatrix \<times> MQuaternion)" where
  "frame_builder hips_rest hips height =
    bindE (mat_inverse hips_rest) (\<lambda>rest_inv.
    let mat_hips_delta = mat_mul rest_inv hips;
        direction = vec_mat (MVector 0 0 1) mat_hips_delta;
        direction = MVector (vx direction) 0 (vz direction) in
    bindE (normal direction) (\<lambda>zaxis.
    let yaxis = MVector 0 1 0 in
    bindE (normal zaxis) (\<lambda>zaxis_normal.
    let xaxis = cross yaxis zaxis_normal;
        g_tr_x = mat_get hips 12;
        g_tr_y = height;
        g_tr_z = mat_get hips 14;
        zaxis = vscale zaxis height;
        yaxis = vscale yaxis height;
        xaxis = vscale xaxis height;
        g_mat = MMatrix (vx xaxis) (vy xaxis) (vz xaxis) 0
                        (vx yaxis) (vy yaxis) (vz yaxis) 0
                        (vx zaxis) (vy zaxis) (vz zaxis) 0
                        g_tr_x g_tr_y g_tr_z 1 in
    bindE (homogenize g_mat) (\<lambda>g_hom.
    let g_ori = setValue g_hom in
    Inr (g_tr_x, g_tr_z, g_mat, g_ori)))))"

text \<open>
  The frames of the lower and of the upper body (lines 165 to 168 and 172 to 175): a copy
  of \<open>g_mat\<close> whose elements 12, 13 and 14 are overwritten with those of another matrix.
\<close>

definition body_mat :: "MMatrix \<Rightarrow> MMatrix \<Rightarrow> MMatrix" where
  "body_mat g_mat anchor =
    (let body = g_mat;
         body = mat_set body 12 (mat_get anchor 12);
         body = mat_set body 13 (mat_get anchor 13);
         body = mat_set body 14 (mat_get anchor 14)
     in body)"

text \<open>
  The chains of \<^verbatim>\<open>ikrig_encode.compute\<close> (lines 136 to 186), computed in the order of
  the source (spine, legs, arms, neck) and collected in the order of \<^verbatim>\<open>out_components\<close>
  (spine, neck, legs, arms). The packing loop reads the items of every entry of
  \<^verbatim>\<open>out_components\<close>, so each chain is collected with the values of its items.
\<close>

definition encode_chains ::
  "encode_inputs \<Rightarrow>
   failure + (real \<times> real \<times> MQuaternion \<times>
              fk_chain \<times> fk_chain \<times> fk_chain \<times> fk_chain \<times> fk_chain \<times> fk_chain)" where
  "encode_chains inp =
    bindE (frame_builder (mat_hips_rest inp) (mat_hips inp) (height_hips inp))
      (\<lambda>(g_tr_x, g_tr_z, g_mat, g_ori).
    bindE (FK2encoded g_mat (mat_hips inp) (mat_spine inp) (mat_neck inp) (length_spine inp))
      (\<lambda>spine.
    let lower_body_mat = body_mat g_mat (mat_hips inp) in
    bindE (FK2encoded lower_body_mat (mat_leg_L inp) (mat_shin_L inp) (mat_foot_L inp)
             (length_leg_L inp)) (\<lambda>leg_L.
    bindE (FK2encoded lower_body_mat (mat_leg_R inp) (mat_shin_R inp) (mat_foot_R inp)
             (length_leg_R inp)) (\<lambda>leg_R.
    let upper_body_mat = body_mat g_mat (mat_neck inp) in
    bindE (FK2encoded upper_body_mat (mat_shoulder_L inp) (mat_elbow_L inp) (mat_hand_L inp)
             (length_arm_L inp)) (\<lambda>arm_L.
    bindE (FK2encoded upper_body_mat (mat_shoulder_R inp) (mat_elbow_R inp) (mat_hand_R inp)
             (length_arm_R inp)) (\<lambda>arm_R.
    bindE (FK2encoded upper_body_mat (mat_neck inp) (mat_neck_mid inp) (mat_head inp)
             (length_neck inp)) (\<lambda>neck.
    bindE (chain_values spine) (\<lambda>spine.
    bindE (chain_values neck) (\<lambda>neck.
    bindE (chain_values leg_L) (\<lambda>leg_L.
    bindE (chain_values leg_R) (\<lambda>leg_R.
    bindE (chain_values arm_L) (\<lambda>arm_L.
    bindE (chain_values arm_R) (\<lambda>arm_R.
    Inr (g_tr_x, g_tr_z, g_ori, spine, neck, leg_L, leg_R, arm_L, arm_R))))))))))))))"

text \<open>
  The entries of \<^verbatim>\<open>out_components\<close> (lines 180 to 186) are a pair, quaternions and
  vectors; the packing loop (lines 190 to 193) only uses their length and their items.
\<close>

datatype component = Pair2 real real | Quat MQuaternion | Vec MVector

fun component_len :: "component \<Rightarrow> nat" where
  "component_len (Pair2 a b) = 2"
| "component_len (Quat q) = 4"
| "component_len (Vec v) = 3"

fun component_item :: "component \<Rightarrow> nat \<Rightarrow> real" where
  "component_item (Pair2 a b) i = (if i = 0 then a else b)"
| "component_item (Quat q) i = (if i = 0 then qx q else if i = 1 then qy q
                                else if i = 2 then qz q else qw q)"
| "component_item (Vec v) i = (if i = 0 then vx v else if i = 1 then vy v else vz v)"

definition chain_components :: "fk_chain \<Rightarrow> component list" where
  "chain_components c =
    (case c of (ik_root, ik_eff, ik_upv, ik_eff_rot) \<Rightarrow>
       [Vec ik_root, Vec ik_eff, Vec ik_upv, Quat ik_eff_rot])"

definition out_components ::
  "real \<times> real \<times> MQuaternion \<times>
   fk_chain \<times> fk_chain \<times> fk_chain \<times> fk_chain \<times> fk_chain \<times> fk_chain \<Rightarrow> component list" where
  "out_components r =
    (case r of (g_tr_x, g_tr_z, g_ori, spine, neck, leg_L, leg_R, arm_L, arm_R) \<Rightarrow>
       [Pair2 g_tr_x g_tr_z, Quat g_ori] @ chain_components spine @ chain_components neck @
       chain_components leg_L @ chain_components leg_R @ chain_components arm_L @
       chain_components arm_R)"

definition output_values :: "component list \<Rightarrow> real list" where
  "output_values cs = concat (map (\<lambda>c. map (component_item c) [0..<component_len c]) cs)"

text \<open>\<^verbatim>\<open>ikrig_encode.compute\<close> (lines 127 to 195): the value set on the result plug.\<close>

definition ikrig_encode_compute :: "encode_inputs \<Rightarrow> failure + real list" where
  "ikrig_encode_compute inp =
    bindE (encode_chains inp) (\<lambda>r. Inr (output_values (out_components r)))"

subsection \<open>The layout of the encoded pose, as the specification states it\<close>

text \<open>
  A chain block is the root (3 values), the effector (3), the pole vector (3) and the
  effector orientation as a quaternion x, y, z, w (4).
\<close>

definition chain_block :: "fk_chain \<Rightarrow> real list" where
  "chain_block c =
    (case c of (ik_root, ik_eff, ik_upv, ik_eff_rot) \<Rightarrow>
       [vx ik_root, vy ik_root, vz ik_root, vx ik_eff, vy ik_eff, vz ik_eff,
        vx ik_upv, vy ik_upv, vz ik_upv,
        qx ik_eff_rot, qy ik_eff_rot, qz ik_eff_rot, qw ik_eff_rot])"

subsection \<open>Notions used in the statements\<close>

text \<open>
  A matrix is an affine transform when its last column is (0, 0, 0, 1), as for every
  joint matrix and every frame of the encoder.
\<close>

definition affine :: "MMatrix \<Rightarrow> bool" where
  "affine m \<longleftrightarrow> m03 m = 0 \<and> m13 m = 0 \<and> m23 m = 0 \<and> m33 m = 1"

text \<open>
  Three points are collinear when the cross product of the differences vanishes; for
  the joints of a chain this is the product \<^verbatim>\<open>l_vec_dir ^ l_vec_eff\<close> of the source.
\<close>

definition collinear3 :: "MVector \<Rightarrow> MVector \<Rightarrow> MVector \<Rightarrow> bool" where
  "collinear3 p q r \<longleftrightarrow> cross (vsub p q) (vsub r p) = MVector 0 0 0"

text \<open>The tuple that the chain encoder returns for a chain whose pole vector has a value.\<close>

definition encoded_chain :: "fk_chain \<Rightarrow> fk_encoded" where
  "encoded_chain c =
    (case c of (ik_root, ik_eff, ik_upv, ik_eff_rot) \<Rightarrow> (ik_root, ik_eff, Inr ik_upv, ik_eff_rot))"

text \<open>All seven scalar inputs are 1.\<close>

definition identity_scale :: "'a float_attrs_scheme \<Rightarrow> bool" where
  "identity_scale s \<longleftrightarrow>
    height_hips s = 1 \<and> length_spine s = 1 \<and> length_neck s = 1 \<and> length_leg_L s = 1 \<and>
    length_leg_R s = 1 \<and> length_arm_L s = 1 \<and> length_arm_R s = 1"

text \<open>
  A pose scaled by \<open>k\<close>: the hips height and the translation of every joint matrix
  (the elements 12, 13 and 14) are multiplied by \<open>k\<close>; rotations and chain lengths stay.
\<close>

definition scale_translation :: "real \<Rightarrow> MMatrix \<Rightarrow> MMatrix" where
  "scale_translation k m =
    MMatrix (m00 m) (m01 m) (m02 m) (m03 m)  (m10 m) (m11 m) (m12 m) (m13 m)
            (m20 m) (m21 m) (m22 m) (m23 m)  (k * m30 m) (k * m31 m) (k * m32 m) (m33 m)"

definition scale_pose :: "real \<Rightarrow> encode_inputs \<Rightarrow> encode_inputs" where
  "scale_pose k inp = inp
    \<lparr>height_hips := k * height_hips inp,
     mat_hips_rest := scale_translation k (mat_hips_rest inp),
     mat_hips := scale_translation k (mat_hips inp),
     mat_spine := scale_translation k (mat_spine inp),
     mat_neck := scale_translation k (mat_neck inp),
     mat_neck_mid := scale_translation k (mat_neck_mid inp),
     mat_head := scale_translation k (mat_head inp),
     mat_leg_L := scale_translation k (mat_leg_L inp),
     mat_shin_L := scale_translation k (mat_shin_L inp),
     mat_foot_L := scale_translation k (mat_foot_L inp),
     mat_shoulder_L := scale_translation k (mat_shoulder_L inp),
     mat_elbow_L := scale_translation k (mat_elbow_L inp),
     mat_hand_L := scale_translation k (mat_hand_L inp),
     mat_leg_R := scale_translation k (mat_leg_R inp),
     mat_shin_R := scale_translation k (mat_shin_R inp),
     mat_foot_R := scale_translation k (mat_foot_R inp),
     mat_shoulder_R := scale_translation k (mat_shoulder_R inp),
     mat_elbow_R := scale_translation k (mat_elbow_R inp),
     mat_hand_R := scale_translation k (mat_hand_R inp)\<rparr>"

text \<open>The six chain lengths multiplied by \<open>k\<close>.\<close>

definition scale_lengths :: "real \<Rightarrow> encode_inputs \<Rightarrow> encode_inputs" where
  "scale_lengths k inp = inp
    \<lparr>length_spine := k * length_spine inp,
     length_neck := k * length_neck inp,
     length_leg_L := k * length_leg_L inp,
     length_leg_R := k * length_leg_R inp,
     length_arm_L := k * length_arm_L inp,
     length_arm_R := k * length_arm_R inp\<rparr>"

definition affine_pose :: "encode_inputs \<Rightarrow> bool" where
  "affine_pose inp \<longleftrightarrow>
    affine (mat_hips_rest inp) \<and> affine (mat_hips inp) \<and> affine (mat_spine inp) \<and>
    affine (mat_neck inp) \<and> affine (mat_neck_mid inp) \<and> affine (mat_head inp) \<and>
    affine (mat_leg_L inp) \<and> affine (mat_shin_L inp) \<and> affine (mat_foot_L inp) \<and>
    affine (mat_shoulder_L inp) \<and> affine (mat_elbow_L inp) \<and> affine (mat_hand_L inp) \<and>
    affine (mat_leg_R inp) \<and> affine (mat_shin_R inp) \<and> affine (mat_foot_R inp) \<and>
    affine (mat_shoulder_R inp) \<and> affine (mat_elbow_R inp) \<and> affine (mat_hand_R inp)"

subsection \<open>Auxiliary notions of the proofs\<close>

definition det3 :: "MVector \<Rightarrow> MVector \<Rightarrow> MVector \<Rightarrow> real" where
  "det3 a b c = vdot a (cross b c)"

text \<open>An affine matrix, given by its three rows and its translation.\<close>

definition affine_mat :: "MVector \<Rightarrow> MVector \<Rightarrow> MVector \<Rightarrow> MVector \<Rightarrow> MMatrix" where
  "affine_mat a b c t = MMatrix (vx a) (vy a) (vz a) 0  (vx b) (vy b) (vz b) 0
                                (vx c) (vy c) (vz c) 0  (vx t) (vy t) (vz t) 1"

text \<open>The orthonormalisation of three rows, as \<open>homogenize\<close> performs it.\<close>

definition orthonormal_rows ::
  "MVector \<Rightarrow> MVector \<Rightarrow> MVector \<Rightarrow> failure + (MVector \<times> MVector \<times> MVector)" where
  "orthonormal_rows a b c =
    bindE (normal a) (\<lambda>n0.
    bindE (normal (vsub b (vscale n0 (vdot b n0)))) (\<lambda>n1.
    bindE (normal (vsub (vsub c (vscale n0 (vdot c n0))) (vscale n1 (vdot c n1)))) (\<lambda>n2.
    Inr (n0, n1, n2))))"

subsection \<open>Example inputs of the decode node\<close>

text \<open>A pose of \<open>n\<close> values, all 1, and output plugs before the first call.\<close>

definition decode_inputs_example :: "nat \<Rightarrow> decode_inputs" where
  "decode_inputs_example n =
    \<lparr>height_hips = 2, length_spine = 3, length_neck = 1, length_leg_L = 1, length_leg_R = 1,
     length_arm_L = 1, length_arm_R = 1, encoded_pose = replicate n 1,
     offset_mat = mat_identity\<rparr>"

definition decode_outputs_init :: decode_outputs where
  "decode_outputs_init =
    \<lparr>global_mat = mat_identity,
     ik_Spine_root = MVector 0 0 0, ik_Spine_dir = MVector 0 0 0, ik_Spine_eff = MVector 0 0 0,
     ik_Neck_root = MVector 0 0 0, ik_Neck_dir = MVector 0 0 0, ik_Neck_eff = MVector 0 0 0,
     ik_Leg_root_L = MVector 0 0 0, ik_Leg_dir_L = MVector 0 0 0, ik_Leg_eff_L = MVector 0 0 0,
     ik_Arm_root_L = MVector 0 0 0, ik_Arm_dir_L = MVector 0 0 0, ik_Arm_eff_L = MVector 0 0 0,
     ik_Leg_root_R = MVector 0 0 0, ik_Leg_dir_R = MVector 0 0 0, ik_Leg_eff_R = MVector 0 0 0,
     ik_Arm_root_R = MVector 0 0 0, ik_Arm_dir_R = MVector 0 0 0, ik_Arm_eff_R = MVector 0 0 0,
     ik_Spine_eff_rot = MEulerRotation 0 0 0, ik_Neck_eff_rot = MEulerRotation 0 0 0,
     ik_Leg_eff_rot_L = MEulerRotation 0 0 0, ik_Leg_eff_rot_R = MEulerRotation 0 0 0,
     ik_Arm_eff_rot_L = MEulerRotation 0 0 0, ik_Arm_eff_rot_R = MEulerRotation 0 0 0\<rparr>"

subsection \<open>Example inputs of the encode node\<close>

text \<open>
  A pose whose joints are pure translations, scaled by \<open>k\<close>, the pose that the
  encoder produces for it at \<open>k = 1\<close> and at \<open>k = 2\<close>, and the inputs that decode
  the former at identity scale.
\<close>

definition mat_translation :: "real \<Rightarrow> real \<Rightarrow> real \<Rightarrow> MMatrix" where
  "mat_translation x y z = MMatrix 1 0 0 0  0 1 0 0  0 0 1 0  x y z 1"

definition encode_inputs_example :: "real \<Rightarrow> encode_inputs" where
  "encode_inputs_example k =
    \<lparr>height_hips = k, length_spine = 1, length_neck = 1, length_leg_L = 1, length_leg_R = 1,
     length_arm_L = 1, length_arm_R = 1,
     mat_hips_rest = mat_translation 0 k 0,
     mat_hips = mat_translation k (2 * k) 0,
     mat_spine = mat_translation (2 * k) (2 * k) 0,
     mat_neck = mat_translation k (3 * k) 0,
     mat_neck_mid = mat_translation (2 * k) (3 * k) 0,
     mat_head = mat_translation k (4 * k) 0,
     mat_leg_L = mat_translation (2 * k) (2 * k) 0,
     mat_shin_L = mat_translation (3 * k) (2 * k) 0,
     mat_foot_L = mat_translation (2 * k) k 0,
     mat_shoulder_L = mat_translation (2 * k) (3 * k) 0,
     mat_elbow_L = mat_translation (3 * k) (3 * k) 0,
     mat_hand_L = mat_translation (2 * k) (4 * k) 0,
     mat_leg_R = mat_translation 0 (2 * k) 0,
     mat_shin_R = mat_translation k (2 * k) 0,
     mat_foot_R = mat_translation 0 k 0,
     mat_shoulder_R = mat_translation 0 (3 * k) 0,
     mat_elbow_R = mat_translation k (3 * k) 0,
     mat_hand_R = mat_translation 0 (4 * k) 0\<rparr>"

definition encoded_pose_example :: "real list" where
  "encoded_pose_example =
    [1, 0,  0, 0, 0, 1,
     0, 1, 0,  0, 1, 0,  1, 0, 0,  0, 0, 0, 1,
     0, 0, 0,  0, 1, 0,  1, 0, 0,  0, 0, 0, 1,
     1, 0, 0,  0, - 1, 0,  1, 0, 0,  0, 0, 0, 1,
     - 1, 0, 0,  0, - 1, 0,  1, 0, 0,  0, 0, 0, 1,
     1, 0, 0,  0, 1, 0,  1, 0, 0,  0, 0, 0, 1,
     - 1, 0, 0,  0, 1, 0,  1, 0, 0,  0, 0, 0, 1]"

definition roundtrip_inputs_example :: decode_inputs where
  "roundtrip_inputs_example =
    \<lparr>height_hips = 1, length_spine = 1, length_neck = 1, length_leg_L = 1, length_leg_R = 1,
     length_arm_L = 1, length_arm_R = 1, encoded_pose = encoded_pose_example,
     offset_mat = mat_identity\<rparr>"

definition encoded_pose_example_scaled :: "real list" where
  "encoded_pose_example_scaled =
    [2, 0,  0, 0, 0, 1,
     0, 1, 0,  0, 2, 0,  1, 0, 0,  0, 0, 0, 1,
     0, 0, 0,  0, 2, 0,  1, 0, 0,  0, 0, 0, 1,
     1, 0, 0,  0, - 2, 0,  1, 0, 0,  0, 0, 0, 1,
     - 1, 0, 0,  0, - 2, 0,  1, 0, 0,  0, 0, 0, 1,
     1, 0, 0,  0, 2, 0,  1, 0, 0,  0, 0, 0, 1,
     - 1, 0, 0,  0, 2, 0,  1, 0, 0,  0, 0, 0, 1]"

section \<open>Properties\<close>

subsection \<open>Basic facts\<close>

lemma bindE_Inl: "bindE (Inl e) f = Inl e"
  by (simp add: bindE_def)

lemma bindE_Inr: "bindE (Inr x) f = f x"
  by (simp add: bindE_def)

lemma bindE_eq_Inr:
  "bindE r f = Inr y \<longleftrightarrow> (\<exists>x. r = Inr x \<and> f x = Inr y)"
  by (cases r) (simp_all add: bindE_def)

lemma getitem_in_range: "i < length a \<Longrightarrow> getitem a i = Inr (a ! i)"
  by (simp add: getitem_def)

subsection \<open>The chain decoder\<close>

text \<open>
  C4. On a block of 13 values the chain decoder returns the root as the first three
  values times \<open>char_scale\<close>, the effector as the next three times \<open>chain_scale\<close>, the
  pole vector as the next three unchanged, and the Euler conversion of the quaternion
  whose components are the last four.
\<close>

theorem encoded2IK_block:
  assumes "length v = 13"
  shows "encoded2IK v char_scale chain_scale =
    Inr (MVector (v ! 0 * char_scale) (v ! 1 * char_scale) (v ! 2 * char_scale),
         MVector (v ! 3 * chain_scale) (v ! 4 * chain_scale) (v ! 5 * chain_scale),
         MVector (v ! 6) (v ! 7) (v ! 8),
         asEulerRotation (MQuaternion (v ! 9) (v ! 10) (v ! 11) (v ! 12)))"
  using assms by (simp add: encoded2IK_def getitem_in_range bindE_Inr)

theorem encoded2IK_block_witness:
  "length [1, 2, 3, 4, 5, 6, 7, 8, 9, 10, 11, 12, 13 :: real] = 13 \<and>
   encoded2IK [1, 2, 3, 4, 5, 6, 7, 8, 9, 10, 11, 12, 13] 2 3 =
    Inr (MVector 2 4 6, MVector 12 15 18, MVector 7 8 9,
         asEulerRotation (MQuaternion 10 11 12 13))"
  using encoded2IK_block [of "[1, 2, 3, 4, 5, 6, 7, 8, 9, 10, 11, 12, 13]" 2 3]
  by simp

lemma encoded2IK_short:
  assumes "length v < 13"
  shows "encoded2IK v char_scale chain_scale = Inl IndexError"
  using assms by (auto simp: encoded2IK_def Let_def getitem_def bindE_def)

lemma encoded2IK_long:
  assumes "13 \<le> length v"
  shows "\<exists>r. encoded2IK v char_scale chain_scale = Inr r"
proof -
  have "\<And>i. i < 13 \<Longrightarrow> getitem v i = Inr (v ! i)"
    using assms by (simp add: getitem_def)
  then show ?thesis
    by (simp add: encoded2IK_def bindE_Inr)
qed

lemma encoded2IK_Inl:
  "encoded2IK v char_scale chain_scale = Inl e \<Longrightarrow> e = IndexError"
  using encoded2IK_short [of v char_scale chain_scale] encoded2IK_long [of v char_scale chain_scale]
  by (cases "length v < 13") auto

lemma length_slice: "length (slice a i j) = min j (length a) - i"
  by (simp add: slice_def min.commute)

lemma encoded2IK_slice_long:
  assumes "84 \<le> length a" and "j \<le> 84" and "i + 13 = j"
  shows "\<exists>r. encoded2IK (slice a i j) h c = Inr r"
proof -
  have "13 \<le> length (slice a i j)"
    using assms by (simp add: length_slice)
  then show ?thesis by (rule encoded2IK_long)
qed

subsection \<open>The decode node\<close>

lemma decode_chains_Inl:
  "decode_chains inp = Inl e \<Longrightarrow> e = IndexError"
  by (auto simp: decode_chains_def Let_def bindE_def split: sum.splits prod.splits
      dest: encoded2IK_Inl)

lemma decode_chains_short:
  assumes "length (encoded_pose inp) < 84"
  shows "decode_chains inp = Inl IndexError"
proof -
  have "length (slice (encoded_pose inp) 71 84) < 13"
    using assms by (simp add: length_slice)
  then have "encoded2IK (slice (encoded_pose inp) 71 84) (height_hips inp) (length_arm_R inp) = Inl IndexError"
    by (rule encoded2IK_short)
  then have "\<exists>e. decode_chains inp = Inl e"
    by (auto simp: decode_chains_def Let_def bindE_def split: sum.splits prod.splits)
  then show ?thesis
    using decode_chains_Inl by blast
qed

lemma decode_global_mat_Inl:
  "decode_global_mat inp = Inl e \<Longrightarrow> e = IndexError"
  by (auto simp: decode_global_mat_def Let_def bindE_def getitem_def split: sum.splits if_splits)

lemma decode_global_mat_long:
  assumes "6 \<le> length (encoded_pose inp)"
  shows "\<exists>g. decode_global_mat inp = Inr g"
proof -
  have "\<And>i. i < 6 \<Longrightarrow> getitem (encoded_pose inp) i = Inr (encoded_pose inp ! i)"
    using assms by (simp add: getitem_def)
  then show ?thesis
    by (simp add: decode_global_mat_def Let_def bindE_Inr)
qed

lemma decode_chains_long:
  assumes "84 \<le> length (encoded_pose inp)"
  shows "\<exists>cs. decode_chains inp = Inr cs"
proof -
  obtain r1 where r1: "encoded2IK (slice (encoded_pose inp) 6 19) (height_hips inp) (length_spine inp) = Inr r1"
    using encoded2IK_slice_long [OF assms, of 19 6, simplified] by blast
  obtain r2 where r2: "encoded2IK (slice (encoded_pose inp) 19 32) (height_hips inp) (length_neck inp) = Inr r2"
    using encoded2IK_slice_long [OF assms, of 32 19, simplified] by blast
  obtain r3 where r3: "encoded2IK (slice (encoded_pose inp) 32 45) (height_hips inp) (length_leg_L inp) = Inr r3"
    using encoded2IK_slice_long [OF assms, of 45 32, simplified] by blast
  obtain r4 where r4: "encoded2IK (slice (encoded_pose inp) 45 58) (height_hips inp) (length_leg_R inp) = Inr r4"
    using encoded2IK_slice_long [OF assms, of 58 45, simplified] by blast
  obtain r5 where r5: "encoded2IK (slice (encoded_pose inp) 58 71) (height_hips inp) (length_arm_L inp) = Inr r5"
    using encoded2IK_slice_long [OF assms, of 71 58, simplified] by blast
  obtain r6 where r6: "encoded2IK (slice (encoded_pose inp) 71 84) (height_hips inp) (length_arm_R inp) = Inr r6"
    using encoded2IK_slice_long [OF assms, of 84 71, simplified] by blast
  have "decode_chains inp = Inr ((MVector (vx (fst r1)) (vy (fst r1) + height_hips inp) (vz (fst r1)),
      snd r1), r2, r3, r4, r5, r6)"
    by (simp add: decode_chains_def Let_def r1 r2 r3 r4 r5 r6 bindE_Inr case_prod_beta)
  then show ?thesis by blast
qed

lemma take_slice: "j \<le> n \<Longrightarrow> slice (take n a) i j = slice a i j"
  by (simp add: slice_def)

lemma decode_global_mat_take:
  assumes "84 \<le> length (encoded_pose inp)"
  shows "decode_global_mat (inp\<lparr>encoded_pose := take 84 (encoded_pose inp)\<rparr>) = decode_global_mat inp"
proof -
  have "\<And>i. i < 6 \<Longrightarrow> getitem (take 84 (encoded_pose inp)) i = getitem (encoded_pose inp) i"
    using assms by (simp add: getitem_def)
  then show ?thesis
    by (simp add: decode_global_mat_def Let_def)
qed

lemma decode_chains_take:
  "decode_chains (inp\<lparr>encoded_pose := take 84 (encoded_pose inp)\<rparr>) = decode_chains inp"
  by (simp add: decode_chains_def Let_def take_slice)

lemma decode_chains_example:
  "13 \<le> n \<Longrightarrow> encoded2IK (replicate n 1) h c =
    Inr (MVector h h h, MVector c c c, MVector 1 1 1, asEulerRotation (MQuaternion 1 1 1 1))"
  by (simp add: encoded2IK_def getitem_def bindE_Inr)

lemma slice_replicate: "slice (replicate n x) i j = replicate (min j n - i) x"
  by (simp add: slice_def min.commute)

lemma decode_example_chains:
  "84 \<le> n \<Longrightarrow> decode_chains (decode_inputs_example n) =
    Inr ((MVector 2 4 2, MVector 3 3 3, MVector 1 1 1, asEulerRotation (MQuaternion 1 1 1 1)),
         (MVector 2 2 2, MVector 1 1 1, MVector 1 1 1, asEulerRotation (MQuaternion 1 1 1 1)),
         (MVector 2 2 2, MVector 1 1 1, MVector 1 1 1, asEulerRotation (MQuaternion 1 1 1 1)),
         (MVector 2 2 2, MVector 1 1 1, MVector 1 1 1, asEulerRotation (MQuaternion 1 1 1 1)),
         (MVector 2 2 2, MVector 1 1 1, MVector 1 1 1, asEulerRotation (MQuaternion 1 1 1 1)),
         (MVector 2 2 2, MVector 1 1 1, MVector 1 1 1, asEulerRotation (MQuaternion 1 1 1 1)))"
  by (simp add: decode_chains_def decode_inputs_example_def slice_replicate
      decode_chains_example bindE_Inr)

lemma decode_example_global:
  "6 \<le> n \<Longrightarrow> \<exists>g. decode_global_mat (decode_inputs_example n) = Inr g"
  by (simp add: decode_global_mat_def decode_inputs_example_def getitem_def bindE_Inr)

lemma decode_example_success:
  assumes "84 \<le> n"
  shows "fst (ikrig_decode_compute (decode_inputs_example n) db) = None"
    and "ik_Spine_root (snd (ikrig_decode_compute (decode_inputs_example n) db)) = MVector 2 4 2"
    and "ik_Neck_root (snd (ikrig_decode_compute (decode_inputs_example n) db)) = MVector 2 2 2"
proof -
  from assms obtain g where g: "decode_global_mat (decode_inputs_example n) = Inr g"
    using decode_example_global [of n] by auto
  show "fst (ikrig_decode_compute (decode_inputs_example n) db) = None"
    and "ik_Spine_root (snd (ikrig_decode_compute (decode_inputs_example n) db)) = MVector 2 4 2"
    and "ik_Neck_root (snd (ikrig_decode_compute (decode_inputs_example n) db)) = MVector 2 2 2"
    using assms by (simp_all add: ikrig_decode_compute_def g decode_example_chains)
qed

text \<open>
  C9. When the decode node succeeds, the root written for the spine is the root returned
  by the chain decoder for the slice 6 to 19 with \<open>height_hips\<close> added to its Y component,
  and the roots written for the neck, the legs and the arms are the roots returned by the
  chain decoder for their slices, unchanged.
\<close>

theorem decode_spine_root_offset:
  assumes "ikrig_decode_compute inp db = (None, db')"
  shows "\<exists>spine neck leg_L leg_R arm_L arm_R.
    encoded2IK (slice (encoded_pose inp) 6 19) (height_hips inp) (length_spine inp) = Inr spine \<and>
    encoded2IK (slice (encoded_pose inp) 19 32) (height_hips inp) (length_neck inp) = Inr neck \<and>
    encoded2IK (slice (encoded_pose inp) 32 45) (height_hips inp) (length_leg_L inp) = Inr leg_L \<and>
    encoded2IK (slice (encoded_pose inp) 45 58) (height_hips inp) (length_leg_R inp) = Inr leg_R \<and>
    encoded2IK (slice (encoded_pose inp) 58 71) (height_hips inp) (length_arm_L inp) = Inr arm_L \<and>
    encoded2IK (slice (encoded_pose inp) 71 84) (height_hips inp) (length_arm_R inp) = Inr arm_R \<and>
    ik_Spine_root db' = MVector (vx (fst spine)) (vy (fst spine) + height_hips inp) (vz (fst spine)) \<and>
    ik_Neck_root db' = fst neck \<and>
    ik_Leg_root_L db' = fst leg_L \<and>
    ik_Leg_root_R db' = fst leg_R \<and>
    ik_Arm_root_L db' = fst arm_L \<and>
    ik_Arm_root_R db' = fst arm_R"
proof -
  from assms obtain g cs where g: "decode_global_mat inp = Inr g"
    and cs: "decode_chains inp = Inr cs"
    by (auto simp: ikrig_decode_compute_def Let_def split: sum.splits)
  from cs obtain spine neck leg_L leg_R arm_L arm_R where
    calls: "encoded2IK (slice (encoded_pose inp) 6 19) (height_hips inp) (length_spine inp) = Inr spine"
      "encoded2IK (slice (encoded_pose inp) 19 32) (height_hips inp) (length_neck inp) = Inr neck"
      "encoded2IK (slice (encoded_pose inp) 32 45) (height_hips inp) (length_leg_L inp) = Inr leg_L"
      "encoded2IK (slice (encoded_pose inp) 45 58) (height_hips inp) (length_leg_R inp) = Inr leg_R"
      "encoded2IK (slice (encoded_pose inp) 58 71) (height_hips inp) (length_arm_L inp) = Inr arm_L"
      "encoded2IK (slice (encoded_pose inp) 71 84) (height_hips inp) (length_arm_R inp) = Inr arm_R"
    and res: "cs = ((MVector (vx (fst spine)) (vy (fst spine) + height_hips inp) (vz (fst spine)),
                    snd spine), neck, leg_L, leg_R, arm_L, arm_R)"
    by (auto simp: decode_chains_def Let_def bindE_eq_Inr split: prod.splits)
  from assms g cs res have
    "ik_Spine_root db' = MVector (vx (fst spine)) (vy (fst spine) + height_hips inp) (vz (fst spine))"
    "ik_Neck_root db' = fst neck" "ik_Leg_root_L db' = fst leg_L" "ik_Leg_root_R db' = fst leg_R"
    "ik_Arm_root_L db' = fst arm_L" "ik_Arm_root_R db' = fst arm_R"
    by (auto simp: ikrig_decode_compute_def Let_def split: prod.splits)
  with calls show ?thesis by blast
qed

theorem decode_spine_root_offset_witness:
  "ikrig_decode_compute (decode_inputs_example 84) decode_outputs_init =
     (None, snd (ikrig_decode_compute (decode_inputs_example 84) decode_outputs_init)) \<and>
   ik_Spine_root (snd (ikrig_decode_compute (decode_inputs_example 84) decode_outputs_init)) =
     MVector 2 4 2 \<and>
   ik_Neck_root (snd (ikrig_decode_compute (decode_inputs_example 84) decode_outputs_init)) =
     MVector 2 2 2"
proof -
  have ok: "ikrig_decode_compute (decode_inputs_example 84) decode_outputs_init =
     (None, snd (ikrig_decode_compute (decode_inputs_example 84) decode_outputs_init))"
    using decode_example_success(1) [of 84 decode_outputs_init]
    by (simp add: prod_eq_iff)
  from decode_spine_root_offset [OF ok] obtain spine neck where
    "encoded2IK (slice (encoded_pose (decode_inputs_example 84)) 6 19)
       (height_hips (decode_inputs_example 84)) (length_spine (decode_inputs_example 84)) = Inr spine"
    "encoded2IK (slice (encoded_pose (decode_inputs_example 84)) 19 32)
       (height_hips (decode_inputs_example 84)) (length_neck (decode_inputs_example 84)) = Inr neck"
    "ik_Spine_root (snd (ikrig_decode_compute (decode_inputs_example 84) decode_outputs_init)) =
       MVector (vx (fst spine)) (vy (fst spine) + height_hips (decode_inputs_example 84)) (vz (fst spine))"
    "ik_Neck_root (snd (ikrig_decode_compute (decode_inputs_example 84) decode_outputs_init)) = fst neck"
    by blast
  then have
    "ik_Spine_root (snd (ikrig_decode_compute (decode_inputs_example 84) decode_outputs_init)) =
       MVector 2 4 2"
    "ik_Neck_root (snd (ikrig_decode_compute (decode_inputs_example 84) decode_outputs_init)) =
       MVector 2 2 2"
    by (auto simp: decode_inputs_example_def slice_replicate decode_chains_example)
  with ok show ?thesis by simp
qed

text \<open>
  C2, as the code has it. The decode node has no check of the pose's length and no
  failure of its own for a malformed pose. A pose shorter than 84 values makes an element
  read fail with \<open>IndexError\<close>, after the global matrix may already have been written, and
  leaves every chain attribute as it was. A pose of 84 values or more is decoded without
  failure, and the result is that of its first 84 values.
\<close>

theorem decode_no_length_check:
  "(length (encoded_pose inp) < 84 \<longrightarrow>
      fst (ikrig_decode_compute inp db) = Some IndexError \<and>
      (snd (ikrig_decode_compute inp db) = db \<or>
       (\<exists>g. snd (ikrig_decode_compute inp db) = db\<lparr>global_mat := g\<rparr>))) \<and>
   (84 \<le> length (encoded_pose inp) \<longrightarrow>
      fst (ikrig_decode_compute inp db) = None \<and>
      ikrig_decode_compute inp db =
        ikrig_decode_compute (inp\<lparr>encoded_pose := take 84 (encoded_pose inp)\<rparr>) db)"
proof (intro conjI impI)
  assume short: "length (encoded_pose inp) < 84"
  then have cs: "decode_chains inp = Inl IndexError"
    by (rule decode_chains_short)
  show "fst (ikrig_decode_compute inp db) = Some IndexError"
    using cs decode_global_mat_Inl [of inp]
    by (auto simp: ikrig_decode_compute_def Let_def split: sum.splits)
  show "snd (ikrig_decode_compute inp db) = db \<or>
       (\<exists>g. snd (ikrig_decode_compute inp db) = db\<lparr>global_mat := g\<rparr>)"
    using cs by (auto simp: ikrig_decode_compute_def Let_def split: sum.splits)
next
  assume long: "84 \<le> length (encoded_pose inp)"
  then obtain g where g: "decode_global_mat inp = Inr g"
    using decode_global_mat_long [of inp] by auto
  from long obtain cs where cs: "decode_chains inp = Inr cs"
    using decode_chains_long [of inp] by blast
  show "fst (ikrig_decode_compute inp db) = None"
    by (simp add: ikrig_decode_compute_def g cs Let_def case_prod_beta)
  show "ikrig_decode_compute inp db =
        ikrig_decode_compute (inp\<lparr>encoded_pose := take 84 (encoded_pose inp)\<rparr>) db"
    unfolding ikrig_decode_compute_def decode_global_mat_take [OF long] decode_chains_take ..
qed

theorem decode_no_length_check_witness:
  "length (encoded_pose (decode_inputs_example 83)) < 84 \<and>
   fst (ikrig_decode_compute (decode_inputs_example 83) decode_outputs_init) = Some IndexError \<and>
   84 \<le> length (encoded_pose (decode_inputs_example 85)) \<and>
   fst (ikrig_decode_compute (decode_inputs_example 85) decode_outputs_init) = None \<and>
   ikrig_decode_compute (decode_inputs_example 85) decode_outputs_init =
     ikrig_decode_compute (decode_inputs_example 84) decode_outputs_init"
proof -
  have short: "length (encoded_pose (decode_inputs_example 83)) < 84"
    by (simp add: decode_inputs_example_def)
  have long: "84 \<le> length (encoded_pose (decode_inputs_example 85))"
    by (simp add: decode_inputs_example_def)
  have cut: "(decode_inputs_example 85)\<lparr>encoded_pose := take 84 (encoded_pose (decode_inputs_example 85))\<rparr>
      = decode_inputs_example 84"
    by (simp add: decode_inputs_example_def)
  note below = decode_no_length_check [of "decode_inputs_example 83" decode_outputs_init,
      THEN conjunct1, rule_format, OF short]
  note above = decode_no_length_check [of "decode_inputs_example 85" decode_outputs_init,
      THEN conjunct2, rule_format, OF long]
  from below have a: "fst (ikrig_decode_compute (decode_inputs_example 83) decode_outputs_init) =
      Some IndexError"
    by (rule conjunct1)
  from above have b: "fst (ikrig_decode_compute (decode_inputs_example 85) decode_outputs_init) = None"
    by (rule conjunct1)
  from above have "ikrig_decode_compute (decode_inputs_example 85) decode_outputs_init =
      ikrig_decode_compute ((decode_inputs_example 85)\<lparr>encoded_pose :=
        take 84 (encoded_pose (decode_inputs_example 85))\<rparr>) decode_outputs_init"
    by (rule conjunct2)
  with cut have c: "ikrig_decode_compute (decode_inputs_example 85) decode_outputs_init =
      ikrig_decode_compute (decode_inputs_example 84) decode_outputs_init"
    by (simp only:)
  show ?thesis
    by (intro conjI) (rule short a long b c)+
qed

text \<open>
  A pose of 85 values is not rejected: the node raises nothing and writes the chain
  attributes.
\<close>

theorem decode_accepts_85_values:
  "length (encoded_pose (decode_inputs_example 85)) = 85 \<and>
   fst (ikrig_decode_compute (decode_inputs_example 85) decode_outputs_init) = None \<and>
   ik_Spine_root (snd (ikrig_decode_compute (decode_inputs_example 85) decode_outputs_init)) =
     MVector 2 4 2 \<and>
   ik_Spine_root decode_outputs_init = MVector 0 0 0"
  using decode_example_success [of 85 decode_outputs_init]
  by (simp add: decode_inputs_example_def decode_outputs_init_def)

subsection \<open>Packing the encoded pose\<close>

lemma upt_2: "[0..<2] = [0, Suc 0]" by (simp add: upt_rec)

lemma upt_3: "[0..<3] = [0, Suc 0, 2]" by (simp add: upt_rec)

lemma upt_4: "[0..<4] = [0, Suc 0, 2, 3]" by (simp add: upt_rec)

lemma output_values_chain:
  "output_values (chain_components c @ cs) = chain_block c @ output_values cs"
  by (cases c) (simp add: output_values_def chain_components_def chain_block_def upt_3 upt_4)

lemma output_values_Nil: "output_values [] = []"
  by (simp add: output_values_def)

lemma output_values_layout:
  "output_values (out_components (g_tr_x, g_tr_z, g_ori, spine, neck, leg_L, leg_R, arm_L, arm_R)) =
    [g_tr_x, g_tr_z] @ [qx g_ori, qy g_ori, qz g_ori, qw g_ori] @
    chain_block spine @ chain_block neck @ chain_block leg_L @ chain_block leg_R @
    chain_block arm_L @ chain_block arm_R"
proof -
  have head: "\<And>cs. output_values (Pair2 g_tr_x g_tr_z # Quat g_ori # cs) =
      [g_tr_x, g_tr_z] @ [qx g_ori, qy g_ori, qz g_ori, qw g_ori] @ output_values cs"
    by (simp add: output_values_def upt_2 upt_4)
  have last: "output_values (chain_components arm_R) = chain_block arm_R"
    using output_values_chain [of arm_R "[]"] by (simp add: output_values_Nil)
  show ?thesis
    by (simp only: out_components_def prod.case append.simps head output_values_chain last)
qed

lemma length_chain_block: "length (chain_block c) = 13"
  by (cases c) (simp add: chain_block_def)

subsection \<open>Vectors and determinants\<close>

lemma vdot_self_nonneg: "0 \<le> vdot a a"
  by (simp add: vdot_def)

lemma vdot_self_zero: "vdot a a = 0 \<longleftrightarrow> a = MVector 0 0 0"
proof
  assume "vdot a a = 0"
  then have "vx a * vx a + (vy a * vy a + vz a * vz a) = 0"
    by (simp add: vdot_def)
  then have "vx a = 0 \<and> vy a = 0 \<and> vz a = 0"
    by (simp add: add_nonneg_eq_0_iff)
  then show "a = MVector 0 0 0"
    by (cases a) simp
next
  assume "a = MVector 0 0 0"
  then show "vdot a a = 0" by (simp add: vdot_def)
qed

lemma vlength_zero_iff: "vlength a = 0 \<longleftrightarrow> a = MVector 0 0 0"
  by (simp add: vlength_def vdot_self_nonneg vdot_self_zero)

lemma vlength_square: "vlength a * vlength a = vdot a a"
  by (simp add: vlength_def vdot_self_nonneg)

lemma normal_Inr:
  "normal a = Inr n \<longleftrightarrow> a \<noteq> MVector 0 0 0 \<and> n = vscale a (1 / vlength a)"
  by (auto simp: normal_def vlength_zero_iff vscale_def)

lemma normal_zero: "normal (MVector 0 0 0) = Inl UndefinedNormal"
  by (simp add: normal_def vlength_zero_iff)

lemma vdot_vscale: "vdot (vscale a k) (vscale b j) = k * j * vdot a b"
  by (simp add: vdot_def vscale_def algebra_simps)

lemma vlength_normal:
  assumes "normal a = Inr n"
  shows "vlength n = 1"
proof -
  from assms have nz: "a \<noteq> MVector 0 0 0" and n: "n = vscale a (1 / vlength a)"
    by (simp_all add: normal_Inr)
  from nz have pos: "vlength a \<noteq> 0"
    by (simp add: vlength_zero_iff)
  have "vdot n n = (1 / vlength a) * (1 / vlength a) * vdot a a"
    unfolding n by (rule vdot_vscale)
  also have "\<dots> = 1"
    using pos by (simp add: vlength_square [symmetric])
  finally show ?thesis
    by (simp add: vlength_def)
qed

lemma vlength_vscale: "0 \<le> k \<Longrightarrow> vlength (vscale a k) = k * vlength a"
proof -
  assume k: "0 \<le> k"
  have "vdot (vscale a k) (vscale a k) = k * k * vdot a a"
    by (rule vdot_vscale)
  then have "vlength (vscale a k) = sqrt (k * k * vdot a a)"
    by (simp add: vlength_def)
  also have "\<dots> = k * vlength a"
    using k by (simp add: vlength_def real_sqrt_mult)
  finally show ?thesis .
qed

lemma normal_vscale:
  assumes "0 < k"
  shows "normal (vscale a k) = normal a"
proof -
  have len: "vlength (vscale a k) = k * vlength a"
    using assms by (simp add: vlength_vscale)
  show ?thesis
    using assms by (simp add: normal_def len) (simp add: vscale_def)
qed

lemma vdot_cross_right: "vdot (cross a b) b = 0"
  by (simp add: vdot_def cross_def algebra_simps)

lemma lagrange: "vdot (cross a b) (cross a b) = vdot a a * vdot b b - vdot a b * vdot a b"
  by (simp add: vdot_def cross_def algebra_simps)

lemma cross_zero_right: "cross a (MVector 0 0 0) = MVector 0 0 0"
  by (simp add: cross_def)

lemma cross_zero_left: "cross (MVector 0 0 0) b = MVector 0 0 0"
  by (simp add: cross_def)

lemma cross_cross_nonzero:
  assumes "cross a b \<noteq> MVector 0 0 0"
  shows "cross (cross a b) b \<noteq> MVector 0 0 0"
proof -
  from assms have b: "b \<noteq> MVector 0 0 0"
    using cross_zero_right by metis
  have "vdot (cross (cross a b) b) (cross (cross a b) b) =
      vdot (cross a b) (cross a b) * vdot b b"
    by (simp add: lagrange vdot_cross_right)
  moreover have "vdot (cross a b) (cross a b) \<noteq> 0" and "vdot b b \<noteq> 0"
    using assms b by (simp_all add: vdot_self_zero)
  ultimately have "vdot (cross (cross a b) b) (cross (cross a b) b) \<noteq> 0"
    by simp
  then show ?thesis
    by (simp add: vdot_self_zero)
qed

lemma cross_vscale: "cross (vscale a k) (vscale b j) = vscale (cross a b) (k * j)"
  by (simp add: cross_def vscale_def algebra_simps)

lemma vsub_vscale: "vsub (vscale a k) (vscale b k) = vscale (vsub a b) k"
  by (simp add: vsub_def vscale_def algebra_simps)

lemma vscale_vscale: "vscale (vscale a k) j = vscale a (k * j)"
  by (simp add: vscale_def algebra_simps)

lemma vscale_one: "vscale a 1 = a"
  by (simp add: vscale_def)

lemma vdiv_vscale:
  assumes "vdiv v len = Inr e"
  shows "vdiv (vscale v k) len = Inr (vscale e k)"
  using assms by (auto simp: vdiv_def vscale_def split: if_splits)

lemma det3_vscale:
  "det3 (vscale a k) b c = k * det3 a b c"
  "det3 a (vscale b k) c = k * det3 a b c"
  "det3 a b (vscale c k) = k * det3 a b c"
  by (simp_all add: det3_def vdot_def cross_def vscale_def algebra_simps)

lemma det3_vsub:
  "det3 a (vsub b b') c = det3 a b c - det3 a b' c"
  "det3 a b (vsub c c') = det3 a b c - det3 a b c'"
  by (simp_all add: det3_def vdot_def cross_def vsub_def algebra_simps)

lemma det3_repeat:
  "det3 a a c = 0" "det3 a b a = 0" "det3 a b b = 0"
  by (simp_all add: det3_def vdot_def cross_def algebra_simps)

lemma det3_zero:
  "det3 (MVector 0 0 0) b c = 0" "det3 a (MVector 0 0 0) c = 0" "det3 a b (MVector 0 0 0) = 0"
  by (simp_all add: det3_def vdot_def cross_def)

text \<open>Cramer's rule: a vector is recovered from its three determinants against the rows.\<close>

lemma cramer:
  "vscale v (det3 a b c) =
    vadd (vadd (vscale a (det3 v b c)) (vscale b (det3 a v c))) (vscale c (det3 a b v))"
  by (simp add: vscale_def vadd_def det3_def vdot_def cross_def algebra_simps)

subsection \<open>Affine matrices\<close>

lemma affine_eq:
  "affine m \<Longrightarrow> m = affine_mat (row0 m) (row1 m) (row2 m) (MMat2Trans m)"
  by (cases m) (simp add: affine_def affine_mat_def row0_def row1_def row2_def MMat2Trans_def mat_get_def)

lemma affine_affine_mat: "affine (affine_mat a b c t)"
  by (simp add: affine_def affine_mat_def)

lemma affine_mat_inject:
  "affine_mat a b c t = affine_mat a' b' c' t' \<longleftrightarrow> a = a' \<and> b = b' \<and> c = c' \<and> t = t'"
  by (cases a, cases b, cases c, cases t, cases a', cases b', cases c', cases t')
    (auto simp: affine_mat_def)

lemma rows_affine_mat:
  "row0 (affine_mat a b c t) = a" "row1 (affine_mat a b c t) = b" "row2 (affine_mat a b c t) = c"
  "MMat2Trans (affine_mat a b c t) = t"
  by (simp_all add: affine_mat_def row0_def row1_def row2_def MMat2Trans_def mat_get_def)

lemma frame_affine_mat:
  "MMatrix (vx x) (vy x) (vz x) 0  (vx y) (vy y) (vz y) 0  (vx z) (vy z) (vz z) 0  tx ty tz 1 =
    affine_mat x y z (MVector tx ty tz)"
  by (simp add: affine_mat_def)

lemma body_mat_affine_mat:
  "body_mat (affine_mat a b c t) anchor = affine_mat a b c (MMat2Trans anchor)"
  by (simp add: body_mat_def mat_set_def affine_mat_def MMat2Trans_def Let_def)

lemma body_mat_elements:
  "mat_get (body_mat g_mat anchor) i =
    (if i \<in> {12, 13, 14} then mat_get anchor i else mat_get g_mat i)"
  by (simp add: body_mat_def mat_set_def mat_get_def Let_def)

lemma mat_det_affine_mat: "mat_det (affine_mat a b c t) = det3 a b c"
  by (simp add: mat_det_def affine_mat_def det3_def vdot_def cross_def algebra_simps)

text \<open>The rows of the inverse of the 3x3 block, up to the determinant.\<close>

lemma mat_adj_affine_mat:
  "mat_adj (affine_mat a b c t) =
    MMatrix (vx (cross b c)) (vx (cross c a)) (vx (cross a b)) 0
            (vy (cross b c)) (vy (cross c a)) (vy (cross a b)) 0
            (vz (cross b c)) (vz (cross c a)) (vz (cross a b)) 0
            (- det3 t b c) (- det3 a t c) (- det3 a b t) (det3 a b c)"
  by (simp add: mat_adj_def affine_mat_def Let_def cross_def det3_def vdot_def algebra_simps)

lemma mat_inverse_affine_mat:
  assumes "det3 a b c \<noteq> 0"
  shows "mat_inverse (affine_mat a b c t) =
    Inr (affine_mat
      (vscale (MVector (vx (cross b c)) (vx (cross c a)) (vx (cross a b))) (1 / det3 a b c))
      (vscale (MVector (vy (cross b c)) (vy (cross c a)) (vy (cross a b))) (1 / det3 a b c))
      (vscale (MVector (vz (cross b c)) (vz (cross c a)) (vz (cross a b))) (1 / det3 a b c))
      (vscale (MVector (- det3 t b c) (- det3 a t c) (- det3 a b t)) (1 / det3 a b c)))"
  unfolding mat_inverse_def mat_det_affine_mat mat_adj_affine_mat
  using assms by (simp add: mat_scale_def affine_mat_def vscale_def)

lemma vec_mat_zero: "vec_mat (MVector 0 0 0) m = MVector 0 0 0"
  by (simp add: vec_mat_def)

lemma vec_mat_vscale: "vec_mat (vscale v k) m = vscale (vec_mat v m) k"
  by (simp add: vec_mat_def vscale_def algebra_simps)

lemma vec_mat_affine_mat:
  "vec_mat v (affine_mat a b c t) =
    MVector (vx v * vx a + vy v * vx b + vz v * vx c)
            (vx v * vy a + vy v * vy b + vz v * vy c)
            (vx v * vz a + vy v * vz b + vz v * vz c)"
  by (simp add: vec_mat_def affine_mat_def)

lemma vec_mat_rows_vscale:
  "vec_mat v (affine_mat (vscale a k) (vscale b k) (vscale c k) t) =
    vscale (vec_mat v (affine_mat a b c t')) k"
  by (simp add: vec_mat_affine_mat vscale_def algebra_simps)

lemma vec_mat_inverse_affine:
  assumes "det3 a b c \<noteq> 0"
    and "mat_inverse (affine_mat a b c t) = Inr g_inv"
  shows "vec_mat v g_inv =
    vscale (MVector (det3 v b c) (det3 a v c) (det3 a b v)) (1 / det3 a b c)"
proof -
  define d where "d = 1 / det3 a b c"
  from assms have g_inv: "g_inv = affine_mat
      (vscale (MVector (vx (cross b c)) (vx (cross c a)) (vx (cross a b))) d)
      (vscale (MVector (vy (cross b c)) (vy (cross c a)) (vy (cross a b))) d)
      (vscale (MVector (vz (cross b c)) (vz (cross c a)) (vz (cross a b))) d)
      (vscale (MVector (- det3 t b c) (- det3 a t c) (- det3 a b t)) d)"
    by (simp add: mat_inverse_affine_mat d_def)
  have c1: "det3 v b c = vx v * vx (cross b c) + vy v * vy (cross b c) + vz v * vz (cross b c)"
    by (simp add: det3_def vdot_def)
  have c2: "det3 a v c = vx v * vx (cross c a) + vy v * vy (cross c a) + vz v * vz (cross c a)"
    by (simp add: det3_def vdot_def cross_def algebra_simps)
  have c3: "det3 a b v = vx v * vx (cross a b) + vy v * vy (cross a b) + vz v * vz (cross a b)"
    by (simp add: det3_def vdot_def cross_def algebra_simps)
  show ?thesis
    unfolding g_inv vec_mat_affine_mat c1 c2 c3 d_def [symmetric]
    by (simp add: vscale_def algebra_simps)
qed

lemma vec_mat_inverse_nonzero:
  assumes "det3 a b c \<noteq> 0"
    and "mat_inverse (affine_mat a b c t) = Inr g_inv"
    and "v \<noteq> MVector 0 0 0"
  shows "vec_mat v g_inv \<noteq> MVector 0 0 0"
proof
  assume "vec_mat v g_inv = MVector 0 0 0"
  then have "vscale (MVector (det3 v b c) (det3 a v c) (det3 a b v)) (1 / det3 a b c) = MVector 0 0 0"
    using vec_mat_inverse_affine [OF assms(1,2)] by simp
  then have zero: "det3 v b c = 0" "det3 a v c = 0" "det3 a b v = 0"
    using assms(1) by (simp_all add: vscale_def)
  have "vscale v (det3 a b c) =
      vadd (vadd (vscale a (det3 v b c)) (vscale b (det3 a v c))) (vscale c (det3 a b v))"
    by (rule cramer)
  also have "\<dots> = MVector 0 0 0"
    by (simp add: zero vscale_def vadd_def)
  finally have "vx v * det3 a b c = 0" "vy v * det3 a b c = 0" "vz v * det3 a b c = 0"
    by (simp_all add: vscale_def)
  with assms(1) have "v = MVector 0 0 0"
    by (cases v) simp
  with assms(3) show False by contradiction
qed

lemma vec_mat_inverse_translation_free:
  assumes "mat_inverse (affine_mat a b c t) = Inr g_inv"
    and "mat_inverse (affine_mat a b c t') = Inr g_inv'"
  shows "vec_mat v g_inv' = vec_mat v g_inv"
proof -
  have D: "det3 a b c \<noteq> 0"
    using assms(1) by (auto simp: mat_inverse_def mat_det_affine_mat split: if_splits)
  show ?thesis
    by (simp add: vec_mat_inverse_affine [OF D assms(1)] vec_mat_inverse_affine [OF D assms(2)])
qed

lemma mat_inverse_translation:
  assumes "mat_inverse (affine_mat a b c t) = Inr g_inv"
  shows "\<exists>g_inv'. mat_inverse (affine_mat a b c t') = Inr g_inv'"
  using assms by (auto simp: mat_inverse_def mat_det_affine_mat split: if_splits)

lemma mat_inverse_rows_translation:
  assumes "mat_inverse (affine_mat a b c t) = Inr (affine_mat ia ib ic it)"
  shows "\<exists>it'. mat_inverse (affine_mat a b c t') = Inr (affine_mat ia ib ic it')"
proof -
  have D: "det3 a b c \<noteq> 0"
    using assms by (auto simp: mat_inverse_def mat_det_affine_mat split: if_splits)
  show ?thesis
    using assms by (simp add: mat_inverse_affine_mat [OF D] affine_mat_inject)
qed

lemma mat_mul_affine_mat:
  "mat_mul (affine_mat a b c t) (affine_mat a' b' c' t') =
    affine_mat (vec_mat a (affine_mat a' b' c' t')) (vec_mat b (affine_mat a' b' c' t'))
      (vec_mat c (affine_mat a' b' c' t')) (vadd (vec_mat t (affine_mat a' b' c' t')) t')"
  by (simp add: mat_mul_def affine_mat_def vec_mat_def vadd_def)

lemma det3_vec_mat:
  "det3 (vec_mat a (affine_mat a' b' c' t')) (vec_mat b (affine_mat a' b' c' t'))
      (vec_mat c (affine_mat a' b' c' t')) = det3 a b c * det3 a' b' c'"
  by (simp add: vec_mat_affine_mat det3_def vdot_def cross_def algebra_simps)

lemma mat_inverse_affine:
  assumes "affine g" and "mat_det g \<noteq> 0"
  shows "\<exists>ia ib ic it. mat_inverse g = Inr (affine_mat ia ib ic it) \<and> det3 ia ib ic \<noteq> 0"
proof -
  define a b c t where "a = row0 g" and "b = row1 g" and "c = row2 g" and "t = MMat2Trans g"
  have g: "g = affine_mat a b c t"
    unfolding a_def b_def c_def t_def using assms(1) by (rule affine_eq)
  have D: "det3 a b c \<noteq> 0"
    using assms(2) by (simp add: g mat_det_affine_mat)
  obtain ia ib ic it where inv: "mat_inverse (affine_mat a b c t) = Inr (affine_mat ia ib ic it)"
    using mat_inverse_affine_mat [OF D] by blast
  have "vec_mat a (affine_mat ia ib ic it) = MVector 1 0 0"
    "vec_mat b (affine_mat ia ib ic it) = MVector 0 1 0"
    "vec_mat c (affine_mat ia ib ic it) = MVector 0 0 1"
    using D by (simp_all add: vec_mat_inverse_affine [OF D inv] det3_repeat vscale_def)
  then have "det3 a b c * det3 ia ib ic = det3 (MVector 1 0 0) (MVector 0 1 0) (MVector 0 0 1)"
    using det3_vec_mat [of a ia ib ic it b c] by simp
  also have "\<dots> = 1"
    by (simp add: det3_def vdot_def cross_def)
  finally have "det3 ia ib ic \<noteq> 0"
    by auto
  with inv show ?thesis
    unfolding g by blast
qed

lemma mat_mul_affine_regular:
  assumes "affine e" and "mat_det e \<noteq> 0" and "det3 ia ib ic \<noteq> 0"
  shows "affine (mat_mul e (affine_mat ia ib ic it)) \<and>
    mat_det (mat_mul e (affine_mat ia ib ic it)) \<noteq> 0"
proof -
  define a b c t where "a = row0 e" and "b = row1 e" and "c = row2 e" and "t = MMat2Trans e"
  have e: "e = affine_mat a b c t"
    unfolding a_def b_def c_def t_def using assms(1) by (rule affine_eq)
  have "det3 a b c \<noteq> 0"
    using assms(2) by (simp add: e mat_det_affine_mat)
  then show ?thesis
    using assms(3)
    by (simp add: e mat_mul_affine_mat affine_affine_mat mat_det_affine_mat det3_vec_mat)
qed

lemma setValue_translation_free:
  "setValue (affine_mat a b c t) = setValue (affine_mat a b c t')"
  by (simp add: setValue_def affine_mat_def Let_def)

subsection \<open>Orthonormalisation\<close>

lemma homogenize_affine_mat:
  "homogenize (affine_mat a b c t) =
    bindE (orthonormal_rows a b c) (\<lambda>(n0, n1, n2). Inr (affine_mat n0 n1 n2 t))"
  unfolding homogenize_def orthonormal_rows_def rows_affine_mat
  by (simp add: bindE_def affine_mat_def split: sum.splits)

lemma orthonormal_rows_regular:
  assumes "det3 a b c \<noteq> 0"
  shows "\<exists>n0 n1 n2. orthonormal_rows a b c = Inr (n0, n1, n2) \<and> det3 n0 n1 n2 \<noteq> 0"
proof -
  define n0 where "n0 = vscale a (1 / vlength a)"
  define u1 where "u1 = vsub b (vscale n0 (vdot b n0))"
  define n1 where "n1 = vscale u1 (1 / vlength u1)"
  define u2 where "u2 = vsub (vsub c (vscale n0 (vdot c n0))) (vscale n1 (vdot c n1))"
  define n2 where "n2 = vscale u2 (1 / vlength u2)"
  have a: "a \<noteq> MVector 0 0 0"
    using assms det3_zero(1) by metis
  then have la: "vlength a \<noteq> 0"
    by (simp add: vlength_zero_iff)
  have step0: "normal a = Inr n0"
    using a by (simp add: normal_Inr n0_def)
  have d1: "det3 a u1 c = det3 a b c"
    by (simp add: u1_def n0_def det3_vsub det3_vscale det3_repeat)
  then have u1: "u1 \<noteq> MVector 0 0 0"
    using assms det3_zero(2) by metis
  then have l1: "vlength u1 \<noteq> 0"
    by (simp add: vlength_zero_iff)
  have step1: "normal u1 = Inr n1"
    using u1 by (simp add: normal_Inr n1_def)
  have d2: "det3 a u1 u2 = det3 a b c"
    by (simp add: u2_def n0_def n1_def det3_vsub det3_vscale det3_repeat d1)
  then have u2: "u2 \<noteq> MVector 0 0 0"
    using assms det3_zero(3) by metis
  then have l2: "vlength u2 \<noteq> 0"
    by (simp add: vlength_zero_iff)
  have step2: "normal u2 = Inr n2"
    using u2 by (simp add: normal_Inr n2_def)
  have "det3 n0 n1 n2 = (1 / vlength u2) * ((1 / vlength u1) * ((1 / vlength a) * det3 a u1 u2))"
    by (simp only: n0_def n1_def n2_def det3_vscale)
  then have "det3 n0 n1 n2 \<noteq> 0"
    using la l1 l2 assms by (simp add: d2)
  moreover have "orthonormal_rows a b c = Inr (n0, n1, n2)"
    unfolding orthonormal_rows_def step0 bindE_Inr u1_def [symmetric] step1
      u2_def [symmetric] step2 ..
  ultimately show ?thesis by blast
qed

lemma orthonormal_rows_vscale:
  assumes "0 < k"
  shows "orthonormal_rows (vscale a k) (vscale b k) (vscale c k) = orthonormal_rows a b c"
proof -
  have lin: "\<And>v n. vsub (vscale v k) (vscale n (vdot (vscale v k) n)) =
      vscale (vsub v (vscale n (vdot v n))) k"
    by (simp add: vsub_def vscale_def vdot_def algebra_simps)
  have lin2: "\<And>v n m. vsub (vscale (vsub v (vscale n (vdot v n))) k) (vscale m (vdot (vscale v k) m)) =
      vscale (vsub (vsub v (vscale n (vdot v n))) (vscale m (vdot v m))) k"
    by (simp add: vsub_def vscale_def vdot_def algebra_simps)
  show ?thesis
    unfolding orthonormal_rows_def normal_vscale [OF assms] lin lin2 ..
qed

lemma homogenize_affine:
  assumes "affine m" and "mat_det m \<noteq> 0"
  shows "\<exists>h. homogenize m = Inr h \<and> affine h \<and> mat_det h \<noteq> 0"
proof -
  define a b c t where "a = row0 m" and "b = row1 m" and "c = row2 m" and "t = MMat2Trans m"
  have m: "m = affine_mat a b c t"
    unfolding a_def b_def c_def t_def using assms(1) by (rule affine_eq)
  have "det3 a b c \<noteq> 0"
    using assms(2) by (simp add: m mat_det_affine_mat)
  then obtain n0 n1 n2 where rows: "orthonormal_rows a b c = Inr (n0, n1, n2)"
    and regular: "det3 n0 n1 n2 \<noteq> 0"
    using orthonormal_rows_regular by blast
  have "homogenize m = Inr (affine_mat n0 n1 n2 t)"
    by (simp add: m homogenize_affine_mat rows bindE_Inr)
  moreover have "affine (affine_mat n0 n1 n2 t)"
    by (rule affine_affine_mat)
  moreover have "mat_det (affine_mat n0 n1 n2 t) \<noteq> 0"
    using regular by (simp add: mat_det_affine_mat)
  ultimately show ?thesis by blast
qed

lemma homogenize_scaled_rows:
  assumes "0 < k"
  shows "homogenize (affine_mat (vscale a k) (vscale b k) (vscale c k) t) =
    homogenize (affine_mat a b c t)"
  by (simp add: homogenize_affine_mat orthonormal_rows_vscale [OF assms])

lemma homogenize_translation:
  assumes "homogenize (affine_mat a b c t) = Inr h"
  shows "\<exists>n0 n1 n2. h = affine_mat n0 n1 n2 t \<and>
    homogenize (affine_mat a b c t') = Inr (affine_mat n0 n1 n2 t')"
proof -
  from assms obtain n0 n1 n2 where rows: "orthonormal_rows a b c = Inr (n0, n1, n2)"
    and h: "h = affine_mat n0 n1 n2 t"
    by (auto simp: homogenize_affine_mat bindE_eq_Inr)
  have "homogenize (affine_mat a b c t') = Inr (affine_mat n0 n1 n2 t')"
    by (simp add: homogenize_affine_mat rows bindE_Inr)
  with h show ?thesis by blast
qed

subsection \<open>The modelled operations meet the data model\<close>

text \<open>
  The inverse is a two-sided inverse, a homogenized matrix has orthonormal rows and the
  translation of its argument, and the identity rotation and the identity quaternion
  correspond.
\<close>

lemma mat_adj_right: "mat_mul a (mat_adj a) = mat_scale mat_identity (mat_det a)"
  by (simp add: mat_mul_def mat_adj_def mat_scale_def mat_identity_def mat_det_def Let_def
      algebra_simps)

lemma mat_adj_left: "mat_mul (mat_adj a) a = mat_scale mat_identity (mat_det a)"
  by (simp add: mat_mul_def mat_adj_def mat_scale_def mat_identity_def mat_det_def Let_def
      algebra_simps)

lemma mat_mul_scale_right: "mat_mul a (mat_scale b k) = mat_scale (mat_mul a b) k"
  by (simp add: mat_mul_def mat_scale_def algebra_simps)

lemma mat_mul_scale_left: "mat_mul (mat_scale b k) a = mat_scale (mat_mul b a) k"
  by (simp add: mat_mul_def mat_scale_def algebra_simps)

lemma mat_scale_scale: "mat_scale (mat_scale a k) j = mat_scale a (k * j)"
  by (simp add: mat_scale_def algebra_simps)

lemma mat_scale_one: "mat_scale a 1 = a"
  by (simp add: mat_scale_def)

lemma mat_inverse_correct:
  assumes "mat_inverse a = Inr b"
  shows "mat_mul a b = mat_identity" and "mat_mul b a = mat_identity"
proof -
  from assms have d: "mat_det a \<noteq> 0" and b: "b = mat_scale (mat_adj a) (1 / mat_det a)"
    by (auto simp: mat_inverse_def split: if_splits)
  show "mat_mul a b = mat_identity"
    using d by (simp add: b mat_mul_scale_right mat_adj_right mat_scale_scale mat_scale_one)
  show "mat_mul b a = mat_identity"
    using d by (simp add: b mat_mul_scale_left mat_adj_left mat_scale_scale mat_scale_one)
qed

lemma vdot_normal_self:
  assumes "normal a = Inr n"
  shows "vdot n n = 1"
proof -
  have "vlength n = 1" using assms by (rule vlength_normal)
  then have "vlength n * vlength n = 1" by simp
  then show ?thesis by (simp add: vlength_square)
qed

lemma orthonormal_rows_orthonormal:
  assumes "orthonormal_rows a b c = Inr (n0, n1, n2)"
  shows "vdot n0 n0 = 1 \<and> vdot n1 n1 = 1 \<and> vdot n2 n2 = 1 \<and>
    vdot n0 n1 = 0 \<and> vdot n0 n2 = 0 \<and> vdot n1 n2 = 0"
proof -
  define u1 where "u1 = vsub b (vscale n0 (vdot b n0))"
  define u2 where "u2 = vsub (vsub c (vscale n0 (vdot c n0))) (vscale n1 (vdot c n1))"
  from assms have s0: "normal a = Inr n0" and s1: "normal u1 = Inr n1" and s2: "normal u2 = Inr n2"
    by (auto simp: orthonormal_rows_def bindE_eq_Inr u1_def u2_def)
  note unit = vdot_normal_self [OF s0] vdot_normal_self [OF s1] vdot_normal_self [OF s2]
  have n1: "n1 = vscale u1 (1 / vlength u1)" and n2: "n2 = vscale u2 (1 / vlength u2)"
    using s1 s2 by (simp_all add: normal_Inr)
  have lin: "\<And>p q r k. vdot p (vsub q (vscale r k)) = vdot p q - k * vdot p r"
    by (simp add: vdot_def vsub_def vscale_def algebra_simps)
  have sc: "\<And>p q k. vdot p (vscale q k) = k * vdot p q"
    by (simp add: vdot_def vscale_def algebra_simps)
  have comm: "\<And>p q. vdot p q = vdot q p"
    by (simp add: vdot_def algebra_simps)
  have "vdot n0 u1 = 0"
    by (simp add: u1_def lin unit comm)
  then have o01: "vdot n0 n1 = 0"
    by (simp add: n1 sc)
  have "vdot n0 u2 = 0"
    by (simp add: u2_def lin unit o01 comm [of c n0])
  then have o02: "vdot n0 n2 = 0"
    by (simp add: n2 sc)
  have "vdot n1 u2 = 0"
    using o01 by (simp add: u2_def lin unit comm [of n1 n0] comm [of c n1])
  then have o12: "vdot n1 n2 = 0"
    by (simp add: n2 sc)
  from unit o01 o02 o12 show ?thesis by simp
qed

lemma setValue_identity: "setValue mat_identity = MQuaternion 0 0 0 1"
  by (simp add: setValue_def mat_identity_def)

lemma asMatrix_identity: "asMatrix (MQuaternion 0 0 0 1) = mat_identity"
  by (simp add: asMatrix_def mat_identity_def)

lemma homogenize_rows:
  "homogenize m =
    bindE (orthonormal_rows (row0 m) (row1 m) (row2 m)) (\<lambda>(n0, n1, n2).
      Inr (MMatrix (vx n0) (vy n0) (vz n0) (m03 m)  (vx n1) (vy n1) (vz n1) (m13 m)
                   (vx n2) (vy n2) (vz n2) (m23 m)  (m30 m) (m31 m) (m32 m) (m33 m)))"
  unfolding homogenize_def orthonormal_rows_def
  by (simp add: bindE_def split: sum.splits)

lemma homogenize_orthonormal:
  assumes "homogenize m = Inr h"
  shows "vdot (row0 h) (row0 h) = 1 \<and> vdot (row1 h) (row1 h) = 1 \<and> vdot (row2 h) (row2 h) = 1 \<and>
    vdot (row0 h) (row1 h) = 0 \<and> vdot (row0 h) (row2 h) = 0 \<and> vdot (row1 h) (row2 h) = 0 \<and>
    MMat2Trans h = MMat2Trans m"
proof -
  from assms obtain n0 n1 n2 where rows: "orthonormal_rows (row0 m) (row1 m) (row2 m) = Inr (n0, n1, n2)"
    and h: "h = MMatrix (vx n0) (vy n0) (vz n0) (m03 m)  (vx n1) (vy n1) (vz n1) (m13 m)
                   (vx n2) (vy n2) (vz n2) (m23 m)  (m30 m) (m31 m) (m32 m) (m33 m)"
    by (auto simp: homogenize_rows bindE_eq_Inr)
  have "row0 h = n0" "row1 h = n1" "row2 h = n2" "MMat2Trans h = MMat2Trans m"
    by (simp_all add: h row0_def row1_def row2_def MMat2Trans_def mat_get_def)
  with orthonormal_rows_orthonormal [OF rows] show ?thesis by simp
qed

subsection \<open>The encode node on frames without rotation\<close>

text \<open>
  The example pose has joints that are pure translations, so that every frame is a
  uniformly scaled identity rotation with a translation.
\<close>

lemma vlength_x: "vlength (MVector a 0 0) = \<bar>a\<bar>"
  by (simp add: vlength_def vdot_def)

lemma vlength_y: "vlength (MVector 0 a 0) = \<bar>a\<bar>"
  by (simp add: vlength_def vdot_def)

lemma vlength_z: "vlength (MVector 0 0 a) = \<bar>a\<bar>"
  by (simp add: vlength_def vdot_def)

lemma normal_x: "0 < a \<Longrightarrow> normal (MVector a 0 0) = Inr (MVector 1 0 0)"
  by (simp add: normal_def vlength_x)

lemma normal_y: "0 < a \<Longrightarrow> normal (MVector 0 a 0) = Inr (MVector 0 1 0)"
  by (simp add: normal_def vlength_y)

lemma normal_z: "0 < a \<Longrightarrow> normal (MVector 0 0 a) = Inr (MVector 0 0 1)"
  by (simp add: normal_def vlength_z)

lemma mat_inverse_frame:
  "h \<noteq> 0 \<Longrightarrow> mat_inverse (MMatrix h 0 0 0  0 h 0 0  0 0 h 0  tx ty tz 1) =
    Inr (MMatrix (1 / h) 0 0 0  0 (1 / h) 0 0  0 0 (1 / h) 0  (- tx / h) (- ty / h) (- tz / h) 1)"
  by (simp add: mat_inverse_def mat_det_def mat_adj_def mat_scale_def Let_def field_simps power3_eq_cube)

lemma homogenize_frame:
  "0 < h \<Longrightarrow> homogenize (MMatrix h 0 0 0  0 h 0 0  0 0 h 0  tx ty tz 1) =
    Inr (MMatrix 1 0 0 0  0 1 0 0  0 0 1 0  tx ty tz 1)"
  by (simp add: homogenize_def row0_def row1_def row2_def normal_x normal_y normal_z
      bindE_Inr vdot_def vsub_def vscale_def)

lemma setValue_identity_rotation:
  "setValue (MMatrix 1 0 0 a  0 1 0 b  0 0 1 c  tx ty tz d) = MQuaternion 0 0 0 1"
  by (simp add: setValue_def)

lemma frame_builder_translations:
  assumes "0 < h"
  shows "frame_builder (mat_translation rx ry rz) (mat_translation tx ty tz) h =
    Inr (tx, tz, MMatrix h 0 0 0  0 h 0 0  0 0 h 0  tx h tz 1, MQuaternion 0 0 0 1)"
proof -
  have inv: "mat_inverse (MMatrix 1 0 0 0  0 1 0 0  0 0 1 0  rx ry rz 1) =
      Inr (MMatrix 1 0 0 0  0 1 0 0  0 0 1 0  (- rx) (- ry) (- rz) 1)"
    using mat_inverse_frame [of 1 rx ry rz] by simp
  show ?thesis
    unfolding mat_translation_def frame_builder_def inv bindE_Inr
    using assms
    by (simp add: Let_def mat_mul_def vec_mat_def bindE_Inr
        normal_z mat_get_def cross_def vscale_def homogenize_frame setValue_identity_rotation)
qed

lemma chain_values_Inr_pole [simp]:
  "chain_values (ik_root, ik_eff, Inr ik_upv, ik_eff_rot) = Inr (ik_root, ik_eff, ik_upv, ik_eff_rot)"
  by (simp add: chain_values_def bindE_Inr)

lemma chain_values_Inl_pole [simp]:
  "chain_values (ik_root, ik_eff, Inl e, ik_eff_rot) = Inl e"
  by (simp add: chain_values_def bindE_Inl)

lemma encoded_chain_tuple:
  "encoded_chain (ik_root, ik_eff, ik_upv, ik_eff_rot) = (ik_root, ik_eff, Inr ik_upv, ik_eff_rot)"
  by (simp add: encoded_chain_def)

lemma chain_values_encoded_chain [simp]: "chain_values (encoded_chain c) = Inr c"
  by (cases c) (simp add: encoded_chain_def)

lemma chain_values_eq_Inr: "chain_values c = Inr d \<longleftrightarrow> c = encoded_chain d"
proof (cases c)
  case (fields ik_root ik_eff ik_upv ik_eff_rot)
  then show ?thesis
    by (cases ik_upv; cases d) (auto simp: encoded_chain_def)
qed

lemma FK2encoded_translations:
  assumes "0 < h" and "len \<noteq> 0"
  shows "FK2encoded (MMatrix h 0 0 0  0 h 0 0  0 0 h 0  tx ty tz 1)
      (mat_translation rx ry rz) (mat_translation dx dy dz) (mat_translation ex ey ez) len =
    Inr (MVector ((rx - tx) / h) ((ry - ty) / h) ((rz - tz) / h),
         MVector ((ex - rx) / len) ((ey - ry) / len) ((ez - rz) / len),
         normal (vscale (cross (cross (MVector (rx - dx) (ry - dy) (rz - dz))
                                      (MVector (ex - rx) (ey - ry) (ez - rz)))
                               (MVector (ex - rx) (ey - ry) (ez - rz))) (1 / h)),
         MQuaternion 0 0 0 1)"
proof -
  have h0: "h \<noteq> 0" and hinv: "0 < 1 / h"
    using assms by simp_all
  have inv1: "mat_inverse (MMatrix 1 0 0 0  0 1 0 0  0 0 1 0  tx ty tz 1) =
      Inr (MMatrix 1 0 0 0  0 1 0 0  0 0 1 0  (- tx) (- ty) (- tz) 1)"
    using mat_inverse_frame [of 1 tx ty tz] by simp
  have eff_mat: "mat_mul (MMatrix 1 0 0 0  0 1 0 0  0 0 1 0  ex ey ez 1)
      (MMatrix (1 / h) 0 0 0  0 (1 / h) 0 0  0 0 (1 / h) 0  (- tx / h) (- ty / h) (- tz / h) 1) =
      MMatrix (1 / h) 0 0 0  0 (1 / h) 0 0  0 0 (1 / h) 0
        (ex / h - tx / h) (ey / h - ty / h) (ez / h - tz / h) 1"
    by (simp add: mat_mul_def)
  show ?thesis
    unfolding FK2encoded_def mat_translation_def mat_inverse_frame [OF h0]
      homogenize_frame [OF assms(1)] inv1 bindE_Inr Let_def eff_mat homogenize_frame [OF hinv]
      setValue_identity_rotation
    using assms
    by (simp add: MMat2Trans_def mat_get_def mat_mul_def vsub_def vec_mat_def vdiv_def bindE_Inr
        cross_def vscale_def diff_divide_distrib)
qed

lemma body_mat_frame:
  "body_mat (MMatrix h 0 0 0  0 h 0 0  0 0 h 0  tx ty tz 1) (mat_translation ax ay az) =
    MMatrix h 0 0 0  0 h 0 0  0 0 h 0  ax ay az 1"
  by (simp add: body_mat_def mat_set_def mat_get_def mat_translation_def)

lemma pole_example:
  assumes "0 < k"
  shows "normal (vscale (cross (cross (MVector (- k) 0 0) (MVector 0 k 0)) (MVector 0 k 0)) (1 / k)) =
      Inr (MVector 1 0 0)"
    and "normal (vscale (cross (cross (MVector (- k) 0 0) (MVector 0 (- k) 0)) (MVector 0 (- k) 0)) (1 / k)) =
      Inr (MVector 1 0 0)"
proof -
  have "0 < k * k" using assms by simp
  then show "normal (vscale (cross (cross (MVector (- k) 0 0) (MVector 0 k 0)) (MVector 0 k 0)) (1 / k)) =
      Inr (MVector 1 0 0)"
    and "normal (vscale (cross (cross (MVector (- k) 0 0) (MVector 0 (- k) 0)) (MVector 0 (- k) 0)) (1 / k)) =
      Inr (MVector 1 0 0)"
    using assms by (simp_all add: cross_def vscale_def normal_x)
qed

lemma affine_mat_translation: "affine (mat_translation x y z)"
  by (simp add: affine_def mat_translation_def)

lemma affine_pose_example: "affine_pose (encode_inputs_example k)"
  by (simp add: affine_pose_def encode_inputs_example_def affine_mat_translation)

lemma encode_chains_example:
  assumes "0 < k"
  shows "encode_chains (encode_inputs_example k) =
    Inr (k, 0, MQuaternion 0 0 0 1,
         (MVector 0 1 0, MVector 0 k 0, MVector 1 0 0, MQuaternion 0 0 0 1),
         (MVector 0 0 0, MVector 0 k 0, MVector 1 0 0, MQuaternion 0 0 0 1),
         (MVector 1 0 0, MVector 0 (- k) 0, MVector 1 0 0, MQuaternion 0 0 0 1),
         (MVector (- 1) 0 0, MVector 0 (- k) 0, MVector 1 0 0, MQuaternion 0 0 0 1),
         (MVector 1 0 0, MVector 0 k 0, MVector 1 0 0, MQuaternion 0 0 0 1),
         (MVector (- 1) 0 0, MVector 0 k 0, MVector 1 0 0, MQuaternion 0 0 0 1))"
proof -
  have k0: "k \<noteq> 0" using assms by simp
  show ?thesis
    unfolding encode_chains_def encode_inputs_example_def
    using assms
    by (simp add: frame_builder_translations bindE_Inr body_mat_frame
        FK2encoded_translations pole_example k0)
qed

lemma encode_chains_example_1:
  "encode_chains (encode_inputs_example 1) =
    Inr (1, 0, MQuaternion 0 0 0 1,
     (MVector 0 1 0, MVector 0 1 0, MVector 1 0 0, MQuaternion 0 0 0 1),
     (MVector 0 0 0, MVector 0 1 0, MVector 1 0 0, MQuaternion 0 0 0 1),
     (MVector 1 0 0, MVector 0 (- 1) 0, MVector 1 0 0, MQuaternion 0 0 0 1),
     (MVector (- 1) 0 0, MVector 0 (- 1) 0, MVector 1 0 0, MQuaternion 0 0 0 1),
     (MVector 1 0 0, MVector 0 1 0, MVector 1 0 0, MQuaternion 0 0 0 1),
     (MVector (- 1) 0 0, MVector 0 1 0, MVector 1 0 0, MQuaternion 0 0 0 1))"
  using encode_chains_example [of 1] by simp

lemma encode_compute_example:
  "ikrig_encode_compute (encode_inputs_example 1) = Inr encoded_pose_example"
  by (simp add: ikrig_encode_compute_def encode_chains_example bindE_Inr output_values_layout
      chain_block_def encoded_pose_example_def)

lemma encode_compute_example_scaled:
  "ikrig_encode_compute (encode_inputs_example 2) = Inr encoded_pose_example_scaled"
  by (simp add: ikrig_encode_compute_def encode_chains_example bindE_Inr output_values_layout
      chain_block_def encoded_pose_example_scaled_def)

lemma encoded_pose_example_components:
  "encoded_pose roundtrip_inputs_example = output_values (out_components
    (1, 0, MQuaternion 0 0 0 1,
     (MVector 0 1 0, MVector 0 1 0, MVector 1 0 0, MQuaternion 0 0 0 1),
     (MVector 0 0 0, MVector 0 1 0, MVector 1 0 0, MQuaternion 0 0 0 1),
     (MVector 1 0 0, MVector 0 (- 1) 0, MVector 1 0 0, MQuaternion 0 0 0 1),
     (MVector (- 1) 0 0, MVector 0 (- 1) 0, MVector 1 0 0, MQuaternion 0 0 0 1),
     (MVector 1 0 0, MVector 0 1 0, MVector 1 0 0, MQuaternion 0 0 0 1),
     (MVector (- 1) 0 0, MVector 0 1 0, MVector 1 0 0, MQuaternion 0 0 0 1)))"
  by (simp add: roundtrip_inputs_example_def encoded_pose_example_def output_values_layout
      chain_block_def)

subsection \<open>The layout of the encoded pose\<close>

text \<open>
  C1. Whenever the encode node produces a pose, the pose has exactly 84 values: the
  global translation x and z, the global orientation quaternion x, y, z, w, and then the
  chain blocks of the spine, the neck, the left leg, the right leg, the left arm and the
  right arm, each of 13 values in the order root, effector, pole vector, effector
  orientation.
\<close>

theorem encoded_pose_layout:
  assumes "ikrig_encode_compute inp = Inr out"
  shows "length out = 84 \<and>
    (\<exists>g_tr_x g_tr_z g_ori spine neck leg_L leg_R arm_L arm_R.
       encode_chains inp = Inr (g_tr_x, g_tr_z, g_ori, spine, neck, leg_L, leg_R, arm_L, arm_R) \<and>
       out = [g_tr_x, g_tr_z] @ [qx g_ori, qy g_ori, qz g_ori, qw g_ori] @
             chain_block spine @ chain_block neck @ chain_block leg_L @ chain_block leg_R @
             chain_block arm_L @ chain_block arm_R)"
proof -
  from assms obtain r where r: "encode_chains inp = Inr r" and out: "out = output_values (out_components r)"
    by (auto simp: ikrig_encode_compute_def bindE_eq_Inr)
  obtain g_tr_x g_tr_z g_ori spine neck leg_L leg_R arm_L arm_R where
    r_eq: "r = (g_tr_x, g_tr_z, g_ori, spine, neck, leg_L, leg_R, arm_L, arm_R)"
    by (metis prod_cases4 prod_cases6)
  have layout: "out = [g_tr_x, g_tr_z] @ [qx g_ori, qy g_ori, qz g_ori, qw g_ori] @
             chain_block spine @ chain_block neck @ chain_block leg_L @ chain_block leg_R @
             chain_block arm_L @ chain_block arm_R"
    unfolding out r_eq by (rule output_values_layout)
  then have "length out = 84"
    by (simp add: length_chain_block)
  with r r_eq layout show ?thesis by blast
qed

theorem encoded_pose_layout_witness:
  "ikrig_encode_compute (encode_inputs_example 1) = Inr encoded_pose_example \<and>
   length encoded_pose_example = 84 \<and>
   take 6 encoded_pose_example = [1, 0, 0, 0, 0, 1] \<and>
   slice encoded_pose_example 6 19 = [0, 1, 0,  0, 1, 0,  1, 0, 0,  0, 0, 0, 1]"
proof -
  from encoded_pose_layout [OF encode_compute_example]
  have "length encoded_pose_example = 84"
    by (rule conjunct1)
  then show ?thesis
    by (simp add: encode_compute_example encoded_pose_example_def slice_def)
qed

subsection \<open>The frame builder and the frames of the chains\<close>

text \<open>
  C5. With the rest and the current hips matrix both the identity and \<open>height_hips = 10\<close>,
  the frame builder returns the matrix with the rows (10, 0, 0), (0, 10, 0), (0, 0, 10) for
  the x, y and z axis and the translation (0, 10, 0), and the identity quaternion.
\<close>

theorem frame_builder_identity_hips:
  "frame_builder mat_identity mat_identity 10 =
    Inr (0, 0, MMatrix 10 0 0 0  0 10 0 0  0 0 10 0  0 10 0 1, MQuaternion 0 0 0 1)"
  using frame_builder_translations [of 10 0 0 0 0 0 0]
  by (simp add: mat_translation_def mat_identity_def)

lemma encode_chains_Inr:
  assumes "encode_chains inp =
    Inr (g_tr_x, g_tr_z, g_ori, spine, neck, leg_L, leg_R, arm_L, arm_R)"
  shows "\<exists>g_mat.
    frame_builder (mat_hips_rest inp) (mat_hips inp) (height_hips inp) =
      Inr (g_tr_x, g_tr_z, g_mat, g_ori) \<and>
    FK2encoded g_mat (mat_hips inp) (mat_spine inp) (mat_neck inp) (length_spine inp) = Inr (encoded_chain spine) \<and>
    FK2encoded (body_mat g_mat (mat_hips inp)) (mat_leg_L inp) (mat_shin_L inp) (mat_foot_L inp)
      (length_leg_L inp) = Inr (encoded_chain leg_L) \<and>
    FK2encoded (body_mat g_mat (mat_hips inp)) (mat_leg_R inp) (mat_shin_R inp) (mat_foot_R inp)
      (length_leg_R inp) = Inr (encoded_chain leg_R) \<and>
    FK2encoded (body_mat g_mat (mat_neck inp)) (mat_shoulder_L inp) (mat_elbow_L inp) (mat_hand_L inp)
      (length_arm_L inp) = Inr (encoded_chain arm_L) \<and>
    FK2encoded (body_mat g_mat (mat_neck inp)) (mat_shoulder_R inp) (mat_elbow_R inp) (mat_hand_R inp)
      (length_arm_R inp) = Inr (encoded_chain arm_R) \<and>
    FK2encoded (body_mat g_mat (mat_neck inp)) (mat_neck inp) (mat_neck_mid inp) (mat_head inp)
      (length_neck inp) = Inr (encoded_chain neck)"
  using assms
  by (auto simp: encode_chains_def bindE_eq_Inr Let_def chain_values_eq_Inr)

text \<open>
  C10. The spine is encoded against \<open>g_mat\<close> itself. Both legs are encoded against the
  matrix that equals \<open>g_mat\<close> except for the elements 12, 13 and 14, which are those of
  the hips matrix. Both arms and the neck are encoded against the matrix that equals
  \<open>g_mat\<close> except for the elements 12, 13 and 14, which are those of the neck matrix.
\<close>

theorem encode_chain_frames:
  assumes "encode_chains inp =
    Inr (g_tr_x, g_tr_z, g_ori, spine, neck, leg_L, leg_R, arm_L, arm_R)"
  shows "\<exists>g_mat.
    frame_builder (mat_hips_rest inp) (mat_hips inp) (height_hips inp) =
      Inr (g_tr_x, g_tr_z, g_mat, g_ori) \<and>
    (\<forall>i < 16. mat_get (body_mat g_mat (mat_hips inp)) i =
       (if i \<in> {12, 13, 14} then mat_get (mat_hips inp) i else mat_get g_mat i)) \<and>
    (\<forall>i < 16. mat_get (body_mat g_mat (mat_neck inp)) i =
       (if i \<in> {12, 13, 14} then mat_get (mat_neck inp) i else mat_get g_mat i)) \<and>
    FK2encoded g_mat (mat_hips inp) (mat_spine inp) (mat_neck inp) (length_spine inp) = Inr (encoded_chain spine) \<and>
    FK2encoded (body_mat g_mat (mat_hips inp)) (mat_leg_L inp) (mat_shin_L inp) (mat_foot_L inp)
      (length_leg_L inp) = Inr (encoded_chain leg_L) \<and>
    FK2encoded (body_mat g_mat (mat_hips inp)) (mat_leg_R inp) (mat_shin_R inp) (mat_foot_R inp)
      (length_leg_R inp) = Inr (encoded_chain leg_R) \<and>
    FK2encoded (body_mat g_mat (mat_neck inp)) (mat_shoulder_L inp) (mat_elbow_L inp) (mat_hand_L inp)
      (length_arm_L inp) = Inr (encoded_chain arm_L) \<and>
    FK2encoded (body_mat g_mat (mat_neck inp)) (mat_shoulder_R inp) (mat_elbow_R inp) (mat_hand_R inp)
      (length_arm_R inp) = Inr (encoded_chain arm_R) \<and>
    FK2encoded (body_mat g_mat (mat_neck inp)) (mat_neck inp) (mat_neck_mid inp) (mat_head inp)
      (length_neck inp) = Inr (encoded_chain neck)"
  using assms
  by (auto simp: encode_chains_def bindE_eq_Inr Let_def chain_values_eq_Inr body_mat_elements)

theorem encode_chain_frames_witness:
  "encode_chains (encode_inputs_example 1) =
    Inr (1, 0, MQuaternion 0 0 0 1,
     (MVector 0 1 0, MVector 0 1 0, MVector 1 0 0, MQuaternion 0 0 0 1),
     (MVector 0 0 0, MVector 0 1 0, MVector 1 0 0, MQuaternion 0 0 0 1),
     (MVector 1 0 0, MVector 0 (- 1) 0, MVector 1 0 0, MQuaternion 0 0 0 1),
     (MVector (- 1) 0 0, MVector 0 (- 1) 0, MVector 1 0 0, MQuaternion 0 0 0 1),
     (MVector 1 0 0, MVector 0 1 0, MVector 1 0 0, MQuaternion 0 0 0 1),
     (MVector (- 1) 0 0, MVector 0 1 0, MVector 1 0 0, MQuaternion 0 0 0 1)) \<and>
   FK2encoded (body_mat (MMatrix 1 0 0 0  0 1 0 0  0 0 1 0  1 1 0 1)
       (mat_hips (encode_inputs_example 1)))
     (mat_leg_L (encode_inputs_example 1)) (mat_shin_L (encode_inputs_example 1))
     (mat_foot_L (encode_inputs_example 1)) (length_leg_L (encode_inputs_example 1)) =
     Inr (MVector 1 0 0, MVector 0 (- 1) 0, Inr (MVector 1 0 0), MQuaternion 0 0 0 1) \<and>
   mat_get (body_mat (MMatrix 1 0 0 0  0 1 0 0  0 0 1 0  1 1 0 1)
       (mat_hips (encode_inputs_example 1))) 13 = 2 \<and>
   mat_get (body_mat (MMatrix 1 0 0 0  0 1 0 0  0 0 1 0  1 1 0 1)
       (mat_neck (encode_inputs_example 1))) 13 = 3"
proof -
  have enc: "encode_chains (encode_inputs_example 1) =
    Inr (1, 0, MQuaternion 0 0 0 1,
     (MVector 0 1 0, MVector 0 1 0, MVector 1 0 0, MQuaternion 0 0 0 1),
     (MVector 0 0 0, MVector 0 1 0, MVector 1 0 0, MQuaternion 0 0 0 1),
     (MVector 1 0 0, MVector 0 (- 1) 0, MVector 1 0 0, MQuaternion 0 0 0 1),
     (MVector (- 1) 0 0, MVector 0 (- 1) 0, MVector 1 0 0, MQuaternion 0 0 0 1),
     (MVector 1 0 0, MVector 0 1 0, MVector 1 0 0, MQuaternion 0 0 0 1),
     (MVector (- 1) 0 0, MVector 0 1 0, MVector 1 0 0, MQuaternion 0 0 0 1))"
    using encode_chains_example [of 1] by simp
  have frame: "frame_builder (mat_hips_rest (encode_inputs_example 1))
      (mat_hips (encode_inputs_example 1)) (height_hips (encode_inputs_example 1)) =
      Inr (1, 0, MMatrix 1 0 0 0  0 1 0 0  0 0 1 0  1 1 0 1, MQuaternion 0 0 0 1)"
    by (simp add: encode_inputs_example_def frame_builder_translations)
  from encode_chain_frames [OF enc] obtain g_mat where
    g: "frame_builder (mat_hips_rest (encode_inputs_example 1))
      (mat_hips (encode_inputs_example 1)) (height_hips (encode_inputs_example 1)) =
      Inr (1, 0, g_mat, MQuaternion 0 0 0 1)"
    and elems: "\<forall>i < 16. mat_get (body_mat g_mat (mat_hips (encode_inputs_example 1))) i =
       (if i \<in> {12, 13, 14} then mat_get (mat_hips (encode_inputs_example 1)) i
        else mat_get g_mat i)"
      "\<forall>i < 16. mat_get (body_mat g_mat (mat_neck (encode_inputs_example 1))) i =
       (if i \<in> {12, 13, 14} then mat_get (mat_neck (encode_inputs_example 1)) i
        else mat_get g_mat i)"
    and leg: "FK2encoded (body_mat g_mat (mat_hips (encode_inputs_example 1)))
      (mat_leg_L (encode_inputs_example 1)) (mat_shin_L (encode_inputs_example 1))
      (mat_foot_L (encode_inputs_example 1)) (length_leg_L (encode_inputs_example 1)) =
      Inr (encoded_chain (MVector 1 0 0, MVector 0 (- 1) 0, MVector 1 0 0, MQuaternion 0 0 0 1))"
    by blast
  from g frame have g_eq: "g_mat = MMatrix 1 0 0 0  0 1 0 0  0 0 1 0  1 1 0 1"
    by simp
  from elems(1) have "mat_get (body_mat g_mat (mat_hips (encode_inputs_example 1))) 13 =
      mat_get (mat_hips (encode_inputs_example 1)) 13"
    by simp
  then have hips13: "mat_get (body_mat g_mat (mat_hips (encode_inputs_example 1))) 13 = 2"
    by (simp add: encode_inputs_example_def mat_translation_def mat_get_def)
  from elems(2) have "mat_get (body_mat g_mat (mat_neck (encode_inputs_example 1))) 13 =
      mat_get (mat_neck (encode_inputs_example 1)) 13"
    by simp
  then have neck13: "mat_get (body_mat g_mat (mat_neck (encode_inputs_example 1))) 13 = 3"
    by (simp add: encode_inputs_example_def mat_translation_def mat_get_def)
  from leg have leg': "FK2encoded (body_mat g_mat (mat_hips (encode_inputs_example 1)))
      (mat_leg_L (encode_inputs_example 1)) (mat_shin_L (encode_inputs_example 1))
      (mat_foot_L (encode_inputs_example 1)) (length_leg_L (encode_inputs_example 1)) =
      Inr (MVector 1 0 0, MVector 0 (- 1) 0, Inr (MVector 1 0 0), MQuaternion 0 0 0 1)"
    by (simp add: encoded_chain_def)
  show ?thesis
    using enc leg' hips13 neck13 unfolding g_eq by blast
qed

subsection \<open>The pole vector\<close>

text \<open>
  C6. For a chain whose root, dir and effector joints are not collinear, encoded against
  an invertible affine frame (with an invertible affine effector matrix and a chain
  length other than zero, so that the other outputs exist), the chain encoder returns a
  result, and the pole vector of that result has length 1, hence within 1e-6 of 1.
\<close>

theorem FK2encoded_pole_vector_unit:
  assumes "affine g_mat" and "mat_det g_mat \<noteq> 0"
    and "affine eff_jnt" and "mat_det eff_jnt \<noteq> 0"
    and "chain_length \<noteq> 0"
    and "\<not> collinear3 (MMat2Trans root_jnt) (MMat2Trans dir_jnt) (MMat2Trans eff_jnt)"
  shows "\<exists>ik_root ik_eff ik_upv ik_eff_rot.
    FK2encoded g_mat root_jnt dir_jnt eff_jnt chain_length =
      Inr (ik_root, ik_eff, Inr ik_upv, ik_eff_rot) \<and>
    vlength ik_upv = 1 \<and> \<bar>vlength ik_upv - 1\<bar> \<le> 1 / 1000000"
proof -
  define a b c t where "a = row0 g_mat" and "b = row1 g_mat" and "c = row2 g_mat"
    and "t = MMat2Trans g_mat"
  have g: "g_mat = affine_mat a b c t"
    unfolding a_def b_def c_def t_def using assms(1) by (rule affine_eq)
  have D: "det3 a b c \<noteq> 0"
    using assms(2) by (simp add: g mat_det_affine_mat)
  obtain ia ib ic it where inv: "mat_inverse g_mat = Inr (affine_mat ia ib ic it)"
    and inv_regular: "det3 ia ib ic \<noteq> 0"
    using mat_inverse_affine [OF assms(1,2)] by blast
  obtain g_hom where hom: "homogenize g_mat = Inr g_hom"
    and "affine g_hom" and "mat_det g_hom \<noteq> 0"
    using homogenize_affine [OF assms(1,2)] by blast
  then obtain g_hom_inv where hom_inv: "mat_inverse g_hom = Inr g_hom_inv"
    by (auto simp: mat_inverse_def)
  define l_vec_eff where "l_vec_eff = vsub (MMat2Trans eff_jnt) (MMat2Trans root_jnt)"
  define l_vec_dir where "l_vec_dir = vsub (MMat2Trans root_jnt) (MMat2Trans dir_jnt)"
  obtain ik_eff where eff: "vdiv (vec_mat l_vec_eff g_hom_inv) chain_length = Inr ik_eff"
    using assms(5) by (simp add: vdiv_def)
  have "cross l_vec_dir l_vec_eff \<noteq> MVector 0 0 0"
    using assms(6) by (simp add: collinear3_def l_vec_dir_def l_vec_eff_def)
  then have "cross (cross l_vec_dir l_vec_eff) l_vec_eff \<noteq> MVector 0 0 0"
    by (rule cross_cross_nonzero)
  then have "vec_mat (cross (cross l_vec_dir l_vec_eff) l_vec_eff) (affine_mat ia ib ic it)
      \<noteq> MVector 0 0 0"
    using vec_mat_inverse_nonzero [OF D] inv unfolding g by blast
  then obtain ik_upv where
    upv: "normal (vec_mat (cross (cross l_vec_dir l_vec_eff) l_vec_eff) (affine_mat ia ib ic it)) =
      Inr ik_upv"
    by (simp add: normal_Inr)
  then have unit: "vlength ik_upv = 1"
    by (rule vlength_normal)
  have "affine (mat_mul eff_jnt (affine_mat ia ib ic it)) \<and>
      mat_det (mat_mul eff_jnt (affine_mat ia ib ic it)) \<noteq> 0"
    using assms(3,4) inv_regular by (rule mat_mul_affine_regular)
  then obtain mat_hom where rot: "homogenize (mat_mul eff_jnt (affine_mat ia ib ic it)) = Inr mat_hom"
    using homogenize_affine by blast
  have "FK2encoded g_mat root_jnt dir_jnt eff_jnt chain_length =
      Inr (MMat2Trans (mat_mul root_jnt (affine_mat ia ib ic it)), ik_eff, Inr ik_upv, setValue mat_hom)"
    unfolding FK2encoded_def Let_def inv bindE_Inr hom hom_inv
      l_vec_eff_def [symmetric] l_vec_dir_def [symmetric] eff upv rot ..
  with unit show ?thesis by simp
qed

theorem FK2encoded_pole_vector_unit_witness:
  "affine (MMatrix 1 0 0 0  0 1 0 0  0 0 1 0  1 1 0 1) \<and>
   mat_det (MMatrix 1 0 0 0  0 1 0 0  0 0 1 0  1 1 0 1) \<noteq> 0 \<and>
   affine (mat_translation 1 3 0) \<and> mat_det (mat_translation 1 3 0) \<noteq> 0 \<and>
   \<not> collinear3 (MMat2Trans (mat_translation 1 2 0)) (MMat2Trans (mat_translation 2 2 0))
     (MMat2Trans (mat_translation 1 3 0)) \<and>
   FK2encoded (MMatrix 1 0 0 0  0 1 0 0  0 0 1 0  1 1 0 1)
     (mat_translation 1 2 0) (mat_translation 2 2 0) (mat_translation 1 3 0) 1 =
     Inr (MVector 0 1 0, MVector 0 1 0, Inr (MVector 1 0 0), MQuaternion 0 0 0 1) \<and>
   vlength (MVector 1 0 0) = 1"
proof -
  have g: "affine (MMatrix 1 0 0 0  0 1 0 0  0 0 1 0  1 1 0 1)"
    by (simp add: affine_def)
  have gd: "mat_det (MMatrix 1 0 0 0  0 1 0 0  0 0 1 0  1 1 0 1) \<noteq> 0"
    by (simp add: mat_det_def)
  have e: "affine (mat_translation 1 3 0)"
    by (rule affine_mat_translation)
  have ed: "mat_det (mat_translation 1 3 0) \<noteq> 0"
    by (simp add: mat_det_def mat_translation_def)
  have len: "(1::real) \<noteq> 0" by simp
  have nc: "\<not> collinear3 (MMat2Trans (mat_translation 1 2 0)) (MMat2Trans (mat_translation 2 2 0))
     (MMat2Trans (mat_translation 1 3 0))"
    by (simp add: collinear3_def MMat2Trans_def mat_translation_def mat_get_def vsub_def cross_def)
  have run: "FK2encoded (MMatrix 1 0 0 0  0 1 0 0  0 0 1 0  1 1 0 1)
     (mat_translation 1 2 0) (mat_translation 2 2 0) (mat_translation 1 3 0) 1 =
     Inr (MVector 0 1 0, MVector 0 1 0, Inr (MVector 1 0 0), MQuaternion 0 0 0 1)"
    using pole_example [of 1] by (simp add: FK2encoded_translations bindE_Inr)
  from FK2encoded_pole_vector_unit [OF g gd e ed len nc]
  have "vlength (MVector 1 0 0) = 1"
    unfolding run by simp
  with g gd e ed nc run show ?thesis by blast
qed

text \<open>
  C8, as the code has it. For a chain whose root, dir and effector joints are collinear
  (encoded against an invertible affine frame, with an invertible affine effector matrix
  and a chain length other than zero, so that the other outputs exist), the double cross
  product is the zero vector and the chain encoder applies \<^verbatim>\<open>normal()\<close> to it without
  any guard. The encoder does not signal: it returns its four results, with the root,
  the effector and the orientation of the chain. It does not put a fallback pole vector
  in place either: the pole vector of the result is the normalisation of the zero
  vector, which the data model leaves undefined (\<open>UndefinedNormal\<close>), and no vector.
\<close>

theorem FK2encoded_collinear:
  assumes "affine g_mat" and "mat_det g_mat \<noteq> 0"
    and "affine eff_jnt" and "mat_det eff_jnt \<noteq> 0"
    and "chain_length \<noteq> 0"
    and "collinear3 (MMat2Trans root_jnt) (MMat2Trans dir_jnt) (MMat2Trans eff_jnt)"
  shows "\<exists>g_inv ik_eff ik_eff_rot.
    mat_inverse g_mat = Inr g_inv \<and>
    vec_mat (cross (cross (vsub (MMat2Trans root_jnt) (MMat2Trans dir_jnt))
                          (vsub (MMat2Trans eff_jnt) (MMat2Trans root_jnt)))
                   (vsub (MMat2Trans eff_jnt) (MMat2Trans root_jnt))) g_inv = MVector 0 0 0 \<and>
    FK2encoded g_mat root_jnt dir_jnt eff_jnt chain_length =
      Inr (MMat2Trans (mat_mul root_jnt g_inv), ik_eff, Inl UndefinedNormal, ik_eff_rot)"
proof -
  obtain ia ib ic it where inv: "mat_inverse g_mat = Inr (affine_mat ia ib ic it)"
    and inv_regular: "det3 ia ib ic \<noteq> 0"
    using mat_inverse_affine [OF assms(1,2)] by blast
  obtain g_hom where hom: "homogenize g_mat = Inr g_hom" and "mat_det g_hom \<noteq> 0"
    using homogenize_affine [OF assms(1,2)] by blast
  then obtain g_hom_inv where hom_inv: "mat_inverse g_hom = Inr g_hom_inv"
    by (auto simp: mat_inverse_def)
  obtain ik_eff where eff: "vdiv (vec_mat (vsub (MMat2Trans eff_jnt) (MMat2Trans root_jnt))
      g_hom_inv) chain_length = Inr ik_eff"
    using assms(5) by (simp add: vdiv_def)
  have zero: "vec_mat (cross (cross (vsub (MMat2Trans root_jnt) (MMat2Trans dir_jnt))
                             (vsub (MMat2Trans eff_jnt) (MMat2Trans root_jnt)))
                      (vsub (MMat2Trans eff_jnt) (MMat2Trans root_jnt))) (affine_mat ia ib ic it) =
      MVector 0 0 0"
    using assms(6) by (simp add: collinear3_def cross_zero_left vec_mat_zero)
  have "affine (mat_mul eff_jnt (affine_mat ia ib ic it)) \<and>
      mat_det (mat_mul eff_jnt (affine_mat ia ib ic it)) \<noteq> 0"
    using assms(3,4) inv_regular by (rule mat_mul_affine_regular)
  then obtain mat_hom where rot: "homogenize (mat_mul eff_jnt (affine_mat ia ib ic it)) = Inr mat_hom"
    using homogenize_affine by blast
  have "FK2encoded g_mat root_jnt dir_jnt eff_jnt chain_length =
      Inr (MMat2Trans (mat_mul root_jnt (affine_mat ia ib ic it)), ik_eff, Inl UndefinedNormal,
           setValue mat_hom)"
    unfolding FK2encoded_def Let_def inv bindE_Inr hom hom_inv eff zero normal_zero rot ..
  with inv zero show ?thesis by blast
qed

theorem FK2encoded_collinear_witness:
  "affine (MMatrix 1 0 0 0  0 1 0 0  0 0 1 0  1 1 0 1) \<and>
   mat_det (MMatrix 1 0 0 0  0 1 0 0  0 0 1 0  1 1 0 1) \<noteq> 0 \<and>
   affine (mat_translation 1 5 0) \<and> mat_det (mat_translation 1 5 0) \<noteq> 0 \<and>
   collinear3 (MMat2Trans (mat_translation 1 2 0)) (MMat2Trans (mat_translation 1 3 0))
     (MMat2Trans (mat_translation 1 5 0)) \<and>
   FK2encoded (MMatrix 1 0 0 0  0 1 0 0  0 0 1 0  1 1 0 1)
     (mat_translation 1 2 0) (mat_translation 1 3 0) (mat_translation 1 5 0) 3 =
     Inr (MVector 0 1 0, MVector 0 1 0, Inl UndefinedNormal, MQuaternion 0 0 0 1)"
proof -
  have g: "affine (MMatrix 1 0 0 0  0 1 0 0  0 0 1 0  1 1 0 1)"
    by (simp add: affine_def)
  have gd: "mat_det (MMatrix 1 0 0 0  0 1 0 0  0 0 1 0  1 1 0 1) \<noteq> 0"
    by (simp add: mat_det_def)
  have e: "affine (mat_translation 1 5 0)"
    by (rule affine_mat_translation)
  have ed: "mat_det (mat_translation 1 5 0) \<noteq> 0"
    by (simp add: mat_det_def mat_translation_def)
  have len: "(3::real) \<noteq> 0" by simp
  have col: "collinear3 (MMat2Trans (mat_translation 1 2 0)) (MMat2Trans (mat_translation 1 3 0))
     (MMat2Trans (mat_translation 1 5 0))"
    by (simp add: collinear3_def MMat2Trans_def mat_translation_def mat_get_def vsub_def cross_def)
  obtain pole where run: "FK2encoded (MMatrix 1 0 0 0  0 1 0 0  0 0 1 0  1 1 0 1)
     (mat_translation 1 2 0) (mat_translation 1 3 0) (mat_translation 1 5 0) 3 =
     Inr (MVector 0 1 0, MVector 0 1 0, pole, MQuaternion 0 0 0 1)"
    by (simp add: FK2encoded_translations)
  from FK2encoded_collinear [OF g gd e ed len col]
  have "pole = Inl UndefinedNormal"
    unfolding run by auto
  with g gd e ed col run show ?thesis by blast
qed

text \<open>
  The chain root = (0, 0, 0), dir = (0, 0, 1), eff = (0, 0, 2) in the identity frame, with
  the chain length 2: the vector handed to \<^verbatim>\<open>normal()\<close> is the zero vector. The encoder
  does not signal, it returns the root (0, 0, 0), the effector (0, 0, 1) and the identity
  orientation; the pole vector of the result is no fallback vector, it is the undefined
  normalisation of the zero vector.
\<close>

theorem FK2encoded_collinear_example:
  "MMat2Trans (mat_translation 0 0 0) = MVector 0 0 0 \<and>
   MMat2Trans (mat_translation 0 0 1) = MVector 0 0 1 \<and>
   MMat2Trans (mat_translation 0 0 2) = MVector 0 0 2 \<and>
   mat_inverse mat_identity = Inr mat_identity \<and>
   vec_mat (cross (cross (vsub (MVector 0 0 0) (MVector 0 0 1)) (vsub (MVector 0 0 2) (MVector 0 0 0)))
                  (vsub (MVector 0 0 2) (MVector 0 0 0))) mat_identity = MVector 0 0 0 \<and>
   FK2encoded mat_identity (mat_translation 0 0 0) (mat_translation 0 0 1) (mat_translation 0 0 2) 2 =
     Inr (MVector 0 0 0, MVector 0 0 1, Inl UndefinedNormal, MQuaternion 0 0 0 1)"
proof -
  have inv: "mat_inverse mat_identity = Inr mat_identity"
    using mat_inverse_frame [of 1 0 0 0] by (simp add: mat_identity_def)
  have tr: "MMat2Trans (mat_translation 0 0 0) = MVector 0 0 0"
    "MMat2Trans (mat_translation 0 0 1) = MVector 0 0 1"
    "MMat2Trans (mat_translation 0 0 2) = MVector 0 0 2"
    by (simp_all add: MMat2Trans_def mat_translation_def mat_get_def)
  have zero: "vec_mat (cross (cross (vsub (MVector 0 0 0) (MVector 0 0 1))
      (vsub (MVector 0 0 2) (MVector 0 0 0))) (vsub (MVector 0 0 2) (MVector 0 0 0))) mat_identity =
      MVector 0 0 0"
    by (simp add: vsub_def cross_def vec_mat_def)
  have "FK2encoded mat_identity (mat_translation 0 0 0) (mat_translation 0 0 1)
      (mat_translation 0 0 2) 2 =
      Inr (MVector 0 0 0, MVector 0 0 1, Inl UndefinedNormal, MQuaternion 0 0 0 1)"
    unfolding mat_identity_def
    by (simp add: FK2encoded_translations cross_def vscale_def normal_zero)
  with inv tr zero show ?thesis by blast
qed

subsection \<open>Decoding an encoded pose\<close>

lemma encoded2IK_chain_block:
  "encoded2IK (chain_block (ik_root, ik_eff, ik_upv, ik_eff_rot)) char_scale chain_scale =
    Inr (MVector (vx ik_root * char_scale) (vy ik_root * char_scale) (vz ik_root * char_scale),
         MVector (vx ik_eff * chain_scale) (vy ik_eff * chain_scale) (vz ik_eff * chain_scale),
         ik_upv,
         asEulerRotation ik_eff_rot)"
  by (simp add: encoded2IK_def getitem_in_range bindE_Inr chain_block_def)

lemma slices_of_layout:
  assumes "length b1 = 13" "length b2 = 13" "length b3 = 13" "length b4 = 13" "length b5 = 13"
    "length b6 = 13"
  shows "slice ([a0, a1] @ [a2, a3, a4, a5] @ b1 @ b2 @ b3 @ b4 @ b5 @ b6) 6 19 = b1"
    and "slice ([a0, a1] @ [a2, a3, a4, a5] @ b1 @ b2 @ b3 @ b4 @ b5 @ b6) 19 32 = b2"
    and "slice ([a0, a1] @ [a2, a3, a4, a5] @ b1 @ b2 @ b3 @ b4 @ b5 @ b6) 32 45 = b3"
    and "slice ([a0, a1] @ [a2, a3, a4, a5] @ b1 @ b2 @ b3 @ b4 @ b5 @ b6) 45 58 = b4"
    and "slice ([a0, a1] @ [a2, a3, a4, a5] @ b1 @ b2 @ b3 @ b4 @ b5 @ b6) 58 71 = b5"
    and "slice ([a0, a1] @ [a2, a3, a4, a5] @ b1 @ b2 @ b3 @ b4 @ b5 @ b6) 71 84 = b6"
  using assms by (simp_all add: slice_def)

lemma decode_chains_of_encoded:
  assumes "encoded_pose dinp = output_values (out_components
    (g_tr_x, g_tr_z, g_ori, (sr, se, su, sq), (nr, ne, nu, nq), (llr, lle, llu, llq),
     (lrr, lre, lru, lrq), (alr, ale, alu, alq), (arr, are, aru, arq)))"
  shows "decode_chains dinp =
    Inr ((MVector (vx sr * height_hips dinp) (vy sr * height_hips dinp + height_hips dinp)
            (vz sr * height_hips dinp),
          vscale se (length_spine dinp), su, asEulerRotation sq),
         (vscale nr (height_hips dinp), vscale ne (length_neck dinp), nu, asEulerRotation nq),
         (vscale llr (height_hips dinp), vscale lle (length_leg_L dinp), llu, asEulerRotation llq),
         (vscale lrr (height_hips dinp), vscale lre (length_leg_R dinp), lru, asEulerRotation lrq),
         (vscale alr (height_hips dinp), vscale ale (length_arm_L dinp), alu, asEulerRotation alq),
         (vscale arr (height_hips dinp), vscale are (length_arm_R dinp), aru, asEulerRotation arq))"
  unfolding decode_chains_def Let_def assms output_values_layout
  by (simp only: slices_of_layout length_chain_block encoded2IK_chain_block bindE_Inr
      prod.case vscale_def MVector.sel)

lemma decode_global_mat_of_encoded:
  assumes "encoded_pose dinp = output_values (out_components
    (g_tr_x, g_tr_z, g_ori, spine, neck, leg_L, leg_R, arm_L, arm_R))"
  shows "\<exists>g. decode_global_mat dinp = Inr g"
proof -
  have "6 \<le> length (encoded_pose dinp)"
    unfolding assms output_values_layout by (simp add: length_chain_block)
  then show ?thesis by (rule decode_global_mat_long)
qed

lemma decode_of_encoded:
  assumes "encoded_pose dinp = output_values (out_components
    (g_tr_x, g_tr_z, g_ori, (sr, se, su, sq), (nr, ne, nu, nq), (llr, lle, llu, llq),
     (lrr, lre, lru, lrq), (alr, ale, alu, alq), (arr, are, aru, arq)))"
  shows "fst (ikrig_decode_compute dinp db) = None"
    and "ik_Spine_root (snd (ikrig_decode_compute dinp db)) =
      MVector (vx sr * height_hips dinp) (vy sr * height_hips dinp + height_hips dinp)
        (vz sr * height_hips dinp)"
    and "ik_Spine_eff (snd (ikrig_decode_compute dinp db)) = vscale se (length_spine dinp)"
    and "ik_Spine_dir (snd (ikrig_decode_compute dinp db)) = su"
    and "ik_Neck_root (snd (ikrig_decode_compute dinp db)) = vscale nr (height_hips dinp)"
    and "ik_Neck_eff (snd (ikrig_decode_compute dinp db)) = vscale ne (length_neck dinp)"
    and "ik_Neck_dir (snd (ikrig_decode_compute dinp db)) = nu"
    and "ik_Leg_root_L (snd (ikrig_decode_compute dinp db)) = vscale llr (height_hips dinp)"
    and "ik_Leg_eff_L (snd (ikrig_decode_compute dinp db)) = vscale lle (length_leg_L dinp)"
    and "ik_Leg_dir_L (snd (ikrig_decode_compute dinp db)) = llu"
    and "ik_Leg_root_R (snd (ikrig_decode_compute dinp db)) = vscale lrr (height_hips dinp)"
    and "ik_Leg_eff_R (snd (ikrig_decode_compute dinp db)) = vscale lre (length_leg_R dinp)"
    and "ik_Leg_dir_R (snd (ikrig_decode_compute dinp db)) = lru"
    and "ik_Arm_root_L (snd (ikrig_decode_compute dinp db)) = vscale alr (height_hips dinp)"
    and "ik_Arm_eff_L (snd (ikrig_decode_compute dinp db)) = vscale ale (length_arm_L dinp)"
    and "ik_Arm_dir_L (snd (ikrig_decode_compute dinp db)) = alu"
    and "ik_Arm_root_R (snd (ikrig_decode_compute dinp db)) = vscale arr (height_hips dinp)"
    and "ik_Arm_eff_R (snd (ikrig_decode_compute dinp db)) = vscale are (length_arm_R dinp)"
    and "ik_Arm_dir_R (snd (ikrig_decode_compute dinp db)) = aru"
proof -
  obtain g where g: "decode_global_mat dinp = Inr g"
    using decode_global_mat_of_encoded [OF assms] by blast
  note cs = decode_chains_of_encoded [OF assms]
  show "fst (ikrig_decode_compute dinp db) = None"
    and "ik_Spine_root (snd (ikrig_decode_compute dinp db)) =
      MVector (vx sr * height_hips dinp) (vy sr * height_hips dinp + height_hips dinp)
        (vz sr * height_hips dinp)"
    and "ik_Spine_eff (snd (ikrig_decode_compute dinp db)) = vscale se (length_spine dinp)"
    and "ik_Spine_dir (snd (ikrig_decode_compute dinp db)) = su"
    and "ik_Neck_root (snd (ikrig_decode_compute dinp db)) = vscale nr (height_hips dinp)"
    and "ik_Neck_eff (snd (ikrig_decode_compute dinp db)) = vscale ne (length_neck dinp)"
    and "ik_Neck_dir (snd (ikrig_decode_compute dinp db)) = nu"
    and "ik_Leg_root_L (snd (ikrig_decode_compute dinp db)) = vscale llr (height_hips dinp)"
    and "ik_Leg_eff_L (snd (ikrig_decode_compute dinp db)) = vscale lle (length_leg_L dinp)"
    and "ik_Leg_dir_L (snd (ikrig_decode_compute dinp db)) = llu"
    and "ik_Leg_root_R (snd (ikrig_decode_compute dinp db)) = vscale lrr (height_hips dinp)"
    and "ik_Leg_eff_R (snd (ikrig_decode_compute dinp db)) = vscale lre (length_leg_R dinp)"
    and "ik_Leg_dir_R (snd (ikrig_decode_compute dinp db)) = lru"
    and "ik_Arm_root_L (snd (ikrig_decode_compute dinp db)) = vscale alr (height_hips dinp)"
    and "ik_Arm_eff_L (snd (ikrig_decode_compute dinp db)) = vscale ale (length_arm_L dinp)"
    and "ik_Arm_dir_L (snd (ikrig_decode_compute dinp db)) = alu"
    and "ik_Arm_root_R (snd (ikrig_decode_compute dinp db)) = vscale arr (height_hips dinp)"
    and "ik_Arm_eff_R (snd (ikrig_decode_compute dinp db)) = vscale are (length_arm_R dinp)"
    and "ik_Arm_dir_R (snd (ikrig_decode_compute dinp db)) = aru"
    by (simp_all add: ikrig_decode_compute_def g cs)
qed

text \<open>
  C3, as the code has it. A pose encoded with \<open>height_hips = 1\<close> and all chain lengths 1
  and decoded with the same scales and the identity offset matrix gives back, for every
  chain, the encoder's effector and pole vector, and for the neck, the legs and the arms
  the encoder's root. The decoded root of the spine is the encoder's root with
  \<open>height_hips = 1\<close> added to its Y component.
\<close>

theorem roundtrip_identity_scale:
  assumes "encode_chains einp =
      Inr (g_tr_x, g_tr_z, g_ori,
           (spine_root, spine_eff, spine_upv, spine_rot),
           (neck_root, neck_eff, neck_upv, neck_rot),
           (leg_root_L, leg_eff_L, leg_upv_L, leg_rot_L),
           (leg_root_R, leg_eff_R, leg_upv_R, leg_rot_R),
           (arm_root_L, arm_eff_L, arm_upv_L, arm_rot_L),
           (arm_root_R, arm_eff_R, arm_upv_R, arm_rot_R))"
    and "ikrig_encode_compute einp = Inr (encoded_pose dinp)"
    and "identity_scale einp" and "identity_scale dinp"
    and "offset_mat dinp = mat_identity"
  shows "fst (ikrig_decode_compute dinp db) = None \<and>
    ik_Spine_root (snd (ikrig_decode_compute dinp db)) =
      MVector (vx spine_root) (vy spine_root + 1) (vz spine_root) \<and>
    ik_Spine_eff (snd (ikrig_decode_compute dinp db)) = spine_eff \<and>
    ik_Spine_dir (snd (ikrig_decode_compute dinp db)) = spine_upv \<and>
    ik_Neck_root (snd (ikrig_decode_compute dinp db)) = neck_root \<and>
    ik_Neck_eff (snd (ikrig_decode_compute dinp db)) = neck_eff \<and>
    ik_Neck_dir (snd (ikrig_decode_compute dinp db)) = neck_upv \<and>
    ik_Leg_root_L (snd (ikrig_decode_compute dinp db)) = leg_root_L \<and>
    ik_Leg_eff_L (snd (ikrig_decode_compute dinp db)) = leg_eff_L \<and>
    ik_Leg_dir_L (snd (ikrig_decode_compute dinp db)) = leg_upv_L \<and>
    ik_Leg_root_R (snd (ikrig_decode_compute dinp db)) = leg_root_R \<and>
    ik_Leg_eff_R (snd (ikrig_decode_compute dinp db)) = leg_eff_R \<and>
    ik_Leg_dir_R (snd (ikrig_decode_compute dinp db)) = leg_upv_R \<and>
    ik_Arm_root_L (snd (ikrig_decode_compute dinp db)) = arm_root_L \<and>
    ik_Arm_eff_L (snd (ikrig_decode_compute dinp db)) = arm_eff_L \<and>
    ik_Arm_dir_L (snd (ikrig_decode_compute dinp db)) = arm_upv_L \<and>
    ik_Arm_root_R (snd (ikrig_decode_compute dinp db)) = arm_root_R \<and>
    ik_Arm_eff_R (snd (ikrig_decode_compute dinp db)) = arm_eff_R \<and>
    ik_Arm_dir_R (snd (ikrig_decode_compute dinp db)) = arm_upv_R"
proof -
  from assms(1,2) have pose: "encoded_pose dinp = output_values (out_components
      (g_tr_x, g_tr_z, g_ori,
       (spine_root, spine_eff, spine_upv, spine_rot),
       (neck_root, neck_eff, neck_upv, neck_rot),
       (leg_root_L, leg_eff_L, leg_upv_L, leg_rot_L),
       (leg_root_R, leg_eff_R, leg_upv_R, leg_rot_R),
       (arm_root_L, arm_eff_L, arm_upv_L, arm_rot_L),
       (arm_root_R, arm_eff_R, arm_upv_R, arm_rot_R)))"
    by (simp add: ikrig_encode_compute_def bindE_Inr)
  from assms(4) have one: "height_hips dinp = 1" "length_spine dinp = 1" "length_neck dinp = 1"
    "length_leg_L dinp = 1" "length_leg_R dinp = 1" "length_arm_L dinp = 1" "length_arm_R dinp = 1"
    by (simp_all add: identity_scale_def)
  have unit: "\<And>v. vscale v 1 = v"
    by (simp add: vscale_def)
  show ?thesis
    using decode_of_encoded [OF pose, of db]
    by (simp add: one unit)
qed

theorem roundtrip_identity_scale_witness:
  "fst (ikrig_decode_compute roundtrip_inputs_example decode_outputs_init) = None \<and>
   ik_Spine_root (snd (ikrig_decode_compute roundtrip_inputs_example decode_outputs_init)) =
     MVector 0 2 0 \<and>
   ik_Spine_eff (snd (ikrig_decode_compute roundtrip_inputs_example decode_outputs_init)) =
     MVector 0 1 0 \<and>
   ik_Leg_root_R (snd (ikrig_decode_compute roundtrip_inputs_example decode_outputs_init)) =
     MVector (- 1) 0 0"
proof -
  have enc: "encode_chains (encode_inputs_example 1) =
    Inr (1, 0, MQuaternion 0 0 0 1,
     (MVector 0 1 0, MVector 0 1 0, MVector 1 0 0, MQuaternion 0 0 0 1),
     (MVector 0 0 0, MVector 0 1 0, MVector 1 0 0, MQuaternion 0 0 0 1),
     (MVector 1 0 0, MVector 0 (- 1) 0, MVector 1 0 0, MQuaternion 0 0 0 1),
     (MVector (- 1) 0 0, MVector 0 (- 1) 0, MVector 1 0 0, MQuaternion 0 0 0 1),
     (MVector 1 0 0, MVector 0 1 0, MVector 1 0 0, MQuaternion 0 0 0 1),
     (MVector (- 1) 0 0, MVector 0 1 0, MVector 1 0 0, MQuaternion 0 0 0 1))"
    using encode_chains_example [of 1] by simp
  have pose: "ikrig_encode_compute (encode_inputs_example 1) =
      Inr (encoded_pose roundtrip_inputs_example)"
    by (simp add: encode_compute_example roundtrip_inputs_example_def)
  have s1: "identity_scale (encode_inputs_example 1)"
    by (simp add: identity_scale_def encode_inputs_example_def)
  have s2: "identity_scale roundtrip_inputs_example"
    by (simp add: identity_scale_def roundtrip_inputs_example_def)
  have off: "offset_mat roundtrip_inputs_example = mat_identity"
    by (simp add: roundtrip_inputs_example_def)
  from roundtrip_identity_scale [OF enc pose s1 s2 off, of decode_outputs_init]
  show ?thesis by simp
qed

text \<open>
  On the example pose the decoded spine root is (0, 2, 0), while the encoder's
  intermediate spine root is (0, 1, 0): they differ by 1, far more than the tolerance.
\<close>

theorem roundtrip_spine_root_differs:
  "identity_scale (encode_inputs_example 1) \<and>
   identity_scale roundtrip_inputs_example \<and>
   offset_mat roundtrip_inputs_example = mat_identity \<and>
   ikrig_encode_compute (encode_inputs_example 1) = Inr (encoded_pose roundtrip_inputs_example) \<and>
   FK2encoded (MMatrix 1 0 0 0  0 1 0 0  0 0 1 0  1 1 0 1)
     (mat_hips (encode_inputs_example 1)) (mat_spine (encode_inputs_example 1))
     (mat_neck (encode_inputs_example 1)) (length_spine (encode_inputs_example 1)) =
     Inr (MVector 0 1 0, MVector 0 1 0, Inr (MVector 1 0 0), MQuaternion 0 0 0 1) \<and>
   fst (ikrig_decode_compute roundtrip_inputs_example decode_outputs_init) = None \<and>
   ik_Spine_root (snd (ikrig_decode_compute roundtrip_inputs_example decode_outputs_init)) =
     MVector 0 2 0 \<and>
   \<not> \<bar>vy (ik_Spine_root (snd (ikrig_decode_compute roundtrip_inputs_example decode_outputs_init)))
       - vy (MVector 0 1 0)\<bar> \<le> 1 / 100000"
proof -
  have s1: "identity_scale (encode_inputs_example 1)"
    by (simp add: identity_scale_def encode_inputs_example_def)
  have s2: "identity_scale roundtrip_inputs_example"
    by (simp add: identity_scale_def roundtrip_inputs_example_def)
  have off: "offset_mat roundtrip_inputs_example = mat_identity"
    by (simp add: roundtrip_inputs_example_def)
  have pose: "ikrig_encode_compute (encode_inputs_example 1) =
      Inr (encoded_pose roundtrip_inputs_example)"
    by (simp add: encode_compute_example roundtrip_inputs_example_def)
  have spine: "FK2encoded (MMatrix 1 0 0 0  0 1 0 0  0 0 1 0  1 1 0 1)
     (mat_hips (encode_inputs_example 1)) (mat_spine (encode_inputs_example 1))
     (mat_neck (encode_inputs_example 1)) (length_spine (encode_inputs_example 1)) =
     Inr (MVector 0 1 0, MVector 0 1 0, Inr (MVector 1 0 0), MQuaternion 0 0 0 1)"
    using pole_example [of 1]
    by (simp add: encode_inputs_example_def FK2encoded_translations bindE_Inr)
  note dec = decode_of_encoded [OF encoded_pose_example_components, of decode_outputs_init]
  have one: "height_hips roundtrip_inputs_example = 1"
    by (simp add: roundtrip_inputs_example_def)
  have root: "ik_Spine_root (snd (ikrig_decode_compute roundtrip_inputs_example decode_outputs_init)) =
     MVector 0 2 0"
    using dec(2) by (simp add: one)
  have far: "\<not> \<bar>vy (ik_Spine_root (snd (ikrig_decode_compute roundtrip_inputs_example
      decode_outputs_init))) - vy (MVector 0 1 0)\<bar> \<le> 1 / 100000"
    by (simp add: root)
  show ?thesis
    by (intro conjI) (rule s1 s2 off pose spine dec(1) root far)+
qed

subsection \<open>Scaled poses\<close>

lemma scale_translation_affine_mat:
  "scale_translation k (affine_mat a b c t) = affine_mat a b c (vscale t k)"
  by (simp add: scale_translation_def affine_mat_def vscale_def mult.commute)

lemma MMat2Trans_scale_translation:
  "MMat2Trans (scale_translation k m) = vscale (MMat2Trans m) k"
  by (simp add: MMat2Trans_def scale_translation_def mat_get_def vscale_def mult.commute)

lemma scale_translation_mat_translation:
  "scale_translation k (mat_translation x y z) = mat_translation (k * x) (k * y) (k * z)"
  by (simp add: scale_translation_def mat_translation_def)

lemma scale_pose_example: "scale_pose 2 (encode_inputs_example 1) = encode_inputs_example 2"
  by (simp add: scale_pose_def encode_inputs_example_def scale_translation_mat_translation)

text \<open>The inverse of a frame whose axes and translation are scaled by \<open>k\<close>.\<close>

lemma mat_inverse_scaled_frame:
  assumes "k \<noteq> 0"
    and "mat_inverse (affine_mat a b c t) = Inr (affine_mat ia ib ic it)"
  shows "mat_inverse (affine_mat (vscale a k) (vscale b k) (vscale c k) (vscale t k)) =
    Inr (affine_mat (vscale ia (1 / k)) (vscale ib (1 / k)) (vscale ic (1 / k)) it)"
proof -
  have D: "det3 a b c \<noteq> 0"
    using assms(2) by (auto simp: mat_inverse_def mat_det_affine_mat split: if_splits)
  have D': "det3 (vscale a k) (vscale b k) (vscale c k) = k * (k * (k * det3 a b c))"
    by (simp add: det3_vscale)
  then have D'0: "det3 (vscale a k) (vscale b k) (vscale c k) \<noteq> 0"
    using D assms(1) by simp
  have rows:
    "ia = vscale (MVector (vx (cross b c)) (vx (cross c a)) (vx (cross a b))) (1 / det3 a b c)"
    "ib = vscale (MVector (vy (cross b c)) (vy (cross c a)) (vy (cross a b))) (1 / det3 a b c)"
    "ic = vscale (MVector (vz (cross b c)) (vz (cross c a)) (vz (cross a b))) (1 / det3 a b c)"
    "it = vscale (MVector (- det3 t b c) (- det3 a t c) (- det3 a b t)) (1 / det3 a b c)"
    using assms(2) by (simp_all add: mat_inverse_affine_mat [OF D] affine_mat_inject)
  show ?thesis
    unfolding mat_inverse_affine_mat [OF D'0] rows cross_vscale det3_vscale
    using assms(1) D
    by (simp add: affine_mat_inject) (simp add: vscale_def)
qed

lemma root_translation_scaled:
  assumes "k \<noteq> 0"
  shows "MMat2Trans (mat_mul (scale_translation k r)
      (affine_mat (vscale ia (1 / k)) (vscale ib (1 / k)) (vscale ic (1 / k)) it)) =
    MMat2Trans (mat_mul r (affine_mat ia ib ic it))"
  using assms
  by (simp add: MMat2Trans_def mat_get_def mat_mul_def scale_translation_def affine_mat_def
      vscale_def)

lemma FK2encoded_scaled:
  assumes k: "0 < k"
    and eff_affine: "affine eff_jnt"
    and run: "FK2encoded (affine_mat a b c t) root_jnt dir_jnt eff_jnt chain_length =
      Inr (ik_root, ik_eff, ik_upv, ik_eff_rot)"
  shows "FK2encoded (affine_mat (vscale a k) (vscale b k) (vscale c k) (vscale t k))
      (scale_translation k root_jnt) (scale_translation k dir_jnt) (scale_translation k eff_jnt)
      chain_length =
    Inr (ik_root, vscale ik_eff k, ik_upv, ik_eff_rot)"
proof -
  define l_vec_eff where "l_vec_eff = vsub (MMat2Trans eff_jnt) (MMat2Trans root_jnt)"
  define l_vec_dir where "l_vec_dir = vsub (MMat2Trans root_jnt) (MMat2Trans dir_jnt)"
  define pole where "pole = cross (cross l_vec_dir l_vec_eff) l_vec_eff"
  have k0: "k \<noteq> 0" and kinv: "0 < 1 / k" and kk: "0 < k * k"
    using k by simp_all
  from run obtain g_inv g_hom g_hom_inv mat_hom where
    inv: "mat_inverse (affine_mat a b c t) = Inr g_inv"
    and hom: "homogenize (affine_mat a b c t) = Inr g_hom"
    and hom_inv: "mat_inverse g_hom = Inr g_hom_inv"
    and eff: "vdiv (vec_mat l_vec_eff g_hom_inv) chain_length = Inr ik_eff"
    and upv: "ik_upv = normal (vec_mat pole g_inv)"
    and rot: "homogenize (mat_mul eff_jnt g_inv) = Inr mat_hom"
    and root: "ik_root = MMat2Trans (mat_mul root_jnt g_inv)"
    and quat: "ik_eff_rot = setValue mat_hom"
    unfolding FK2encoded_def Let_def l_vec_eff_def l_vec_dir_def pole_def
    by (auto simp: bindE_eq_Inr)
  have D: "det3 a b c \<noteq> 0"
    using inv by (auto simp: mat_inverse_def mat_det_affine_mat split: if_splits)
  obtain ia ib ic it where g_inv: "g_inv = affine_mat ia ib ic it"
    using inv mat_inverse_affine_mat [OF D] by auto
  \<comment> \<open>the inverse of the scaled frame\<close>
  define g_inv' where
    "g_inv' = affine_mat (vscale ia (1 / k)) (vscale ib (1 / k)) (vscale ic (1 / k)) it"
  have inv': "mat_inverse (affine_mat (vscale a k) (vscale b k) (vscale c k) (vscale t k)) =
      Inr g_inv'"
    unfolding g_inv'_def using k0 inv [unfolded g_inv] by (rule mat_inverse_scaled_frame)
  have root': "MMat2Trans (mat_mul (scale_translation k root_jnt) g_inv') = ik_root"
    unfolding g_inv'_def root g_inv using k0 by (rule root_translation_scaled)
  \<comment> \<open>the homogenized scaled frame and its inverse\<close>
  obtain n0 n1 n2 where g_hom: "g_hom = affine_mat n0 n1 n2 t"
    and hom_t: "homogenize (affine_mat a b c (vscale t k)) = Inr (affine_mat n0 n1 n2 (vscale t k))"
    using homogenize_translation [OF hom] by blast
  have hom': "homogenize (affine_mat (vscale a k) (vscale b k) (vscale c k) (vscale t k)) =
      Inr (affine_mat n0 n1 n2 (vscale t k))"
    using hom_t by (simp add: homogenize_scaled_rows [OF k])
  obtain g_hom_inv' where hom_inv': "mat_inverse (affine_mat n0 n1 n2 (vscale t k)) = Inr g_hom_inv'"
    using mat_inverse_translation [OF hom_inv [unfolded g_hom]] by blast
  have same: "\<And>v. vec_mat v g_hom_inv' = vec_mat v g_hom_inv"
    using hom_inv [unfolded g_hom] hom_inv' by (rule vec_mat_inverse_translation_free)
  \<comment> \<open>the vectors of the scaled chain\<close>
  have l_vec_eff': "vsub (MMat2Trans (scale_translation k eff_jnt))
      (MMat2Trans (scale_translation k root_jnt)) = vscale l_vec_eff k"
    by (simp add: MMat2Trans_scale_translation vsub_vscale l_vec_eff_def)
  have l_vec_dir': "vsub (MMat2Trans (scale_translation k root_jnt))
      (MMat2Trans (scale_translation k dir_jnt)) = vscale l_vec_dir k"
    by (simp add: MMat2Trans_scale_translation vsub_vscale l_vec_dir_def)
  have eff': "vdiv (vec_mat (vscale l_vec_eff k) g_hom_inv') chain_length = Inr (vscale ik_eff k)"
    unfolding vec_mat_vscale same using eff by (rule vdiv_vscale)
  have "vec_mat (cross (cross (vscale l_vec_dir k) (vscale l_vec_eff k)) (vscale l_vec_eff k)) g_inv' =
      vscale (vec_mat pole g_inv) (k * k)"
    unfolding g_inv'_def g_inv cross_vscale vec_mat_vscale pole_def
      vec_mat_rows_vscale [where t' = it] vscale_vscale
    using k0 by simp
  then have upv': "normal (vec_mat (cross (cross (vscale l_vec_dir k) (vscale l_vec_eff k))
      (vscale l_vec_eff k)) g_inv') = ik_upv"
    using upv by (simp add: normal_vscale [OF kk])
  \<comment> \<open>the orientation of the effector\<close>
  define ea eb ec et where "ea = row0 eff_jnt" and "eb = row1 eff_jnt" and "ec = row2 eff_jnt"
    and "et = MMat2Trans eff_jnt"
  have e: "eff_jnt = affine_mat ea eb ec et"
    unfolding ea_def eb_def ec_def et_def using eff_affine by (rule affine_eq)
  have "mat_mul (scale_translation k eff_jnt) g_inv' =
      affine_mat (vscale (vec_mat ea g_inv) (1 / k)) (vscale (vec_mat eb g_inv) (1 / k))
        (vscale (vec_mat ec g_inv) (1 / k)) (vadd (vec_mat et g_inv) it)"
    unfolding e scale_translation_affine_mat g_inv'_def g_inv mat_mul_affine_mat
      vec_mat_vscale vec_mat_rows_vscale [where t' = it] vscale_vscale
    using k0 by (simp add: vscale_one)
  moreover have "mat_mul eff_jnt g_inv =
      affine_mat (vec_mat ea g_inv) (vec_mat eb g_inv) (vec_mat ec g_inv)
        (vadd (vec_mat et g_inv) it)"
    unfolding e g_inv by (rule mat_mul_affine_mat)
  ultimately have rot': "homogenize (mat_mul (scale_translation k eff_jnt) g_inv') = Inr mat_hom"
    using rot by (simp add: homogenize_scaled_rows [OF kinv])
  show ?thesis
    unfolding FK2encoded_def Let_def inv' bindE_Inr root' hom' hom_inv' l_vec_eff' l_vec_dir'
      eff' upv' rot' quat ..
qed

lemma frame_builder_affine_mat:
  assumes "mat_inverse (affine_mat ra rb rc rt) = Inr (affine_mat ia ib ic it)"
  shows "frame_builder (affine_mat ra rb rc rt) (affine_mat ha hb hc ht) h =
    bindE (normal (MVector (vx (vec_mat ic (affine_mat ha hb hc (MVector 0 0 0)))) 0
                           (vz (vec_mat ic (affine_mat ha hb hc (MVector 0 0 0)))))) (\<lambda>zaxis.
    bindE (normal zaxis) (\<lambda>zaxis_normal.
    bindE (homogenize (affine_mat (vscale (cross (MVector 0 1 0) zaxis_normal) h)
             (vscale (MVector 0 1 0) h) (vscale zaxis h) (MVector (vx ht) h (vz ht)))) (\<lambda>g_hom.
    Inr (vx ht, vz ht,
         affine_mat (vscale (cross (MVector 0 1 0) zaxis_normal) h)
           (vscale (MVector 0 1 0) h) (vscale zaxis h) (MVector (vx ht) h (vz ht)),
         setValue g_hom))))"
proof -
  have dir: "vec_mat (MVector 0 0 1) (mat_mul (affine_mat ia ib ic it) (affine_mat ha hb hc ht)) =
      vec_mat ic (affine_mat ha hb hc (MVector 0 0 0))"
    by (simp add: mat_mul_affine_mat vec_mat_affine_mat)
  have tr: "mat_get (affine_mat ha hb hc ht) 12 = vx ht" "mat_get (affine_mat ha hb hc ht) 14 = vz ht"
    by (simp_all add: affine_mat_def mat_get_def)
  show ?thesis
    unfolding frame_builder_def assms bindE_Inr Let_def dir tr frame_affine_mat ..
qed

lemma frame_builder_scaled:
  assumes k: "0 < k"
    and rest_affine: "affine hips_rest"
    and hips_affine: "affine hips"
    and run: "frame_builder hips_rest hips h = Inr (g_tr_x, g_tr_z, g_mat, g_ori)"
  shows "\<exists>a b c t. g_mat = affine_mat a b c t \<and>
    frame_builder (scale_translation k hips_rest) (scale_translation k hips) (k * h) =
      Inr (k * g_tr_x, k * g_tr_z,
           affine_mat (vscale a k) (vscale b k) (vscale c k) (vscale t k), g_ori)"
proof -
  define ra rb rc rt where "ra = row0 hips_rest" and "rb = row1 hips_rest"
    and "rc = row2 hips_rest" and "rt = MMat2Trans hips_rest"
  have rest: "hips_rest = affine_mat ra rb rc rt"
    unfolding ra_def rb_def rc_def rt_def using rest_affine by (rule affine_eq)
  define ha hb hc ht where "ha = row0 hips" and "hb = row1 hips"
    and "hc = row2 hips" and "ht = MMat2Trans hips"
  have hips: "hips = affine_mat ha hb hc ht"
    unfolding ha_def hb_def hc_def ht_def using hips_affine by (rule affine_eq)
  from run obtain rest_inv where inv: "mat_inverse (affine_mat ra rb rc rt) = Inr rest_inv"
    unfolding frame_builder_def rest by (auto simp: bindE_eq_Inr)
  have D: "det3 ra rb rc \<noteq> 0"
    using inv by (auto simp: mat_inverse_def mat_det_affine_mat split: if_splits)
  obtain ia ib ic it where inv1: "mat_inverse (affine_mat ra rb rc rt) = Inr (affine_mat ia ib ic it)"
    using inv mat_inverse_affine_mat [OF D] by auto
  obtain it' where inv2: "mat_inverse (affine_mat ra rb rc (vscale rt k)) =
      Inr (affine_mat ia ib ic it')"
    using mat_inverse_rows_translation [OF inv1] by blast
  define direction where
    "direction = MVector (vx (vec_mat ic (affine_mat ha hb hc (MVector 0 0 0)))) 0
                         (vz (vec_mat ic (affine_mat ha hb hc (MVector 0 0 0))))"
  from run obtain zaxis zaxis_normal g_hom where
    z: "normal direction = Inr zaxis"
    and zn: "normal zaxis = Inr zaxis_normal"
    and hom: "homogenize (affine_mat (vscale (cross (MVector 0 1 0) zaxis_normal) h)
        (vscale (MVector 0 1 0) h) (vscale zaxis h) (MVector (vx ht) h (vz ht))) = Inr g_hom"
    and g_tr: "g_tr_x = vx ht" "g_tr_z = vz ht"
    and g_mat: "g_mat = affine_mat (vscale (cross (MVector 0 1 0) zaxis_normal) h)
        (vscale (MVector 0 1 0) h) (vscale zaxis h) (MVector (vx ht) h (vz ht))"
    and g_ori: "g_ori = setValue g_hom"
    unfolding rest hips frame_builder_affine_mat [OF inv1] direction_def [symmetric]
    by (auto simp: bindE_eq_Inr)
  define x y where "x = vscale (cross (MVector 0 1 0) zaxis_normal) h"
    and "y = vscale (MVector 0 1 0) h"
  define zz where "zz = vscale zaxis h"
  define t where "t = MVector (vx ht) h (vz ht)"
  have scaled_rows: "vscale (cross (MVector 0 1 0) zaxis_normal) (k * h) = vscale x k"
    "vscale (MVector 0 1 0) (k * h) = vscale y k" "vscale zaxis (k * h) = vscale zz k"
    by (simp_all add: x_def y_def zz_def vscale_vscale mult.commute)
  have scaled_t: "MVector (k * g_tr_x) (k * h) (k * g_tr_z) = vscale t k"
    by (simp add: t_def g_tr vscale_def mult.commute)
  obtain n0 n1 n2 where g_hom: "g_hom = affine_mat n0 n1 n2 t"
    and hom_t: "homogenize (affine_mat x y zz (vscale t k)) = Inr (affine_mat n0 n1 n2 (vscale t k))"
    using homogenize_translation [OF hom [folded x_def y_def zz_def t_def]] by blast
  have hom': "homogenize (affine_mat (vscale x k) (vscale y k) (vscale zz k) (vscale t k)) =
      Inr (affine_mat n0 n1 n2 (vscale t k))"
    using hom_t by (simp add: homogenize_scaled_rows [OF k])
  have tr': "vx (vscale ht k) = k * g_tr_x" "vz (vscale ht k) = k * g_tr_z"
    by (simp_all add: g_tr vscale_def mult.commute)
  have ori: "setValue (affine_mat n0 n1 n2 (vscale t k)) = g_ori"
    unfolding g_ori g_hom by (rule setValue_translation_free)
  have "frame_builder (scale_translation k hips_rest) (scale_translation k hips) (k * h) =
      Inr (k * g_tr_x, k * g_tr_z,
           affine_mat (vscale x k) (vscale y k) (vscale zz k) (vscale t k), g_ori)"
    unfolding rest hips scale_translation_affine_mat frame_builder_affine_mat [OF inv2]
      direction_def [symmetric] z zn bindE_Inr scaled_rows tr' scaled_t hom' ori ..
  moreover have "g_mat = affine_mat x y zz t"
    by (simp add: g_mat x_def y_def zz_def t_def)
  ultimately show ?thesis by blast
qed

lemma encode_chains_scale_pose:
  assumes "0 < k" and "affine_pose inp"
    and "encode_chains inp =
      Inr (g_tr_x, g_tr_z, g_ori,
           (spine_root, spine_eff, spine_upv, spine_rot),
           (neck_root, neck_eff, neck_upv, neck_rot),
           (leg_root_L, leg_eff_L, leg_upv_L, leg_rot_L),
           (leg_root_R, leg_eff_R, leg_upv_R, leg_rot_R),
           (arm_root_L, arm_eff_L, arm_upv_L, arm_rot_L),
           (arm_root_R, arm_eff_R, arm_upv_R, arm_rot_R))"
  shows "encode_chains (scale_pose k inp) =
      Inr (k * g_tr_x, k * g_tr_z, g_ori,
           (spine_root, vscale spine_eff k, spine_upv, spine_rot),
           (neck_root, vscale neck_eff k, neck_upv, neck_rot),
           (leg_root_L, vscale leg_eff_L k, leg_upv_L, leg_rot_L),
           (leg_root_R, vscale leg_eff_R k, leg_upv_R, leg_rot_R),
           (arm_root_L, vscale arm_eff_L k, arm_upv_L, arm_rot_L),
           (arm_root_R, vscale arm_eff_R k, arm_upv_R, arm_rot_R))"
proof -
  note k = assms(1)
  from assms(2) have aff: "affine (mat_hips_rest inp)" "affine (mat_hips inp)"
    "affine (mat_neck inp)" "affine (mat_head inp)" "affine (mat_foot_L inp)"
    "affine (mat_foot_R inp)" "affine (mat_hand_L inp)" "affine (mat_hand_R inp)"
    by (simp_all add: affine_pose_def)
  from encode_chains_Inr [OF assms(3), unfolded encoded_chain_tuple] obtain g_mat where
    frame: "frame_builder (mat_hips_rest inp) (mat_hips inp) (height_hips inp) =
      Inr (g_tr_x, g_tr_z, g_mat, g_ori)"
    and spine: "FK2encoded g_mat (mat_hips inp) (mat_spine inp) (mat_neck inp) (length_spine inp) =
      Inr (spine_root, spine_eff, Inr spine_upv, spine_rot)"
    and leg_L: "FK2encoded (body_mat g_mat (mat_hips inp)) (mat_leg_L inp) (mat_shin_L inp)
      (mat_foot_L inp) (length_leg_L inp) = Inr (leg_root_L, leg_eff_L, Inr leg_upv_L, leg_rot_L)"
    and leg_R: "FK2encoded (body_mat g_mat (mat_hips inp)) (mat_leg_R inp) (mat_shin_R inp)
      (mat_foot_R inp) (length_leg_R inp) = Inr (leg_root_R, leg_eff_R, Inr leg_upv_R, leg_rot_R)"
    and arm_L: "FK2encoded (body_mat g_mat (mat_neck inp)) (mat_shoulder_L inp) (mat_elbow_L inp)
      (mat_hand_L inp) (length_arm_L inp) = Inr (arm_root_L, arm_eff_L, Inr arm_upv_L, arm_rot_L)"
    and arm_R: "FK2encoded (body_mat g_mat (mat_neck inp)) (mat_shoulder_R inp) (mat_elbow_R inp)
      (mat_hand_R inp) (length_arm_R inp) = Inr (arm_root_R, arm_eff_R, Inr arm_upv_R, arm_rot_R)"
    and neck: "FK2encoded (body_mat g_mat (mat_neck inp)) (mat_neck inp) (mat_neck_mid inp)
      (mat_head inp) (length_neck inp) = Inr (neck_root, neck_eff, Inr neck_upv, neck_rot)"
    by blast
  from frame_builder_scaled [OF k aff(1,2) frame] obtain a b c t where
    g_mat: "g_mat = affine_mat a b c t"
    and frame': "frame_builder (scale_translation k (mat_hips_rest inp))
      (scale_translation k (mat_hips inp)) (k * height_hips inp) =
      Inr (k * g_tr_x, k * g_tr_z,
           affine_mat (vscale a k) (vscale b k) (vscale c k) (vscale t k), g_ori)"
    by blast
  have body: "\<And>anchor. body_mat (affine_mat (vscale a k) (vscale b k) (vscale c k) (vscale t k))
      (scale_translation k anchor) =
      affine_mat (vscale a k) (vscale b k) (vscale c k) (vscale (MMat2Trans anchor) k)"
    by (simp add: body_mat_affine_mat MMat2Trans_scale_translation)
  note spine' = FK2encoded_scaled [OF k aff(3) spine [unfolded g_mat]]
  note leg_L' = FK2encoded_scaled [OF k aff(5) leg_L [unfolded g_mat body_mat_affine_mat]]
  note leg_R' = FK2encoded_scaled [OF k aff(6) leg_R [unfolded g_mat body_mat_affine_mat]]
  note arm_L' = FK2encoded_scaled [OF k aff(7) arm_L [unfolded g_mat body_mat_affine_mat]]
  note arm_R' = FK2encoded_scaled [OF k aff(8) arm_R [unfolded g_mat body_mat_affine_mat]]
  note neck' = FK2encoded_scaled [OF k aff(4) neck [unfolded g_mat body_mat_affine_mat]]
  show ?thesis
    by (simp add: encode_chains_def scale_pose_def frame' bindE_Inr body
        spine' leg_L' leg_R' arm_L' arm_R' neck')
qed

lemma vdiv_length_scaled:
  assumes "j \<noteq> 0" and "vdiv v len = Inr e"
  shows "vdiv v (j * len) = Inr (vscale e (1 / j))"
  using assms by (auto simp: vdiv_def vscale_def split: if_splits)

lemma FK2encoded_length_scaled:
  assumes "j \<noteq> 0"
    and "FK2encoded g_mat root_jnt dir_jnt eff_jnt chain_length =
      Inr (ik_root, ik_eff, ik_upv, ik_eff_rot)"
  shows "FK2encoded g_mat root_jnt dir_jnt eff_jnt (j * chain_length) =
      Inr (ik_root, vscale ik_eff (1 / j), ik_upv, ik_eff_rot)"
proof -
  from assms(2) obtain g_inv g_hom g_hom_inv mat_hom where
    inv: "mat_inverse g_mat = Inr g_inv"
    and hom: "homogenize g_mat = Inr g_hom"
    and hom_inv: "mat_inverse g_hom = Inr g_hom_inv"
    and eff: "vdiv (vec_mat (vsub (MMat2Trans eff_jnt) (MMat2Trans root_jnt)) g_hom_inv)
      chain_length = Inr ik_eff"
    and upv: "ik_upv = normal (vec_mat (cross (cross (vsub (MMat2Trans root_jnt) (MMat2Trans dir_jnt))
        (vsub (MMat2Trans eff_jnt) (MMat2Trans root_jnt)))
        (vsub (MMat2Trans eff_jnt) (MMat2Trans root_jnt))) g_inv)"
    and rot: "homogenize (mat_mul eff_jnt g_inv) = Inr mat_hom"
    and root: "ik_root = MMat2Trans (mat_mul root_jnt g_inv)"
    and quat: "ik_eff_rot = setValue mat_hom"
    unfolding FK2encoded_def Let_def by (auto simp: bindE_eq_Inr)
  note eff' = vdiv_length_scaled [OF assms(1) eff]
  show ?thesis
    unfolding FK2encoded_def Let_def inv bindE_Inr hom hom_inv eff' upv rot root quat ..
qed

lemma encode_chains_lengths_scaled:
  assumes "k \<noteq> 0"
    and "encode_chains inp =
      Inr (g_tr_x, g_tr_z, g_ori,
           (spine_root, spine_eff, spine_upv, spine_rot),
           (neck_root, neck_eff, neck_upv, neck_rot),
           (leg_root_L, leg_eff_L, leg_upv_L, leg_rot_L),
           (leg_root_R, leg_eff_R, leg_upv_R, leg_rot_R),
           (arm_root_L, arm_eff_L, arm_upv_L, arm_rot_L),
           (arm_root_R, arm_eff_R, arm_upv_R, arm_rot_R))"
  shows "encode_chains (scale_lengths k inp) =
      Inr (g_tr_x, g_tr_z, g_ori,
           (spine_root, vscale spine_eff (1 / k), spine_upv, spine_rot),
           (neck_root, vscale neck_eff (1 / k), neck_upv, neck_rot),
           (leg_root_L, vscale leg_eff_L (1 / k), leg_upv_L, leg_rot_L),
           (leg_root_R, vscale leg_eff_R (1 / k), leg_upv_R, leg_rot_R),
           (arm_root_L, vscale arm_eff_L (1 / k), arm_upv_L, arm_rot_L),
           (arm_root_R, vscale arm_eff_R (1 / k), arm_upv_R, arm_rot_R))"
proof -
  from encode_chains_Inr [OF assms(2), unfolded encoded_chain_tuple] obtain g_mat where
    frame: "frame_builder (mat_hips_rest inp) (mat_hips inp) (height_hips inp) =
      Inr (g_tr_x, g_tr_z, g_mat, g_ori)"
    and spine: "FK2encoded g_mat (mat_hips inp) (mat_spine inp) (mat_neck inp) (length_spine inp) =
      Inr (spine_root, spine_eff, Inr spine_upv, spine_rot)"
    and leg_L: "FK2encoded (body_mat g_mat (mat_hips inp)) (mat_leg_L inp) (mat_shin_L inp)
      (mat_foot_L inp) (length_leg_L inp) = Inr (leg_root_L, leg_eff_L, Inr leg_upv_L, leg_rot_L)"
    and leg_R: "FK2encoded (body_mat g_mat (mat_hips inp)) (mat_leg_R inp) (mat_shin_R inp)
      (mat_foot_R inp) (length_leg_R inp) = Inr (leg_root_R, leg_eff_R, Inr leg_upv_R, leg_rot_R)"
    and arm_L: "FK2encoded (body_mat g_mat (mat_neck inp)) (mat_shoulder_L inp) (mat_elbow_L inp)
      (mat_hand_L inp) (length_arm_L inp) = Inr (arm_root_L, arm_eff_L, Inr arm_upv_L, arm_rot_L)"
    and arm_R: "FK2encoded (body_mat g_mat (mat_neck inp)) (mat_shoulder_R inp) (mat_elbow_R inp)
      (mat_hand_R inp) (length_arm_R inp) = Inr (arm_root_R, arm_eff_R, Inr arm_upv_R, arm_rot_R)"
    and neck: "FK2encoded (body_mat g_mat (mat_neck inp)) (mat_neck inp) (mat_neck_mid inp)
      (mat_head inp) (length_neck inp) = Inr (neck_root, neck_eff, Inr neck_upv, neck_rot)"
    by blast
  note k = assms(1)
  show ?thesis
    by (simp add: encode_chains_def scale_lengths_def frame bindE_Inr
        FK2encoded_length_scaled [OF k spine] FK2encoded_length_scaled [OF k leg_L]
        FK2encoded_length_scaled [OF k leg_R] FK2encoded_length_scaled [OF k arm_L]
        FK2encoded_length_scaled [OF k arm_R] FK2encoded_length_scaled [OF k neck])
qed

lemma affine_pose_scale_pose: "affine_pose (scale_pose k inp) = affine_pose inp"
  by (simp add: affine_pose_def scale_pose_def affine_def scale_translation_def)

text \<open>
  C7, as the code has it. Let the joint matrices be affine and \<open>k\<close> positive. Scaling
  \<open>height_hips\<close> and every joint translation by \<open>k\<close> (rotations and chain lengths
  unchanged) leaves the root, the pole vector and the effector orientation of every
  chain and the global orientation unchanged, and multiplies every effector and the
  global translation (x, z) by \<open>k\<close>. When the six chain lengths are scaled by \<open>k\<close> as
  well, the effectors are unchanged too, and only the global translation is multiplied.
\<close>

theorem encode_scaled_pose:
  assumes "0 < k" and "affine_pose inp"
    and "encode_chains inp =
      Inr (g_tr_x, g_tr_z, g_ori,
           (spine_root, spine_eff, spine_upv, spine_rot),
           (neck_root, neck_eff, neck_upv, neck_rot),
           (leg_root_L, leg_eff_L, leg_upv_L, leg_rot_L),
           (leg_root_R, leg_eff_R, leg_upv_R, leg_rot_R),
           (arm_root_L, arm_eff_L, arm_upv_L, arm_rot_L),
           (arm_root_R, arm_eff_R, arm_upv_R, arm_rot_R))"
  shows "encode_chains (scale_pose k inp) =
      Inr (k * g_tr_x, k * g_tr_z, g_ori,
           (spine_root, vscale spine_eff k, spine_upv, spine_rot),
           (neck_root, vscale neck_eff k, neck_upv, neck_rot),
           (leg_root_L, vscale leg_eff_L k, leg_upv_L, leg_rot_L),
           (leg_root_R, vscale leg_eff_R k, leg_upv_R, leg_rot_R),
           (arm_root_L, vscale arm_eff_L k, arm_upv_L, arm_rot_L),
           (arm_root_R, vscale arm_eff_R k, arm_upv_R, arm_rot_R)) \<and>
    encode_chains (scale_lengths k (scale_pose k inp)) =
      Inr (k * g_tr_x, k * g_tr_z, g_ori,
           (spine_root, spine_eff, spine_upv, spine_rot),
           (neck_root, neck_eff, neck_upv, neck_rot),
           (leg_root_L, leg_eff_L, leg_upv_L, leg_rot_L),
           (leg_root_R, leg_eff_R, leg_upv_R, leg_rot_R),
           (arm_root_L, arm_eff_L, arm_upv_L, arm_rot_L),
           (arm_root_R, arm_eff_R, arm_upv_R, arm_rot_R))"
proof -
  have k0: "k \<noteq> 0"
    using assms(1) by simp
  note scaled = encode_chains_scale_pose [OF assms]
  have unscale: "\<And>v. vscale (vscale v k) (1 / k) = v"
    using k0 by (simp add: vscale_vscale vscale_one)
  from encode_chains_lengths_scaled [OF k0 scaled] scaled show ?thesis
    by (simp only: unscale simp_thms)
qed

theorem encode_scaled_pose_witness:
  "(0::real) < 2 \<and> affine_pose (encode_inputs_example 1) \<and>
   encode_chains (scale_pose 2 (encode_inputs_example 1)) =
    Inr (2, 0, MQuaternion 0 0 0 1,
     (MVector 0 1 0, MVector 0 2 0, MVector 1 0 0, MQuaternion 0 0 0 1),
     (MVector 0 0 0, MVector 0 2 0, MVector 1 0 0, MQuaternion 0 0 0 1),
     (MVector 1 0 0, MVector 0 (- 2) 0, MVector 1 0 0, MQuaternion 0 0 0 1),
     (MVector (- 1) 0 0, MVector 0 (- 2) 0, MVector 1 0 0, MQuaternion 0 0 0 1),
     (MVector 1 0 0, MVector 0 2 0, MVector 1 0 0, MQuaternion 0 0 0 1),
     (MVector (- 1) 0 0, MVector 0 2 0, MVector 1 0 0, MQuaternion 0 0 0 1)) \<and>
   encode_chains (scale_lengths 2 (scale_pose 2 (encode_inputs_example 1))) =
    Inr (2, 0, MQuaternion 0 0 0 1,
     (MVector 0 1 0, MVector 0 1 0, MVector 1 0 0, MQuaternion 0 0 0 1),
     (MVector 0 0 0, MVector 0 1 0, MVector 1 0 0, MQuaternion 0 0 0 1),
     (MVector 1 0 0, MVector 0 (- 1) 0, MVector 1 0 0, MQuaternion 0 0 0 1),
     (MVector (- 1) 0 0, MVector 0 (- 1) 0, MVector 1 0 0, MQuaternion 0 0 0 1),
     (MVector 1 0 0, MVector 0 1 0, MVector 1 0 0, MQuaternion 0 0 0 1),
     (MVector (- 1) 0 0, MVector 0 1 0, MVector 1 0 0, MQuaternion 0 0 0 1))"
proof -
  have k: "(0::real) < 2" by simp
  from encode_scaled_pose [OF k affine_pose_example encode_chains_example_1]
  show ?thesis
    by (simp add: affine_pose_example vscale_def)
qed

text \<open>
  The example pose scaled by 2 is encoded differently: the Y component of the spine
  effector (index 10) is 2 instead of 1, and so is the global translation x (index 0).
\<close>

theorem scaled_pose_encoding_differs:
  "affine_pose (encode_inputs_example 1) \<and>
   scale_pose 2 (encode_inputs_example 1) = encode_inputs_example 2 \<and>
   ikrig_encode_compute (encode_inputs_example 1) = Inr encoded_pose_example \<and>
   ikrig_encode_compute (scale_pose 2 (encode_inputs_example 1)) =
     Inr encoded_pose_example_scaled \<and>
   encoded_pose_example ! 10 = 1 \<and> encoded_pose_example_scaled ! 10 = 2 \<and>
   \<not> \<bar>encoded_pose_example_scaled ! 10 - encoded_pose_example ! 10\<bar> \<le> 1 / 100000 \<and>
   encoded_pose_example ! 0 = 1 \<and> encoded_pose_example_scaled ! 0 = 2 \<and>
   \<not> \<bar>encoded_pose_example_scaled ! 0 - encoded_pose_example ! 0\<bar> \<le> 1 / 100000"
  by (simp add: affine_pose_example scale_pose_example encode_compute_example
      encode_compute_example_scaled)
    (simp add: encoded_pose_example_def encoded_pose_example_scaled_def)

end
